theory Spec2Isabelle
  imports Complex_Main
begin

section \<open>Python values\<close>

text \<open>
  The two programs of the repository, \<^verbatim>\<open>alert.py\<close> and \<^verbatim>\<open>custom_exporter.py\<close>, are
  embedded as state-passing functions. A Python \<^verbatim>\<open>float\<close> is a real number or one of the three
  special values; the comparisons and the truth value (\<^verbatim>\<open>bool(x)\<close> is \<^verbatim>\<open>x != 0\<close>) are
  those of Python. The arithmetic of floats, which rounds and overflows, is not computed here:
  it is taken from the runtime, see below.
\<close>

datatype pyfloat = Finite real | PosInf | NegInf | NaN

fun float_lt :: "pyfloat \<Rightarrow> pyfloat \<Rightarrow> bool" where
  "float_lt (Finite a) (Finite b) = (a < b)"
| "float_lt (Finite a) PosInf = True"
| "float_lt NegInf (Finite b) = True"
| "float_lt NegInf PosInf = True"
| "float_lt _ _ = False"

definition float_gt :: "pyfloat \<Rightarrow> pyfloat \<Rightarrow> bool" where
  "float_gt x y = float_lt y x"

fun float_eq :: "pyfloat \<Rightarrow> pyfloat \<Rightarrow> bool" where
  "float_eq (Finite a) (Finite b) = (a = b)"
| "float_eq PosInf PosInf = True"
| "float_eq NegInf NegInf = True"
| "float_eq _ _ = False"

definition float_truthy :: "pyfloat \<Rightarrow> bool" where
  "float_truthy x = (\<not> float_eq x (Finite 0))"

text \<open>
  What \<^verbatim>\<open>json.loads\<close> returns: \<^verbatim>\<open>None\<close>, a bool, an int, a float, a str, a list or a dict
  with string keys (an association list; a parsed object has distinct keys).
\<close>

datatype json =
    JNull
  | JBool bool
  | JInt int
  | JFloat pyfloat
  | JStr string
  | JArr "json list"
  | JObj "(string \<times> json) list"

datatype exn =
    RequestException
  | HTTPError int
  | JSONDecodeError
  | BadRequest
  | KeyError json
  | IndexError
  | TypeError
  | ValueError
  | AttributeError
  | OverflowError
  | ZeroDivisionError

text \<open>Expressions that may raise return \<open>exn + 'a\<close>, with \<open>Inl\<close> the exception.\<close>

definition ebind :: "exn + 'a \<Rightarrow> ('a \<Rightarrow> exn + 'b) \<Rightarrow> exn + 'b" where
  "ebind r f = (case r of Inl e \<Rightarrow> Inl e | Inr x \<Rightarrow> f x)"

text \<open>\<^verbatim>\<open>bool(x)\<close> of a parsed value.\<close>

fun truthy :: "json \<Rightarrow> bool" where
  "truthy JNull = False"
| "truthy (JBool b) = b"
| "truthy (JInt i) = (i \<noteq> 0)"
| "truthy (JFloat x) = float_truthy x"
| "truthy (JStr s) = (s \<noteq> [])"
| "truthy (JArr xs) = (xs \<noteq> [])"
| "truthy (JObj kvs) = (kvs \<noteq> [])"

text \<open>\<^verbatim>\<open>x[k]\<close> with a string key \<open>k\<close>.\<close>

fun subscript :: "json \<Rightarrow> string \<Rightarrow> exn + json" where
  "subscript (JObj kvs) k = (case map_of kvs k of None \<Rightarrow> Inl (KeyError (JStr k)) | Some v \<Rightarrow> Inr v)"
| "subscript _ k = Inl TypeError"

text \<open>\<^verbatim>\<open>x[i]\<close> with a literal index \<open>i \<ge> 0\<close>; a dict with string keys has no integer key.\<close>

fun index :: "json \<Rightarrow> nat \<Rightarrow> exn + json" where
  "index (JArr xs) i = (if i < length xs then Inr (xs ! i) else Inl IndexError)"
| "index (JStr s) i = (if i < length s then Inr (JStr [s ! i]) else Inl IndexError)"
| "index (JObj kvs) i = Inl (KeyError (JInt (int i)))"
| "index _ i = Inl TypeError"

text \<open>\<^verbatim>\<open>d.get(k, default)\<close>: only a dict has the method.\<close>

fun dict_get :: "json \<Rightarrow> string \<Rightarrow> json \<Rightarrow> exn + json" where
  "dict_get (JObj kvs) k d = (case map_of kvs k of None \<Rightarrow> Inr d | Some v \<Rightarrow> Inr v)"
| "dict_get _ k d = Inl AttributeError"

text \<open>
  What the programs take from the Python runtime: how \<^verbatim>\<open>float\<close> reads a string
  (\<open>None\<close> where it raises \<^verbatim>\<open>ValueError\<close>), how an int becomes a float and how an int is
  divided by an int (\<open>None\<close> where Python raises \<^verbatim>\<open>OverflowError\<close>), and the division,
  sum, difference and remainder of two floats. These round to the 64-bit format and are
  parameters of the model; nothing is assumed of them.
\<close>

record runtime =
  str_to_float :: "string \<Rightarrow> pyfloat option"
  int_to_float :: "int \<Rightarrow> pyfloat option"
  int_truediv :: "int \<Rightarrow> int \<Rightarrow> pyfloat option"
  float_truediv :: "pyfloat \<Rightarrow> pyfloat \<Rightarrow> pyfloat"
  float_plus :: "pyfloat \<Rightarrow> pyfloat \<Rightarrow> pyfloat"
  float_minus :: "pyfloat \<Rightarrow> pyfloat \<Rightarrow> pyfloat"
  float_rem :: "pyfloat \<Rightarrow> pyfloat \<Rightarrow> pyfloat"

text \<open>
  \<^verbatim>\<open>float(x)\<close>. An int up to \<open>2\<^sup>5\<^sup>3\<close> in absolute value is a float as it is; a larger one
  is rounded by the runtime, or raises.
\<close>

fun py_float :: "'a runtime_scheme \<Rightarrow> json \<Rightarrow> exn + pyfloat" where
  "py_float rt (JInt i) =
     (if \<bar>i\<bar> \<le> 2 ^ 53 then Inr (Finite (of_int i))
      else case int_to_float rt i of None \<Rightarrow> Inl OverflowError | Some x \<Rightarrow> Inr x)"
| "py_float rt (JFloat x) = Inr x"
| "py_float rt (JBool b) = Inr (Finite (if b then 1 else 0))"
| "py_float rt (JStr s) = (case str_to_float rt s of None \<Rightarrow> Inl ValueError | Some x \<Rightarrow> Inr x)"
| "py_float rt _ = Inl TypeError"

text \<open>
  \<^verbatim>\<open>i / c\<close> for two ints. The quotient is correctly rounded: where \<open>c\<close> divides \<open>i\<close> and
  the quotient is at most \<open>2\<^sup>5\<^sup>3\<close> in absolute value, it is that quotient; otherwise it is the
  runtime's, which may raise.
\<close>

definition int_div :: "'a runtime_scheme \<Rightarrow> int \<Rightarrow> int \<Rightarrow> exn + pyfloat" where
  "int_div rt i c =
     (if c = 0 then Inl ZeroDivisionError
      else if c dvd i \<and> \<bar>i div c\<bar> \<le> 2 ^ 53 then Inr (Finite (of_int (i div c)))
      else case int_truediv rt i c of None \<Rightarrow> Inl OverflowError | Some x \<Rightarrow> Inr x)"

text \<open>\<^verbatim>\<open>x / c\<close>: true division of a value by an int constant; a bool is an int.\<close>

fun py_truediv :: "'a runtime_scheme \<Rightarrow> json \<Rightarrow> int \<Rightarrow> exn + pyfloat" where
  "py_truediv rt (JInt i) c = int_div rt i c"
| "py_truediv rt (JBool b) c = int_div rt (if b then 1 else 0) c"
| "py_truediv rt (JFloat x) c =
     (if c = 0 then Inl ZeroDivisionError
      else case py_float rt (JInt c) of
             Inl ex \<Rightarrow> Inl ex
           | Inr d \<Rightarrow> Inr (float_truediv rt x d))"
| "py_truediv rt _ c = Inl TypeError"

text \<open>\<^verbatim>\<open>x + y\<close>: ints (a bool is an int) add as ints; with a float among two numbers both
  are made floats and added by the runtime; two strs and two lists are joined.\<close>

fun int_of :: "json \<Rightarrow> int option" where
  "int_of (JInt i) = Some i"
| "int_of (JBool b) = Some (if b then 1 else 0)"
| "int_of _ = None"

fun is_number :: "json \<Rightarrow> bool" where
  "is_number (JInt i) = True"
| "is_number (JBool b) = True"
| "is_number (JFloat x) = True"
| "is_number _ = False"

definition py_add :: "'a runtime_scheme \<Rightarrow> json \<Rightarrow> json \<Rightarrow> exn + json" where
  "py_add rt a b =
     (case (int_of a, int_of b) of
        (Some i, Some j) \<Rightarrow> Inr (JInt (i + j))
      | _ \<Rightarrow>
        if is_number a \<and> is_number b then
          ebind (py_float rt a) (\<lambda>x.
          ebind (py_float rt b) (\<lambda>y. Inr (JFloat (float_plus rt x y))))
        else
          (case (a, b) of
             (JStr s, JStr t) \<Rightarrow> Inr (JStr (s @ t))
           | (JArr xs, JArr ys) \<Rightarrow> Inr (JArr (xs @ ys))
           | _ \<Rightarrow> Inl TypeError))"

text \<open>
  Strings that Python builds by formatting stay symbolic: a text is a list of pieces, a literal,
  \<^verbatim>\<open>format(v, spec)\<close> of a value (\<^verbatim>\<open>str(v)\<close> when the spec is empty), the text of an
  exception, or \<^verbatim>\<open>strftime\<close> of a clock reading.
\<close>

datatype piece = Lit string | Fmt string json | Exc exn | Strftime string nat

type_synonym pytext = "piece list"

text \<open>A Python object handed to the notifier: a str (as a text) or a parsed value.\<close>

datatype pyobj = Str pytext | Json json

fun py_str :: "pyobj \<Rightarrow> pytext" where
  "py_str (Str t) = t"
| "py_str (Json (JStr s)) = [Lit s]"
| "py_str (Json j) = [Fmt [] j]"

section \<open>Effects\<close>

text \<open>
  A statement is a function from the state to an outcome and the new state; the outcome is
  the returned value or the exception raised. The state changes made before an exception stay.
\<close>

type_synonym ('s, 'a) prog = "'s \<Rightarrow> (exn + 'a) \<times> 's"

definition ret :: "'a \<Rightarrow> ('s, 'a) prog" where
  "ret x = (\<lambda>s. (Inr x, s))"

definition raise :: "exn \<Rightarrow> ('s, 'a) prog" where
  "raise e = (\<lambda>s. (Inl e, s))"

definition lift :: "exn + 'a \<Rightarrow> ('s, 'a) prog" where
  "lift r = (\<lambda>s. (r, s))"

definition bind :: "('s, 'a) prog \<Rightarrow> ('a \<Rightarrow> ('s, 'b) prog) \<Rightarrow> ('s, 'b) prog" where
  "bind m f = (\<lambda>s. case m s of (Inl e, s') \<Rightarrow> (Inl e, s') | (Inr x, s') \<Rightarrow> f x s')"

definition try_except :: "('s, 'a) prog \<Rightarrow> (exn \<Rightarrow> ('s, 'a) prog) \<Rightarrow> ('s, 'a) prog" where
  "try_except m h = (\<lambda>s. case m s of (Inl e, s') \<Rightarrow> h e s' | (Inr x, s') \<Rightarrow> (Inr x, s'))"

text \<open>
  The reply to one HTTP request: no reply at all (connection refused, timeout), or a status code
  and the body, \<open>None\<close> when the body is not JSON.
\<close>

datatype http_result = ConnectionFailed | Response int "json option"

text \<open>\<^verbatim>\<open>requests.get\<close> / \<^verbatim>\<open>requests.post\<close> raise when there is no reply.\<close>

fun requests_reply :: "http_result \<Rightarrow> exn + (int \<times> json option)" where
  "requests_reply ConnectionFailed = Inl RequestException"
| "requests_reply (Response code body) = Inr (code, body)"

text \<open>\<^verbatim>\<open>Response.raise_for_status\<close> of the requests library raises for 4xx and 5xx codes.\<close>

definition raise_for_status :: "int \<times> json option \<Rightarrow> exn + unit" where
  "raise_for_status r = (if 400 \<le> fst r \<and> fst r < 600 then Inl (HTTPError (fst r)) else Inr ())"

definition response_json :: "int \<times> json option \<Rightarrow> exn + json" where
  "response_json r = (case snd r of None \<Rightarrow> Inl JSONDecodeError | Some j \<Rightarrow> Inr j)"

datatype level = INFO | ERROR

text \<open>
  What both processes keep: the lines logged, the sleeps taken, and how often the clock was
  read.
\<close>

record process =
  logged :: "(level \<times> pytext) list"
  slept :: "nat list"
  clock_reads :: nat

definition logger :: "level \<Rightarrow> pytext \<Rightarrow> ('a process_scheme, unit) prog" where
  "logger lv msg = (\<lambda>w. (Inr (), w\<lparr>logged := logged w @ [(lv, msg)]\<rparr>))"

definition time_sleep :: "nat \<Rightarrow> ('a process_scheme, unit) prog" where
  "time_sleep n = (\<lambda>w. (Inr (), w\<lparr>slept := slept w @ [n]\<rparr>))"


section \<open>alert.py: the notifier\<close>

text \<open>
  The environment of one run of \<^verbatim>\<open>alert.py\<close>: the reply of the metrics backend to each
  query expression, the reply of the chat webhook to the \<open>n\<close>-th POST of the process, and
  the reading of the \<open>n\<close>-th call of \<^verbatim>\<open>datetime.now()\<close>.
\<close>

record env = runtime +
  prometheus :: "string \<Rightarrow> http_result"
  webhook :: "nat \<Rightarrow> http_result"
  clock :: "nat \<Rightarrow> nat"

text \<open>The MessageCard that \<^verbatim>\<open>send_alert\<close> posts.\<close>

record card =
  themeColor :: string
  summary :: pytext
  activityTitle :: pytext
  activitySubtitle :: pytext
  card_text :: pyobj
  card_facts :: "(string \<times> pytext) list"
  potentialAction :: "(pytext \<times> string) list"

record history_entry =
  h_title :: pytext
  h_time :: nat
  h_status :: string

text \<open>One call of \<^verbatim>\<open>send_alert\<close>, with its arguments.\<close>

record call =
  c_title :: pytext
  c_message :: pyobj
  c_type :: string
  c_facts :: "(string \<times> pyobj) list option"

text \<open>
  The state of the process: the \<^verbatim>\<open>alert_history\<close> of the alerter and the cards posted;
  \<open>calls\<close> records every call of \<^verbatim>\<open>send_alert\<close> in order.
\<close>

record world = process +
  alert_history :: "history_entry list"
  outbox :: "card list"
  calls :: "call list"

definition datetime_now :: "env \<Rightarrow> (world, nat) prog" where
  "datetime_now e = (\<lambda>w. (Inr (clock e (clock_reads w)), w\<lparr>clock_reads := Suc (clock_reads w)\<rparr>))"

text \<open>\<^verbatim>\<open>requests.post\<close> to the webhook: the card leaves, the reply is the environment's.\<close>

definition requests_post :: "env \<Rightarrow> card \<Rightarrow> (world, int \<times> json option) prog" where
  "requests_post e payload =
     (\<lambda>w. (requests_reply (webhook e (length (outbox w))), w\<lparr>outbox := outbox w @ [payload]\<rparr>))"

definition history_append :: "history_entry \<Rightarrow> (world, unit) prog" where
  "history_append h = (\<lambda>w. (Inr (), w\<lparr>alert_history := alert_history w @ [h]\<rparr>))"

definition enter_send_alert :: "call \<Rightarrow> (world, unit) prog" where
  "enter_send_alert c = (\<lambda>w. (Inr (), w\<lparr>calls := calls w @ [c]\<rparr>))"

text \<open>The pictographs of the source, as their UTF-8 bytes.\<close>

definition sym_clock :: string where
  "sym_clock = [CHR 0xF0, CHR 0x9F, CHR 0x95, CHR 0x92]"
definition sym_check :: string where
  "sym_check = [CHR 0xE2, CHR 0x9C, CHR 0x85]"
definition sym_cross :: string where
  "sym_cross = [CHR 0xE2, CHR 0x9D, CHR 0x8C]"
definition sym_siren :: string where
  "sym_siren = [CHR 0xF0, CHR 0x9F, CHR 0x9A, CHR 0xA8]"
definition sym_warning :: string where
  "sym_warning = [CHR 0xE2, CHR 0x9A, CHR 0xA0, CHR 0xEF, CHR 0xB8, CHR 0x8F]"
definition sym_globe :: string where
  "sym_globe = [CHR 0xF0, CHR 0x9F, CHR 0x8C, CHR 0x90]"
definition sym_chart :: string where
  "sym_chart = [CHR 0xF0, CHR 0x9F, CHR 0x93, CHR 0x8A]"
definition sym_trend :: string where
  "sym_trend = [CHR 0xF0, CHR 0x9F, CHR 0x93, CHR 0x88]"
definition sym_glass :: string where
  "sym_glass = [CHR 0xF0, CHR 0x9F, CHR 0x94, CHR 0x8D]"
definition sym_rocket :: string where
  "sym_rocket = [CHR 0xF0, CHR 0x9F, CHR 0x9A, CHR 0x80]"
definition sym_degree :: string where
  "sym_degree = [CHR 0xC2, CHR 0xB0]"

definition colors :: "(string \<times> string) list" where
  "colors = [(''info'', ''0076D7''), (''warning'', ''FF8C00''), (''error'', ''D83B01''),
             (''success'', ''107C10'')]"

definition facts_items :: "(string \<times> pyobj) list option \<Rightarrow> (string \<times> pyobj) list" where
  "facts_items facts = (case facts of None \<Rightarrow> [] | Some fs \<Rightarrow> fs)"

definition make_payload ::
  "pytext \<Rightarrow> pyobj \<Rightarrow> string \<Rightarrow> (string \<times> pyobj) list option \<Rightarrow> nat \<Rightarrow> card" where
  "make_payload title message alert_type facts t =
     \<lparr> themeColor = (case map_of colors alert_type of None \<Rightarrow> ''0076D7'' | Some c \<Rightarrow> c),
       summary = title,
       activityTitle = title,
       activitySubtitle = [Lit (sym_clock @ '' ''), Strftime ''%Y-%m-%d %H:%M:%S'' t],
       card_text = message,
       card_facts = map (\<lambda>(k, v). (k, py_str v)) (facts_items facts),
       potentialAction =
         [([Lit (sym_chart @ '' Open Grafana'')], ''http://localhost:3000''),
          ([Lit (sym_trend @ '' Open Prometheus'')], ''http://localhost:9090'')] \<rparr>"

definition send_alert ::
  "env \<Rightarrow> pytext \<Rightarrow> pyobj \<Rightarrow> string \<Rightarrow> (string \<times> pyobj) list option \<Rightarrow> (world, bool) prog" where
  "send_alert e title message alert_type facts =
     bind (enter_send_alert \<lparr>c_title = title, c_message = message, c_type = alert_type,
                             c_facts = facts\<rparr>) (\<lambda>_.
     bind (datetime_now e) (\<lambda>t.
     try_except
       (bind (requests_post e (make_payload title message alert_type facts t)) (\<lambda>response.
          if fst response = 200 then
            bind (logger INFO (Lit (sym_check @ '' Alert sent: '') # title)) (\<lambda>_.
            bind (datetime_now e) (\<lambda>t'.
            bind (history_append \<lparr>h_title = title, h_time = t', h_status = ''sent''\<rparr>) (\<lambda>_.
            ret True)))
          else
            bind (logger ERROR [Lit (sym_cross @ '' Failed to send alert: ''),
                                Fmt [] (JInt (fst response))]) (\<lambda>_.
            ret False)))
       (\<lambda>ex.
          bind (logger ERROR [Lit (sym_cross @ '' Error sending alert: ''), Exc ex]) (\<lambda>_.
          ret False))))"

definition database_alert ::
  "env \<Rightarrow> pyobj \<Rightarrow> pyobj \<Rightarrow> pyobj \<Rightarrow> pyobj \<Rightarrow> (world, bool) prog" where
  "database_alert e metric val threshold message =
     send_alert e [Lit (sym_siren @ '' Database Alert'')] message ''error''
       (Some [(''Metric'', metric), (''Current Value'', val), (''Threshold'', threshold),
              (''Component'', Str [Lit ''PostgreSQL''])])"

definition system_alert ::
  "env \<Rightarrow> pyobj \<Rightarrow> pyobj \<Rightarrow> pyobj \<Rightarrow> pyobj \<Rightarrow> (world, bool) prog" where
  "system_alert e metric val threshold message =
     send_alert e [Lit (sym_warning @ '' System Alert'')] message ''warning''
       (Some [(''Metric'', metric), (''Current Value'', val), (''Threshold'', threshold),
              (''Component'', Str [Lit ''System Resources''])])"

definition api_alert :: "env \<Rightarrow> pyobj \<Rightarrow> pyobj \<Rightarrow> pyobj \<Rightarrow> (world, bool) prog" where
  "api_alert e metric val message =
     send_alert e [Lit (sym_globe @ '' API Alert'')] message ''info''
       (Some [(''Metric'', metric), (''Current Value'', val),
              (''Component'', Str [Lit ''External APIs''])])"

definition success_alert :: "env \<Rightarrow> pyobj \<Rightarrow> pyobj \<Rightarrow> (world, bool) prog" where
  "success_alert e service message =
     bind (datetime_now e) (\<lambda>t.
     send_alert e [Lit (sym_check @ '' Service Recovered'')] message ''success''
       (Some [(''Service'', service), (''Status'', Str [Lit ''Recovered'']),
              (''Time'', Str [Strftime ''%H:%M:%S'' t])]))"


section \<open>alert.py: the metric monitor\<close>

definition MONITORING_INTERVAL :: nat where
  "MONITORING_INTERVAL = 30"

text \<open>The body of the \<^verbatim>\<open>try\<close> of \<^verbatim>\<open>query_prometheus\<close>; it changes no state.\<close>

definition query_body :: "env \<Rightarrow> string \<Rightarrow> exn + pyfloat option" where
  "query_body e query =
     ebind (requests_reply (prometheus e query)) (\<lambda>response.
     ebind (raise_for_status response) (\<lambda>_.
     ebind (response_json response) (\<lambda>data.
     ebind (ebind (subscript data ''data'') (\<lambda>d. subscript d ''result'')) (\<lambda>result.
       if truthy result then
         ebind (index result 0) (\<lambda>r.
         ebind (subscript r ''value'') (\<lambda>v.
         ebind (index v 1) (\<lambda>x.
         ebind (py_float e x) (\<lambda>y. Inr (Some y)))))
       else Inr None))))"

definition query_prometheus :: "env \<Rightarrow> string \<Rightarrow> (world, pyfloat option) prog" where
  "query_prometheus e query =
     try_except (lift (query_body e query))
       (\<lambda>ex. bind (logger ERROR [Lit ''Error querying Prometheus: '', Exc ex]) (\<lambda>_. ret None))"

text \<open>
  \<^verbatim>\<open>if x and cmp(x): alert(x)\<close>: \<^verbatim>\<open>None\<close> and \<open>0.0\<close> are false, and the comparison is
  not reached for them.
\<close>

definition if_truthy_and ::
  "pyfloat option \<Rightarrow> (pyfloat \<Rightarrow> bool) \<Rightarrow> (pyfloat \<Rightarrow> (world, bool) prog) \<Rightarrow> (world, unit) prog" where
  "if_truthy_and x cmp alert =
     (case x of
        None \<Rightarrow> ret ()
      | Some v \<Rightarrow> if float_truthy v \<and> cmp v then bind (alert v) (\<lambda>_. ret ()) else ret ())"

text \<open>\<^verbatim>\<open>if x == 0: alert\<close>: \<^verbatim>\<open>None\<close> is not equal to 0.\<close>

definition if_equals_zero :: "pyfloat option \<Rightarrow> (world, bool) prog \<Rightarrow> (world, unit) prog" where
  "if_equals_zero x alert =
     (case x of
        None \<Rightarrow> ret ()
      | Some v \<Rightarrow> if float_eq v (Finite 0) then bind alert (\<lambda>_. ret ()) else ret ())"

text \<open>The eight blocks of \<^verbatim>\<open>check_alerts\<close>, each named by the variable it assigns.\<close>

definition q_connections :: string where
  "q_connections = ''pg_stat_activity_count{datname=\"postgres\"}''"
definition q_db_size :: string where
  "q_db_size = ''pg_database_size{datname=\"postgres\"} / 1024 / 1024 / 1024''"
definition q_cpu_usage :: string where
  "q_cpu_usage = ''100 - (avg by (instance) (rate(node_cpu_seconds_total{mode=\"idle\"}[5m])) * 100)''"
definition q_memory_usage :: string where
  "q_memory_usage = ''(1 - (node_memory_MemAvailable_bytes / node_memory_MemTotal_bytes)) * 100''"
definition q_temperature :: string where
  "q_temperature = ''weather_temperature_celsius{city=\"Astana\"}''"
definition q_btc_price :: string where
  "q_btc_price = ''crypto_bitcoin_price_usd''"
definition q_postgres_up :: string where
  "q_postgres_up = ''pg_up''"
definition q_node_up :: string where
  "q_node_up = ''up{job=\"node\"}''"

definition check_connections :: "env \<Rightarrow> (world, unit) prog" where
  "check_connections e =
     bind (query_prometheus e q_connections) (\<lambda>connections.
     if_truthy_and connections (\<lambda>v. float_gt v (Finite 50)) (\<lambda>connections.
       database_alert e (Str [Lit ''Active Connections'']) (Json (JFloat connections))
          (Json (JInt 50))
          (Str [Lit ''High database connections: '', Fmt [] (JFloat connections)])))"

definition check_db_size :: "env \<Rightarrow> (world, unit) prog" where
  "check_db_size e =
     bind (query_prometheus e q_db_size) (\<lambda>db_size.
     if_truthy_and db_size (\<lambda>v. float_gt v (Finite 1)) (\<lambda>db_size.
       database_alert e (Str [Lit ''Database Size''])
          (Str [Fmt ''.2f'' (JFloat db_size), Lit '' GB'']) (Str [Lit ''1 GB''])
          (Str [Lit ''Database size is large: '', Fmt ''.2f'' (JFloat db_size),
                Lit '' GB''])))"

definition check_cpu_usage :: "env \<Rightarrow> (world, unit) prog" where
  "check_cpu_usage e =
     bind (query_prometheus e q_cpu_usage) (\<lambda>cpu_usage.
     if_truthy_and cpu_usage (\<lambda>v. float_gt v (Finite 80)) (\<lambda>cpu_usage.
       system_alert e (Str [Lit ''CPU Usage''])
          (Str [Fmt ''.1f'' (JFloat cpu_usage), Lit ''%'']) (Str [Lit ''80%''])
          (Str [Lit ''High CPU usage: '', Fmt ''.1f'' (JFloat cpu_usage), Lit ''%''])))"

definition check_memory_usage :: "env \<Rightarrow> (world, unit) prog" where
  "check_memory_usage e =
     bind (query_prometheus e q_memory_usage) (\<lambda>memory_usage.
     if_truthy_and memory_usage (\<lambda>v. float_gt v (Finite 85)) (\<lambda>memory_usage.
       system_alert e (Str [Lit ''Memory Usage''])
          (Str [Fmt ''.1f'' (JFloat memory_usage), Lit ''%'']) (Str [Lit ''85%''])
          (Str [Lit ''High memory usage: '', Fmt ''.1f'' (JFloat memory_usage),
                Lit ''%''])))"

definition check_temperature :: "env \<Rightarrow> (world, unit) prog" where
  "check_temperature e =
     bind (query_prometheus e q_temperature) (\<lambda>temperature.
     if_truthy_and temperature (\<lambda>v. float_gt v (Finite 30)) (\<lambda>temperature.
       api_alert e (Str [Lit ''Weather Temperature''])
          (Str [Fmt [] (JFloat temperature), Lit (sym_degree @ ''C'')])
          (Str [Lit ''High temperature in Astana: '', Fmt [] (JFloat temperature),
                Lit (sym_degree @ ''C'')])))"

definition check_btc_price :: "env \<Rightarrow> (world, unit) prog" where
  "check_btc_price e =
     bind (query_prometheus e q_btc_price) (\<lambda>btc_price.
     if_truthy_and btc_price (\<lambda>v. float_lt v (Finite 40000)) (\<lambda>btc_price.
       api_alert e (Str [Lit ''Bitcoin Price''])
          (Str [Lit ''$'', Fmt '',.2f'' (JFloat btc_price)])
          (Str [Lit ''Bitcoin price dropped: $'', Fmt '',.2f'' (JFloat btc_price)])))"

definition check_postgres_up :: "env \<Rightarrow> (world, unit) prog" where
  "check_postgres_up e =
     bind (query_prometheus e q_postgres_up) (\<lambda>postgres_up.
     if_equals_zero postgres_up
       (database_alert e (Str [Lit ''PostgreSQL Status'']) (Str [Lit ''DOWN''])
          (Str [Lit ''UP'']) (Str [Lit ''PostgreSQL database is down!''])))"

definition check_node_up :: "env \<Rightarrow> (world, unit) prog" where
  "check_node_up e =
     bind (query_prometheus e q_node_up) (\<lambda>node_up.
     if_equals_zero node_up
       (system_alert e (Str [Lit ''Node Exporter'']) (Str [Lit ''DOWN''])
          (Str [Lit ''UP'']) (Str [Lit ''Node Exporter is not running!''])))"

definition check_alerts :: "env \<Rightarrow> (world, unit) prog" where
  "check_alerts e =
     bind (logger INFO [Lit (sym_glass @ '' Checking metrics for alerts...'')]) (\<lambda>_.
     bind (check_connections e) (\<lambda>_.
     bind (check_db_size e) (\<lambda>_.
     bind (check_cpu_usage e) (\<lambda>_.
     bind (check_memory_usage e) (\<lambda>_.
     bind (check_temperature e) (\<lambda>_.
     bind (check_btc_price e) (\<lambda>_.
     bind (check_postgres_up e) (\<lambda>_.
     check_node_up e))))))))"

text \<open>
  One pass of the \<^verbatim>\<open>while True\<close> of \<^verbatim>\<open>start_monitoring\<close>, for any body in the place of
  \<^verbatim>\<open>self.check_alerts()\<close>.
\<close>

definition monitoring_pass :: "(world, unit) prog \<Rightarrow> (world, unit) prog" where
  "monitoring_pass check =
     try_except (bind check (\<lambda>_. time_sleep MONITORING_INTERVAL))
       (\<lambda>ex. bind (logger ERROR [Lit ''Monitoring error: '', Exc ex]) (\<lambda>_. time_sleep 10))"

text \<open>
  The loop, observed for a number of passes (the fuel): pass \<open>n\<close> runs the \<open>n\<close>-th body. The
  loop has no exit of its own: \<open>Inl\<close> is an exception leaving a pass, with the state it
  left; \<open>Inr\<close> is the state after the passes observed, with the loop still running.
\<close>

fun monitoring_loop ::
  "nat \<Rightarrow> (nat \<Rightarrow> (world, unit) prog) \<Rightarrow> nat \<Rightarrow> world \<Rightarrow> (exn \<times> world) + world" where
  "monitoring_loop 0 checks n w = Inr w"
| "monitoring_loop (Suc fuel) checks n w =
     (case monitoring_pass (checks n) w of
        (Inl ex, w') \<Rightarrow> Inl (ex, w')
      | (Inr _, w') \<Rightarrow> monitoring_loop fuel checks (Suc n) w')"

text \<open>\<^verbatim>\<open>start_monitoring\<close>: the environment of the \<open>n\<close>-th pass is \<open>ticks n\<close>.\<close>

definition start_monitoring :: "nat \<Rightarrow> (nat \<Rightarrow> env) \<Rightarrow> world \<Rightarrow> (exn \<times> world) + world" where
  "start_monitoring fuel ticks w =
     monitoring_loop fuel (\<lambda>n. check_alerts (ticks n)) 0
       (snd (logger INFO [Lit (sym_rocket @ '' Starting continuous monitoring...'')] w))"

section \<open>alert.py: the alert server\<close>

fun starts_with :: "string \<Rightarrow> string \<Rightarrow> bool" where
  "starts_with s [] = True"
| "starts_with [] (p # ps) = False"
| "starts_with (c # cs) (p # ps) = (c = p \<and> starts_with cs ps)"

text \<open>\<^verbatim>\<open>p in s\<close> for two strings.\<close>

fun str_contains :: "string \<Rightarrow> string \<Rightarrow> bool" where
  "str_contains [] p = (p = [])"
| "str_contains (c # cs) p = (starts_with (c # cs) p \<or> str_contains cs p)"

text \<open>
  \<^verbatim>\<open>s.lower()\<close> on the ASCII letters; no other character lowers to a letter of the three
  words searched for.
\<close>

definition lower_char :: "char \<Rightarrow> char" where
  "lower_char c =
     (case map_of (zip ''ABCDEFGHIJKLMNOPQRSTUVWXYZ'' ''abcdefghijklmnopqrstuvwxyz'') c of
        None \<Rightarrow> c | Some d \<Rightarrow> d)"

fun py_lower :: "json \<Rightarrow> exn + string" where
  "py_lower (JStr s) = Inr (map lower_char s)"
| "py_lower _ = Inl AttributeError"

text \<open>\<^verbatim>\<open>k in x\<close> for a string \<open>k\<close>: a key of a dict, an element of a list, a substring.\<close>

fun py_in :: "string \<Rightarrow> json \<Rightarrow> exn + bool" where
  "py_in k (JObj kvs) = Inr (k \<in> set (map fst kvs))"
| "py_in k (JArr xs) = Inr (JStr k \<in> set xs)"
| "py_in k (JStr s) = Inr (str_contains s k)"
| "py_in k _ = Inl TypeError"

text \<open>\<^verbatim>\<open>for a in x\<close>: the elements of a list, the keys of a dict, the characters of a str.\<close>

fun py_iter :: "json \<Rightarrow> exn + json list" where
  "py_iter (JArr xs) = Inr xs"
| "py_iter (JObj kvs) = Inr (map (\<lambda>kv. JStr (fst kv)) kvs)"
| "py_iter (JStr s) = Inr (map (\<lambda>c. JStr [c]) s)"
| "py_iter _ = Inl TypeError"

fun for_each :: "('a \<Rightarrow> ('s, unit) prog) \<Rightarrow> 'a list \<Rightarrow> ('s, unit) prog" where
  "for_each f [] = ret ()"
| "for_each f (x # xs) = bind (f x) (\<lambda>_. for_each f xs)"

text \<open>
  \<^verbatim>\<open>request.json\<close> of Flask, for a request whose content type is JSON: the body parsed,
  and \<^verbatim>\<open>BadRequest\<close> raised when it does not parse (\<open>None\<close>).
\<close>

definition request_json :: "json option \<Rightarrow> exn + json" where
  "request_json body = (case body of None \<Rightarrow> Inl BadRequest | Some j \<Rightarrow> Inr j)"

definition process_prometheus_alert :: "env \<Rightarrow> json \<Rightarrow> (world, unit) prog" where
  "process_prometheus_alert e alert =
     bind (lift (ebind (subscript alert ''labels'')
                   (\<lambda>labels. dict_get labels ''alertname'' (JStr ''Unknown'')))) (\<lambda>alertname.
     bind (lift (subscript alert ''status'')) (\<lambda>status.
     bind (lift (ebind (subscript alert ''annotations'')
                   (\<lambda>annotations. dict_get annotations ''description'' (JStr [])))) (\<lambda>description.
     if status = JStr ''resolved'' then
       bind (success_alert e (Json alertname)
               (Str (Lit ''Alert resolved: '' # py_str (Json description)))) (\<lambda>_. ret ())
     else
       bind (lift (py_lower alertname)) (\<lambda>lowered.
       if str_contains lowered ''database'' then
         bind (database_alert e (Json alertname) (Str [Lit ''Problem detected''])
                 (Str [Lit ''Normal'']) (Json description)) (\<lambda>_. ret ())
       else if str_contains lowered ''cpu'' \<or> str_contains lowered ''memory'' then
         bind (system_alert e (Json alertname) (Str [Lit ''Problem detected''])
                 (Str [Lit ''Normal'']) (Json description)) (\<lambda>_. ret ())
       else
         bind (api_alert e (Json alertname) (Str [Lit ''Problem detected''])
                 (Json description)) (\<lambda>_. ret ())))))"

text \<open>The reply of the endpoint: the JSON object sent back and the status code.\<close>

type_synonym reply = "(string \<times> pytext) list \<times> nat"

definition handle_alert :: "env \<Rightarrow> json option \<Rightarrow> (world, reply) prog" where
  "handle_alert e request =
     try_except
       (bind (lift (request_json request)) (\<lambda>data.
        bind (lift (if \<not> truthy data then Inr True
                    else ebind (py_in ''alerts'' data) (\<lambda>b. Inr (\<not> b)))) (\<lambda>invalid.
        if invalid then ret ([(''error'', [Lit ''Invalid alert data''])], 400)
        else
          bind (lift (ebind (subscript data ''alerts'') py_iter)) (\<lambda>alerts.
          bind (for_each (process_prometheus_alert e) alerts) (\<lambda>_.
          ret ([(''status'', [Lit ''success''])], 200))))))
       (\<lambda>ex.
          bind (logger ERROR [Lit ''Error processing alert: '', Exc ex]) (\<lambda>_.
          ret ([(''error'', [Exc ex])], 500)))"

section \<open>custom_exporter.py\<close>

text \<open>
  The environment of one tick of the exporter: the replies of the four requests and the
  reading of the \<open>n\<close>-th call of \<^verbatim>\<open>time.time()\<close>.
\<close>

record xenv = runtime +
  weather_api :: http_result
  crypto_api :: http_result
  usd_api :: http_result
  eur_api :: http_result
  time_time :: "nat \<Rightarrow> real"

text \<open>
  The registry: the value of each gauge (by name and label values), the error counter and the
  observations of the histogram by \<^verbatim>\<open>api_name\<close>, and the module's \<^verbatim>\<open>start_time\<close>.
\<close>

type_synonym metric = "string \<times> string list"

record exporter = process +
  gauges :: "metric \<Rightarrow> pyfloat option"
  error_counter :: "string \<Rightarrow> nat"
  api_response_time :: "string \<Rightarrow> pyfloat list"
  start_time :: real

definition weather_temperature :: metric where
  "weather_temperature = (''weather_temperature_celsius'', [''Astana'', ''Kazakhstan''])"
definition weather_windspeed :: metric where
  "weather_windspeed = (''weather_windspeed_kmh'', [''Astana'', ''Kazakhstan''])"
definition weather_humidity :: metric where
  "weather_humidity = (''weather_humidity_percent'', [''Astana'', ''Kazakhstan''])"
definition weather_visibility :: metric where
  "weather_visibility = (''weather_visibility_km'', [''Astana'', ''Kazakhstan''])"
definition crypto_bitcoin_price :: metric where
  "crypto_bitcoin_price = (''crypto_bitcoin_price_usd'', [])"
definition crypto_ethereum_price :: metric where
  "crypto_ethereum_price = (''crypto_ethereum_price_usd'', [])"
definition crypto_market_cap :: metric where
  "crypto_market_cap = (''crypto_total_market_cap'', [])"
definition exchange_rate_usd :: metric where
  "exchange_rate_usd = (''exchange_rate_usd_kzt'', [])"
definition exchange_rate_eur :: metric where
  "exchange_rate_eur = (''exchange_rate_eur_kzt'', [])"
definition weather_api_status :: metric where
  "weather_api_status = (''weather_api_status'', [])"
definition crypto_api_status :: metric where
  "crypto_api_status = (''crypto_api_status'', [])"
definition exporter_uptime :: metric where
  "exporter_uptime = (''exporter_uptime_seconds'', [])"
definition astana_population :: metric where
  "astana_population = (''city_population'', [''Astana'', ''Kazakhstan''])"
definition current_timestamp :: metric where
  "current_timestamp = (''current_unix_timestamp'', [])"
definition random_metric :: metric where
  "random_metric = (''random_metric_value'', [])"

text \<open>\<^verbatim>\<open>Gauge.set(v)\<close> stores \<^verbatim>\<open>float(v)\<close>, which may raise.\<close>

definition gauge_set :: "xenv \<Rightarrow> metric \<Rightarrow> json \<Rightarrow> (exporter, unit) prog" where
  "gauge_set e g v =
     bind (lift (py_float e v)) (\<lambda>x.
     (\<lambda>s. (Inr (), s\<lparr>gauges := (gauges s)(g \<mapsto> x)\<rparr>)))"

text \<open>
  \<^verbatim>\<open>Gauge.labels(...)\<close>, evaluated before the argument of the \<^verbatim>\<open>set\<close> that follows it:
  the child of these label values is created at 0.0 when there is none yet.
\<close>

definition gauge_labels :: "metric \<Rightarrow> (exporter, unit) prog" where
  "gauge_labels g =
     (\<lambda>s. (Inr (), s\<lparr>gauges := (gauges s)(g \<mapsto>
                        (case gauges s g of None \<Rightarrow> Finite 0 | Some x \<Rightarrow> x))\<rparr>))"

definition counter_inc :: "string \<Rightarrow> (exporter, unit) prog" where
  "counter_inc api = (\<lambda>s. (Inr (), s\<lparr>error_counter := (error_counter s)(api := Suc (error_counter s api))\<rparr>))"

definition observe :: "string \<Rightarrow> pyfloat \<Rightarrow> (exporter, unit) prog" where
  "observe api x =
     (\<lambda>s. (Inr (), s\<lparr>api_response_time :=
                        (api_response_time s)(api := api_response_time s api @ [x])\<rparr>))"

definition time_now :: "xenv \<Rightarrow> (exporter, real) prog" where
  "time_now e = (\<lambda>s. (Inr (time_time e (clock_reads s)), s\<lparr>clock_reads := Suc (clock_reads s)\<rparr>))"

definition get_start_time :: "(exporter, real) prog" where
  "get_start_time = (\<lambda>s. (Inr (start_time s), s))"

text \<open>\<^verbatim>\<open>requests.get\<close>, \<^verbatim>\<open>raise_for_status\<close> and \<^verbatim>\<open>json\<close> in a row.\<close>

definition get_json :: "http_result \<Rightarrow> exn + json" where
  "get_json reply =
     ebind (requests_reply reply) (\<lambda>response.
     ebind (raise_for_status response) (\<lambda>_. response_json response))"

definition fetch_weather_data :: "xenv \<Rightarrow> (exporter, bool) prog" where
  "fetch_weather_data e =
     try_except
       (bind (time_now e) (\<lambda>start.
        bind (lift (get_json (weather_api e))) (\<lambda>data.
        bind (lift (subscript data ''current_weather'')) (\<lambda>current.
        bind (lift (subscript data ''hourly'')) (\<lambda>hourly.
        bind (gauge_labels weather_temperature) (\<lambda>_.
        bind (lift (subscript current ''temperature'')) (\<lambda>temperature.
        bind (gauge_set e weather_temperature temperature) (\<lambda>_.
        bind (gauge_labels weather_windspeed) (\<lambda>_.
        bind (lift (subscript current ''windspeed'')) (\<lambda>windspeed.
        bind (gauge_set e weather_windspeed windspeed) (\<lambda>_.
        bind (gauge_labels weather_humidity) (\<lambda>_.
        bind (lift (ebind (subscript hourly ''relativehumidity_2m'') (\<lambda>h. index h 0))) (\<lambda>humidity.
        bind (gauge_set e weather_humidity humidity) (\<lambda>_.
        bind (gauge_labels weather_visibility) (\<lambda>_.
        bind (lift (ebind (ebind (subscript hourly ''visibility'') (\<lambda>v. index v 0))
                      (\<lambda>v. py_truediv e v 1000))) (\<lambda>visibility.
        bind (gauge_set e weather_visibility (JFloat visibility)) (\<lambda>_.
        bind (gauge_set e weather_api_status (JInt 1)) (\<lambda>_.
        bind (time_now e) (\<lambda>finish.
        bind (observe ''weather'' (float_minus e (Finite finish) (Finite start))) (\<lambda>_.
        bind (logger INFO [Lit (sym_check @ '' Weather data fetched successfully'')]) (\<lambda>_.
        ret True)))))))))))))))))))))
       (\<lambda>ex.
          bind (gauge_set e weather_api_status (JInt 0)) (\<lambda>_.
          bind (counter_inc ''weather'') (\<lambda>_.
          bind (logger ERROR [Lit (sym_cross @ '' Weather API error: ''), Exc ex]) (\<lambda>_.
          ret False))))"


definition fetch_crypto_data :: "xenv \<Rightarrow> (exporter, bool) prog" where
  "fetch_crypto_data e =
     try_except
       (bind (time_now e) (\<lambda>start.
        bind (lift (get_json (crypto_api e))) (\<lambda>data.
        bind (lift (ebind (subscript data ''bitcoin'') (\<lambda>b. subscript b ''usd''))) (\<lambda>btc.
        bind (gauge_set e crypto_bitcoin_price btc) (\<lambda>_.
        bind (lift (ebind (subscript data ''ethereum'') (\<lambda>b. subscript b ''usd''))) (\<lambda>eth.
        bind (gauge_set e crypto_ethereum_price eth) (\<lambda>_.
        bind (lift (ebind (ebind (subscript data ''bitcoin'') (\<lambda>b. subscript b ''usd_market_cap''))
                (\<lambda>x. ebind (ebind (subscript data ''ethereum'')
                                 (\<lambda>b. subscript b ''usd_market_cap''))
                (\<lambda>y. py_add e x y)))) (\<lambda>total_market_cap.
        bind (gauge_set e crypto_market_cap total_market_cap) (\<lambda>_.
        bind (gauge_set e crypto_api_status (JInt 1)) (\<lambda>_.
        bind (time_now e) (\<lambda>finish.
        bind (observe ''crypto'' (float_minus e (Finite finish) (Finite start))) (\<lambda>_.
        bind (logger INFO [Lit (sym_check @ '' Crypto data fetched successfully'')]) (\<lambda>_.
        ret True)))))))))))))
       (\<lambda>ex.
          bind (gauge_set e crypto_api_status (JInt 0)) (\<lambda>_.
          bind (counter_inc ''crypto'') (\<lambda>_.
          bind (logger ERROR [Lit (sym_cross @ '' Crypto API error: ''), Exc ex]) (\<lambda>_.
          ret False))))"

definition fetch_exchange_rates :: "xenv \<Rightarrow> (exporter, bool) prog" where
  "fetch_exchange_rates e =
     try_except
       (bind (time_now e) (\<lambda>start.
        bind (lift (get_json (usd_api e))) (\<lambda>data.
        bind (lift (ebind (subscript data ''rates'') (\<lambda>r. subscript r ''KZT''))) (\<lambda>usd_rate.
        bind (gauge_set e exchange_rate_usd usd_rate) (\<lambda>_.
        bind (lift (get_json (eur_api e))) (\<lambda>data_eur.
        bind (lift (ebind (subscript data_eur ''rates'') (\<lambda>r. subscript r ''KZT''))) (\<lambda>eur_rate.
        bind (gauge_set e exchange_rate_eur eur_rate) (\<lambda>_.
        bind (time_now e) (\<lambda>finish.
        bind (observe ''exchange'' (float_minus e (Finite finish) (Finite start))) (\<lambda>_.
        bind (logger INFO [Lit (sym_check @ '' Exchange rates fetched successfully'')]) (\<lambda>_.
        ret True)))))))))))
       (\<lambda>ex.
          bind (counter_inc ''exchange'') (\<lambda>_.
          bind (logger ERROR [Lit (sym_cross @ '' Exchange rates API error: ''), Exc ex]) (\<lambda>_.
          ret False)))"

definition fetch_static_data :: "xenv \<Rightarrow> (exporter, bool) prog" where
  "fetch_static_data e =
     try_except
       (bind (gauge_labels astana_population) (\<lambda>_.
        bind (gauge_set e astana_population (JInt 1300000)) (\<lambda>_.
        bind (time_now e) (\<lambda>t.
        bind (gauge_set e current_timestamp (JFloat (Finite t))) (\<lambda>_.
        bind (time_now e) (\<lambda>t'.
        bind (gauge_set e random_metric (JFloat (float_rem e (Finite t') (Finite 100)))) (\<lambda>_.
        bind (logger INFO [Lit (sym_check @ '' Static data updated'')]) (\<lambda>_.
        ret True))))))))
       (\<lambda>ex.
          bind (logger ERROR [Lit (sym_cross @ '' Static data error: ''), Exc ex]) (\<lambda>_.
          ret False))"

text \<open>One pass of the \<^verbatim>\<open>while True\<close> of \<^verbatim>\<open>main_loop\<close>.\<close>

definition main_loop_pass :: "xenv \<Rightarrow> (exporter, unit) prog" where
  "main_loop_pass e =
     bind (try_except
             (bind (time_now e) (\<lambda>t.
              bind get_start_time (\<lambda>t0.
              bind (gauge_set e exporter_uptime (JFloat (float_minus e (Finite t) (Finite t0)))) (\<lambda>_.
              bind (fetch_weather_data e) (\<lambda>_.
              bind (fetch_crypto_data e) (\<lambda>_.
              bind (fetch_exchange_rates e) (\<lambda>_.
              bind (fetch_static_data e) (\<lambda>_.
              logger INFO [Lit (sym_check @ '' All metrics updated successfully'')]))))))))
             (\<lambda>ex. logger ERROR [Lit (sym_cross @ '' Unexpected error in main loop: ''), Exc ex]))
       (\<lambda>_. time_sleep 20)"


section \<open>Notions used in the statements\<close>

text \<open>What \<^verbatim>\<open>query_prometheus\<close> returns for a query: \<open>None\<close> is Python's \<^verbatim>\<open>None\<close>.\<close>

definition metric_value :: "env \<Rightarrow> string \<Rightarrow> pyfloat option" where
  "metric_value e q = (case query_body e q of Inl ex \<Rightarrow> None | Inr v \<Rightarrow> v)"

text \<open>
  A statement emits the calls \<open>cs\<close> when, from every state, it returns without raising after
  exactly these calls of \<^verbatim>\<open>send_alert\<close>, each with one POST to the webhook.
\<close>

definition emits :: "(world, 'a) prog \<Rightarrow> call list \<Rightarrow> bool" where
  "emits m cs =
     (\<forall>w. \<exists>x w'. m w = (Inr x, w') \<and> calls w' = calls w @ cs \<and>
                  length (outbox w') = length (outbox w) + length cs)"

text \<open>The calls that the four wrappers make.\<close>

definition database_call :: "pyobj \<Rightarrow> pyobj \<Rightarrow> pyobj \<Rightarrow> pyobj \<Rightarrow> call" where
  "database_call metric val threshold message =
     \<lparr>c_title = [Lit (sym_siren @ '' Database Alert'')], c_message = message, c_type = ''error'',
      c_facts = Some [(''Metric'', metric), (''Current Value'', val), (''Threshold'', threshold),
                      (''Component'', Str [Lit ''PostgreSQL''])]\<rparr>"

definition system_call :: "pyobj \<Rightarrow> pyobj \<Rightarrow> pyobj \<Rightarrow> pyobj \<Rightarrow> call" where
  "system_call metric val threshold message =
     \<lparr>c_title = [Lit (sym_warning @ '' System Alert'')], c_message = message,
      c_type = ''warning'',
      c_facts = Some [(''Metric'', metric), (''Current Value'', val), (''Threshold'', threshold),
                      (''Component'', Str [Lit ''System Resources''])]\<rparr>"

definition api_call :: "pyobj \<Rightarrow> pyobj \<Rightarrow> pyobj \<Rightarrow> call" where
  "api_call metric val message =
     \<lparr>c_title = [Lit (sym_globe @ '' API Alert'')], c_message = message, c_type = ''info'',
      c_facts = Some [(''Metric'', metric), (''Current Value'', val),
                      (''Component'', Str [Lit ''External APIs''])]\<rparr>"

definition success_call :: "pyobj \<Rightarrow> pyobj \<Rightarrow> nat \<Rightarrow> call" where
  "success_call service message t =
     \<lparr>c_title = [Lit (sym_check @ '' Service Recovered'')], c_message = message,
      c_type = ''success'',
      c_facts = Some [(''Service'', service), (''Status'', Str [Lit ''Recovered'']),
                      (''Time'', Str [Strftime ''%H:%M:%S'' t])]\<rparr>"

text \<open>The calls about one metric, by the \<^verbatim>\<open>Metric\<close> fact.\<close>

definition calls_for :: "string \<Rightarrow> call list \<Rightarrow> call list" where
  "calls_for metric cs =
     filter (\<lambda>c. map_of (facts_items (c_facts c)) ''Metric'' = Some (Str [Lit metric])) cs"

text \<open>The calls that a statement adds from a state.\<close>

definition new_calls :: "(world, 'a) prog \<Rightarrow> world \<Rightarrow> call list" where
  "new_calls m w = drop (length (calls w)) (calls (snd (m w)))"

text \<open>Inputs for the examples: a process that has done nothing yet, and an environment.\<close>

definition idle :: world where
  "idle = \<lparr>logged = [], slept = [], clock_reads = 0, alert_history = [], outbox = [],
           calls = []\<rparr>"

definition sample_float :: "string \<Rightarrow> pyfloat option" where
  "sample_float = map_of [(''0'', Finite 0), (''51'', Finite 51), (''39000'', Finite 39000)]"

text \<open>
  The arithmetic of the examples is exact; it is Python's wherever the exact result is a
  64-bit float, as it is for every value of the examples.
\<close>

fun exact :: "(real \<Rightarrow> real \<Rightarrow> real) \<Rightarrow> pyfloat \<Rightarrow> pyfloat \<Rightarrow> pyfloat" where
  "exact f (Finite a) (Finite b) = Finite (f a b)"
| "exact f x y = NaN"

definition env_of :: "(string \<Rightarrow> http_result) \<Rightarrow> (nat \<Rightarrow> http_result) \<Rightarrow> env" where
  "env_of p h =
     \<lparr>str_to_float = sample_float, int_to_float = (\<lambda>i. Some (Finite (of_int i))),
      int_truediv = (\<lambda>i c. Some (Finite (of_int i / of_int c))),
      float_truediv = exact (\<lambda>a b. a / b), float_plus = exact (\<lambda>a b. a + b),
      float_minus = exact (\<lambda>a b. a - b), float_rem = exact (\<lambda>a b. a - b * of_int \<lfloor>a / b\<rfloor>),
      prometheus = p, webhook = h, clock = (\<lambda>n. n)\<rparr>"

text \<open>
  The calls that one pass of \<^verbatim>\<open>check_alerts\<close> is to make, rule by rule, from the values
  returned for the eight queries.
\<close>

definition threshold_calls ::
  "pyfloat option \<Rightarrow> (pyfloat \<Rightarrow> bool) \<Rightarrow> (pyfloat \<Rightarrow> call) \<Rightarrow> call list" where
  "threshold_calls x cmp c =
     (case x of None \<Rightarrow> [] | Some v \<Rightarrow> if float_truthy v \<and> cmp v then [c v] else [])"

definition liveness_calls :: "pyfloat option \<Rightarrow> call \<Rightarrow> call list" where
  "liveness_calls x c =
     (case x of None \<Rightarrow> [] | Some v \<Rightarrow> if float_eq v (Finite 0) then [c] else [])"

definition connections_call :: "pyfloat \<Rightarrow> call" where
  "connections_call v =
     database_call (Str [Lit ''Active Connections'']) (Json (JFloat v)) (Json (JInt 50))
       (Str [Lit ''High database connections: '', Fmt [] (JFloat v)])"

definition db_size_call :: "pyfloat \<Rightarrow> call" where
  "db_size_call v =
     database_call (Str [Lit ''Database Size'']) (Str [Fmt ''.2f'' (JFloat v), Lit '' GB''])
       (Str [Lit ''1 GB''])
       (Str [Lit ''Database size is large: '', Fmt ''.2f'' (JFloat v), Lit '' GB''])"

definition cpu_usage_call :: "pyfloat \<Rightarrow> call" where
  "cpu_usage_call v =
     system_call (Str [Lit ''CPU Usage'']) (Str [Fmt ''.1f'' (JFloat v), Lit ''%''])
       (Str [Lit ''80%''])
       (Str [Lit ''High CPU usage: '', Fmt ''.1f'' (JFloat v), Lit ''%''])"

definition memory_usage_call :: "pyfloat \<Rightarrow> call" where
  "memory_usage_call v =
     system_call (Str [Lit ''Memory Usage'']) (Str [Fmt ''.1f'' (JFloat v), Lit ''%''])
       (Str [Lit ''85%''])
       (Str [Lit ''High memory usage: '', Fmt ''.1f'' (JFloat v), Lit ''%''])"

definition temperature_call :: "pyfloat \<Rightarrow> call" where
  "temperature_call v =
     api_call (Str [Lit ''Weather Temperature''])
       (Str [Fmt [] (JFloat v), Lit (sym_degree @ ''C'')])
       (Str [Lit ''High temperature in Astana: '', Fmt [] (JFloat v), Lit (sym_degree @ ''C'')])"

definition btc_price_call :: "pyfloat \<Rightarrow> call" where
  "btc_price_call v =
     api_call (Str [Lit ''Bitcoin Price'']) (Str [Lit ''$'', Fmt '',.2f'' (JFloat v)])
       (Str [Lit ''Bitcoin price dropped: $'', Fmt '',.2f'' (JFloat v)])"

definition postgres_down_call :: call where
  "postgres_down_call =
     database_call (Str [Lit ''PostgreSQL Status'']) (Str [Lit ''DOWN'']) (Str [Lit ''UP''])
       (Str [Lit ''PostgreSQL database is down!''])"

definition node_down_call :: call where
  "node_down_call =
     system_call (Str [Lit ''Node Exporter'']) (Str [Lit ''DOWN'']) (Str [Lit ''UP''])
       (Str [Lit ''Node Exporter is not running!''])"

definition tick_calls :: "env \<Rightarrow> call list" where
  "tick_calls e =
     threshold_calls (metric_value e q_connections) (\<lambda>v. float_gt v (Finite 50)) connections_call @
     threshold_calls (metric_value e q_db_size) (\<lambda>v. float_gt v (Finite 1)) db_size_call @
     threshold_calls (metric_value e q_cpu_usage) (\<lambda>v. float_gt v (Finite 80)) cpu_usage_call @
     threshold_calls (metric_value e q_memory_usage) (\<lambda>v. float_gt v (Finite 85))
       memory_usage_call @
     threshold_calls (metric_value e q_temperature) (\<lambda>v. float_gt v (Finite 30))
       temperature_call @
     threshold_calls (metric_value e q_btc_price) (\<lambda>v. float_lt v (Finite 40000))
       btc_price_call @
     liveness_calls (metric_value e q_postgres_up) postgres_down_call @
     liveness_calls (metric_value e q_node_up) node_down_call"

text \<open>Example replies of the metrics backend: one sample with the value given as a string.\<close>

definition sample_body :: "string \<Rightarrow> json" where
  "sample_body v =
     JObj [(''status'', JStr ''success''),
           (''data'', JObj [(''resultType'', JStr ''vector''),
                           (''result'', JArr [JObj [(''metric'', JObj []),
                                                   (''value'', JArr [JInt 1700000000, JStr v])]])])]"

definition only_query :: "string \<Rightarrow> http_result \<Rightarrow> string \<Rightarrow> http_result" where
  "only_query q r = (\<lambda>q'. if q' = q then r else ConnectionFailed)"

text \<open>Environments of the examples: every query answered with one sample, or with one reply.\<close>

definition env_all :: "string \<Rightarrow> env" where
  "env_all v = env_of (\<lambda>q. Response 200 (Some (sample_body v))) (\<lambda>n. Response 200 None)"

definition env_reply :: "http_result \<Rightarrow> env" where
  "env_reply r = env_of (\<lambda>q. r) (\<lambda>n. Response 200 None)"

definition env_btc_zero :: env where
  "env_btc_zero =
     env_of (only_query q_btc_price (Response 200 (Some (sample_body ''0''))))
       (\<lambda>n. Response 200 None)"

text \<open>The same from one state.\<close>

definition emits_at :: "(world, 'a) prog \<Rightarrow> world \<Rightarrow> call list \<Rightarrow> bool" where
  "emits_at m w cs =
     (\<exists>x w'. m w = (Inr x, w') \<and> calls w' = calls w @ cs \<and>
              length (outbox w') = length (outbox w) + length cs)"

text \<open>
  The routing of an inbound alert in the words of the specification: the wrapper chosen from
  the status and the alert name, and the wrapper that a call comes from (each wrapper has its
  own title and category).
\<close>

datatype wrapper = Recovery | Database | System | Api

definition classify :: "string \<Rightarrow> wrapper" where
  "classify name =
     (if str_contains (map lower_char name) ''database'' then Database
      else if str_contains (map lower_char name) ''cpu'' \<or>
              str_contains (map lower_char name) ''memory'' then System
      else Api)"

definition wrapper_of :: "call \<Rightarrow> wrapper option" where
  "wrapper_of c =
     (if c_title c = [Lit (sym_check @ '' Service Recovered'')] \<and> c_type c = ''success''
      then Some Recovery
      else if c_title c = [Lit (sym_siren @ '' Database Alert'')] \<and> c_type c = ''error''
      then Some Database
      else if c_title c = [Lit (sym_warning @ '' System Alert'')] \<and> c_type c = ''warning''
      then Some System
      else if c_title c = [Lit (sym_globe @ '' API Alert'')] \<and> c_type c = ''info''
      then Some Api
      else None)"

text \<open>Example requests.\<close>

definition firing_cpu :: json where
  "firing_cpu =
     JObj [(''labels'', JObj [(''alertname'', JStr ''HighCPUUsage'')]),
           (''status'', JStr ''firing''),
           (''annotations'', JObj [(''description'', JStr ''cpu hot'')])]"

definition resolved_disk :: json where
  "resolved_disk =
     JObj [(''labels'', JObj [(''alertname'', JStr ''Disk'')]),
           (''status'', JStr ''resolved''),
           (''annotations'', JObj [])]"

definition batch :: "json list \<Rightarrow> json" where
  "batch alerts = JObj [(''alerts'', JArr alerts)]"

definition routed_call :: "string \<Rightarrow> json \<Rightarrow> call" where
  "routed_call name description =
     (case classify name of
        Database \<Rightarrow> database_call (Json (JStr name)) (Str [Lit ''Problem detected''])
                      (Str [Lit ''Normal'']) (Json description)
      | System \<Rightarrow> system_call (Json (JStr name)) (Str [Lit ''Problem detected''])
                    (Str [Lit ''Normal'']) (Json description)
      | _ \<Rightarrow> api_call (Json (JStr name)) (Str [Lit ''Problem detected'']) (Json description))"

text \<open>
  The exporter's state once \<^verbatim>\<open>main_loop\<close> has set the uptime gauge, where the four fetches
  start.
\<close>

definition after_uptime :: "xenv \<Rightarrow> exporter \<Rightarrow> exporter" where
  "after_uptime e s =
     s\<lparr>clock_reads := Suc (clock_reads s),
       gauges := (gauges s)(exporter_uptime \<mapsto>
                   float_minus e (Finite (time_time e (clock_reads s))) (Finite (start_time s)))\<rparr>"

text \<open>
  What the specification calls the value parsed from a reply of the rates API, and the first
  raw hourly visibility of a reply of the weather API.
\<close>

definition rate_of :: "xenv \<Rightarrow> http_result \<Rightarrow> exn + pyfloat" where
  "rate_of e reply =
     ebind (get_json reply) (\<lambda>data.
     ebind (subscript data ''rates'') (\<lambda>rates.
     ebind (subscript rates ''KZT'') (\<lambda>rate. py_float e rate)))"

definition raw_visibility :: "http_result \<Rightarrow> exn + json" where
  "raw_visibility reply =
     ebind (get_json reply) (\<lambda>data.
     ebind (subscript data ''hourly'') (\<lambda>hourly.
     ebind (subscript hourly ''visibility'') (\<lambda>visibility. index visibility 0)))"

text \<open>
  Example replies of the three APIs, and an exporter that has just started: a gauge without
  labels is 0.0 from its creation, one with labels has no value before it is first set.
\<close>

definition weather_body :: json where
  "weather_body =
     JObj [(''current_weather'', JObj [(''temperature'', JFloat (Finite 21.5)),
                                      (''windspeed'', JFloat (Finite 12))]),
           (''hourly'', JObj [(''relativehumidity_2m'', JArr [JInt 40, JInt 42]),
                             (''visibility'', JArr [JInt 24000, JInt 20000])])]"

definition crypto_body :: json where
  "crypto_body =
     JObj [(''bitcoin'', JObj [(''usd'', JInt 65000), (''usd_market_cap'', JInt 1300)]),
           (''ethereum'', JObj [(''usd'', JInt 3000), (''usd_market_cap'', JInt 400)])]"

definition rates_body :: "pyfloat \<Rightarrow> json" where
  "rates_body r = JObj [(''base'', JStr ''USD''), (''rates'', JObj [(''KZT'', JFloat r)])]"

definition xenv_of :: "http_result \<Rightarrow> xenv" where
  "xenv_of weather =
     \<lparr>str_to_float = sample_float, int_to_float = (\<lambda>i. Some (Finite (of_int i))),
      int_truediv = (\<lambda>i c. Some (Finite (of_int i / of_int c))),
      float_truediv = exact (\<lambda>a b. a / b), float_plus = exact (\<lambda>a b. a + b),
      float_minus = exact (\<lambda>a b. a - b), float_rem = exact (\<lambda>a b. a - b * of_int \<lfloor>a / b\<rfloor>),
      weather_api = weather,
      crypto_api = Response 200 (Some crypto_body),
      usd_api = Response 200 (Some (rates_body (Finite 450.5))),
      eur_api = Response 200 (Some (rates_body (Finite 490.25))),
      time_time = (\<lambda>n. 1700000000 + of_nat n)\<rparr>"

definition started :: exporter where
  "started =
     \<lparr>logged = [], slept = [], clock_reads = 0,
      gauges = map_of (map (\<lambda>g. (g, Finite 0))
                 [crypto_bitcoin_price, crypto_ethereum_price, crypto_market_cap,
                  exchange_rate_usd, exchange_rate_eur, weather_api_status, crypto_api_status,
                  exporter_uptime, current_timestamp, random_metric]),
      error_counter = (\<lambda>api. 0), api_response_time = (\<lambda>api. []),
      start_time = 1700000000\<rparr>"

text \<open>
  The result set of a reply of the backend, and the path \<^verbatim>\<open>data.result[0].value[1]\<close> that
  \<^verbatim>\<open>query_prometheus\<close> reads in it.
\<close>

definition result_set :: "json \<Rightarrow> exn + json" where
  "result_set data = ebind (subscript data ''data'') (\<lambda>d. subscript d ''result'')"

definition first_value :: "json \<Rightarrow> exn + json" where
  "first_value data =
     ebind (result_set data) (\<lambda>result.
     ebind (index result 0) (\<lambda>r.
     ebind (subscript r ''value'') (\<lambda>v. index v 1)))"

text \<open>A reply whose value is not a number in a string.\<close>

definition confused_body :: json where
  "confused_body =
     JObj [(''data'', JObj [(''result'', JArr [JObj [(''value'', JArr [JNull, JBool False])]])])]"

text \<open>A statement that takes no sleep.\<close>

definition sleepless :: "(world, 'a) prog \<Rightarrow> bool" where
  "sleepless m = (\<forall>w. slept (snd (m w)) = slept w)"

text \<open>Alerts that the handler cannot read: one without annotations, one named by a number.\<close>

definition resolved_bare :: json where
  "resolved_bare =
     JObj [(''labels'', JObj [(''alertname'', JStr ''Disk'')]), (''status'', JStr ''resolved'')]"

definition firing_number :: json where
  "firing_number =
     JObj [(''labels'', JObj [(''alertname'', JInt 5)]),
           (''status'', JStr ''firing''),
           (''annotations'', JObj [(''description'', JStr ''five'')])]"

text \<open>
  The four values that \<^verbatim>\<open>fetch_weather_data\<close> reads in a body, in the order it sets the
  gauges, and in a reply; the weather fetch fails when they cannot be read: no reply, a 4xx or
  5xx status, a body that is not JSON, or a body in which one of the four is missing or is
  not accepted by \<^verbatim>\<open>float\<close> (or by the division).
\<close>

definition weather_values ::
  "'a runtime_scheme \<Rightarrow> json \<Rightarrow> exn + (pyfloat \<times> pyfloat \<times> pyfloat \<times> pyfloat)" where
  "weather_values rt data =
     ebind (subscript data ''current_weather'') (\<lambda>current.
     ebind (subscript data ''hourly'') (\<lambda>hourly.
     ebind (ebind (subscript current ''temperature'') (py_float rt)) (\<lambda>temperature.
     ebind (ebind (subscript current ''windspeed'') (py_float rt)) (\<lambda>windspeed.
     ebind (ebind (ebind (subscript hourly ''relativehumidity_2m'') (\<lambda>h. index h 0))
              (py_float rt)) (\<lambda>humidity.
     ebind (ebind (ebind (subscript hourly ''visibility'') (\<lambda>v. index v 0))
              (\<lambda>v. py_truediv rt v 1000)) (\<lambda>visibility.
     Inr (temperature, windspeed, humidity, visibility)))))))"

definition weather_reading :: "xenv \<Rightarrow> exn + (pyfloat \<times> pyfloat \<times> pyfloat \<times> pyfloat)" where
  "weather_reading e = ebind (get_json (weather_api e)) (weather_values e)"

definition weather_fails :: "xenv \<Rightarrow> bool" where
  "weather_fails e = (case weather_reading e of Inl ex \<Rightarrow> True | Inr v \<Rightarrow> False)"

text \<open>The three values that \<^verbatim>\<open>fetch_crypto_data\<close> reads, the third a sum.\<close>

definition crypto_reading :: "xenv \<Rightarrow> exn + (pyfloat \<times> pyfloat \<times> pyfloat)" where
  "crypto_reading e =
     ebind (get_json (crypto_api e)) (\<lambda>data.
     ebind (ebind (ebind (subscript data ''bitcoin'') (\<lambda>b. subscript b ''usd'')) (py_float e))
       (\<lambda>btc.
     ebind (ebind (ebind (subscript data ''ethereum'') (\<lambda>b. subscript b ''usd'')) (py_float e))
       (\<lambda>eth.
     ebind (ebind (subscript data ''bitcoin'') (\<lambda>b. subscript b ''usd_market_cap'')) (\<lambda>x.
     ebind (ebind (subscript data ''ethereum'') (\<lambda>b. subscript b ''usd_market_cap'')) (\<lambda>y.
     ebind (ebind (py_add e x y) (py_float e)) (\<lambda>cap. Inr (btc, eth, cap)))))))"

text \<open>A weather reply that is not of the expected form but can be read.\<close>

definition confused_weather :: json where
  "confused_weather =
     JObj [(''current_weather'', JObj [(''temperature'', JStr ''0''),
                                      (''windspeed'', JBool True)]),
           (''hourly'', JObj [(''relativehumidity_2m'', JStr ''0z''),
                             (''visibility'', JArr [JInt 24000])])]"

section \<open>Basic facts\<close>

lemma ret_apply [simp]: "ret x s = (Inr x, s)"
  by (simp add: ret_def)

lemma raise_apply [simp]: "raise ex s = (Inl ex, s)"
  by (simp add: raise_def)

lemma lift_apply [simp]: "lift r s = (r, s)"
  by (simp add: lift_def)

lemma bind_apply:
  "bind m f s = (case m s of (Inl ex, s') \<Rightarrow> (Inl ex, s') | (Inr x, s') \<Rightarrow> f x s')"
  by (simp add: bind_def)

lemma try_except_apply:
  "try_except m h s = (case m s of (Inl ex, s') \<Rightarrow> h ex s' | (Inr x, s') \<Rightarrow> (Inr x, s'))"
  by (simp add: try_except_def)

lemma bind_Inr: "m s = (Inr x, s') \<Longrightarrow> bind m f s = f x s'"
  by (simp add: bind_def)

lemma bind_Inl: "m s = (Inl ex, s') \<Longrightarrow> bind m f s = (Inl ex, s')"
  by (simp add: bind_def)

lemma logger_apply [simp]:
  "logger lv msg w = (Inr (), w\<lparr>logged := logged w @ [(lv, msg)]\<rparr>)"
  by (simp add: logger_def)

lemma time_sleep_apply [simp]: "time_sleep n w = (Inr (), w\<lparr>slept := slept w @ [n]\<rparr>)"
  by (simp add: time_sleep_def)

lemmas send_alert_defs = send_alert_def bind_apply try_except_apply enter_send_alert_def
  datetime_now_def requests_post_def history_append_def

section \<open>The notifier returns a truth value and records only what was sent\<close>

text \<open>
  C4. For every call of \<^verbatim>\<open>send_alert\<close>: when the webhook replies 200 the call returns
  \<^verbatim>\<open>True\<close> and \<^verbatim>\<open>alert_history\<close> grows by exactly one entry, for the title sent; when the
  webhook replies any other status, or does not reply, the call returns \<^verbatim>\<open>False\<close>, raises
  nothing, and leaves \<^verbatim>\<open>alert_history\<close> as it was.
\<close>

theorem send_alert_history:
  fixes e :: env and w :: world
  assumes "r = send_alert e title message alert_type facts w"
  shows "(webhook e (length (outbox w)) = Response 200 body \<longrightarrow>
            fst r = Inr True \<and>
            alert_history (snd r) =
              alert_history w @
                [\<lparr>h_title = title, h_time = clock e (Suc (clock_reads w)), h_status = ''sent''\<rparr>] \<and>
            length (alert_history (snd r)) = length (alert_history w) + 1) \<and>
         (webhook e (length (outbox w)) = Response code body \<and> code \<noteq> 200 \<longrightarrow>
            fst r = Inr False \<and> alert_history (snd r) = alert_history w) \<and>
         (webhook e (length (outbox w)) = ConnectionFailed \<longrightarrow>
            fst r = Inr False \<and> alert_history (snd r) = alert_history w)"
  unfolding assms by (simp add: send_alert_defs)

theorem send_alert_history_witness:
  "fst (send_alert (env_of (\<lambda>q. ConnectionFailed) (\<lambda>n. Response 200 None))
          [Lit ''t''] (Str [Lit ''m'']) ''info'' None idle) = Inr True \<and>
   length (alert_history (snd (send_alert (env_of (\<lambda>q. ConnectionFailed) (\<lambda>n. Response 200 None))
          [Lit ''t''] (Str [Lit ''m'']) ''info'' None idle))) = length (alert_history idle) + 1 \<and>
   fst (send_alert (env_of (\<lambda>q. ConnectionFailed) (\<lambda>n. Response 503 None))
          [Lit ''t''] (Str [Lit ''m'']) ''info'' None idle) = Inr False \<and>
   alert_history (snd (send_alert (env_of (\<lambda>q. ConnectionFailed) (\<lambda>n. Response 503 None))
          [Lit ''t''] (Str [Lit ''m'']) ''info'' None idle)) = alert_history idle \<and>
   fst (send_alert (env_of (\<lambda>q. ConnectionFailed) (\<lambda>n. ConnectionFailed))
          [Lit ''t''] (Str [Lit ''m'']) ''info'' None idle) = Inr False \<and>
   alert_history (snd (send_alert (env_of (\<lambda>q. ConnectionFailed) (\<lambda>n. ConnectionFailed))
          [Lit ''t''] (Str [Lit ''m'']) ''info'' None idle)) = alert_history idle"
  using send_alert_history [OF refl, of "env_of (\<lambda>q. ConnectionFailed) (\<lambda>n. Response 200 None)"
          idle None "[Lit ''t'']" "Str [Lit ''m'']" "''info''" None 200]
        send_alert_history [OF refl, of "env_of (\<lambda>q. ConnectionFailed) (\<lambda>n. Response 503 None)"
          idle None "[Lit ''t'']" "Str [Lit ''m'']" "''info''" None 503]
        send_alert_history [OF refl, of "env_of (\<lambda>q. ConnectionFailed) (\<lambda>n. ConnectionFailed)"
          idle None "[Lit ''t'']" "Str [Lit ''m'']" "''info''" None 0]
  by (simp add: env_of_def idle_def)

section \<open>The calls made by one pass of the monitor\<close>

lemma emits_ret: "emits (ret x) []"
  by (simp add: emits_def)

lemma emits_bind: 
  assumes m: "emits m cs" and f: "\<And>x. emits (f x) ds"
  shows "emits (bind m f) (cs @ ds)"
  unfolding emits_def
proof
  fix w
  from m obtain x w1 where 1: "m w = (Inr x, w1)" "calls w1 = calls w @ cs"
      "length (outbox w1) = length (outbox w) + length cs"
    unfolding emits_def by blast
  from f [of x] obtain y w2 where 2: "f x w1 = (Inr y, w2)" "calls w2 = calls w1 @ ds"
      "length (outbox w2) = length (outbox w1) + length ds"
    unfolding emits_def by blast
  show "\<exists>x w'. bind m f w = (Inr x, w') \<and> calls w' = calls w @ cs @ ds \<and>
          length (outbox w') = length (outbox w) + length (cs @ ds)"
    using 1 2 by (simp add: bind_Inr)
qed

lemma emits_bind_silent: "emits m [] \<Longrightarrow> (\<And>x. emits (f x) ds) \<Longrightarrow> emits (bind m f) ds"
  using emits_bind [of m "[]" f ds] by simp

lemma emits_bind_last: "emits m cs \<Longrightarrow> (\<And>x. emits (f x) []) \<Longrightarrow> emits (bind m f) cs"
  using emits_bind [of m cs f "[]"] by simp

lemma emits_logger: "emits (logger lv msg) []"
  by (simp add: emits_def)

lemma emits_send_alert:
  "emits (send_alert e title message alert_type facts)
     [\<lparr>c_title = title, c_message = message, c_type = alert_type, c_facts = facts\<rparr>]"
  unfolding emits_def
proof
  fix w
  show "\<exists>x w'. send_alert e title message alert_type facts w = (Inr x, w') \<and>
          calls w' = calls w @ [\<lparr>c_title = title, c_message = message, c_type = alert_type,
                                 c_facts = facts\<rparr>] \<and>
          length (outbox w') = length (outbox w) + length [\<lparr>c_title = title,
             c_message = message, c_type = alert_type, c_facts = facts\<rparr>]"
    by (cases "webhook e (length (outbox w))") (auto simp add: send_alert_defs)
qed

lemma emits_database_alert:
  "emits (database_alert e metric val threshold message)
     [database_call metric val threshold message]"
  unfolding database_alert_def database_call_def by (rule emits_send_alert)

lemma emits_system_alert:
  "emits (system_alert e metric val threshold message) [system_call metric val threshold message]"
  unfolding system_alert_def system_call_def by (rule emits_send_alert)

lemma emits_api_alert: "emits (api_alert e metric val message) [api_call metric val message]"
  unfolding api_alert_def api_call_def by (rule emits_send_alert)

lemma query_prometheus_apply:
  "query_prometheus e q w =
     (Inr (metric_value e q),
      case query_body e q of
        Inl ex \<Rightarrow> w\<lparr>logged := logged w @ [(ERROR, [Lit ''Error querying Prometheus: '', Exc ex])]\<rparr>
      | Inr v \<Rightarrow> w)"
  by (simp add: query_prometheus_def metric_value_def try_except_apply bind_apply
      split: sum.splits)

lemma emits_query:
  assumes "emits (f (metric_value e q)) cs"
  shows "emits (bind (query_prometheus e q) f) cs"
  unfolding emits_def
proof
  fix w
  obtain w1 where 1: "query_prometheus e q w = (Inr (metric_value e q), w1)"
      "calls w1 = calls w" "outbox w1 = outbox w"
    by (cases "query_body e q") (simp_all add: query_prometheus_apply)
  from assms obtain y w2 where 2: "f (metric_value e q) w1 = (Inr y, w2)"
      "calls w2 = calls w1 @ cs" "length (outbox w2) = length (outbox w1) + length cs"
    unfolding emits_def by blast
  show "\<exists>x w'. bind (query_prometheus e q) f w = (Inr x, w') \<and> calls w' = calls w @ cs \<and>
          length (outbox w') = length (outbox w) + length cs"
    using 1 2 by (simp add: bind_Inr)
qed

lemma emits_if_truthy_and:
  assumes "\<And>v. emits (alert v) [c v]"
  shows "emits (if_truthy_and x cmp alert) (threshold_calls x cmp c)"
proof (cases x)
  case None
  then show ?thesis by (simp add: if_truthy_and_def threshold_calls_def emits_ret)
next
  case (Some v)
  show ?thesis
  proof (cases "float_truthy v \<and> cmp v")
    case True
    with Some show ?thesis
      using emits_bind_last [OF assms [of v], of "\<lambda>_. ret ()"]
      by (simp add: if_truthy_and_def threshold_calls_def emits_ret)
  next
    case False
    with Some show ?thesis
      by (auto simp add: if_truthy_and_def threshold_calls_def emits_ret)
  qed
qed

lemma emits_if_equals_zero:
  assumes "emits alert [c]"
  shows "emits (if_equals_zero x alert) (liveness_calls x c)"
proof (cases x)
  case None
  then show ?thesis by (simp add: if_equals_zero_def liveness_calls_def emits_ret)
next
  case (Some v)
  then show ?thesis
    using emits_bind_last [OF assms, of "\<lambda>_. ret ()"]
    by (simp add: if_equals_zero_def liveness_calls_def emits_ret)
qed

lemma emits_check_connections:
  "emits (check_connections e)
     (threshold_calls (metric_value e q_connections) (\<lambda>v. float_gt v (Finite 50)) connections_call)"
  unfolding check_connections_def connections_call_def
  by (intro emits_query emits_if_truthy_and emits_database_alert)

lemma emits_check_db_size:
  "emits (check_db_size e)
     (threshold_calls (metric_value e q_db_size) (\<lambda>v. float_gt v (Finite 1)) db_size_call)"
  unfolding check_db_size_def db_size_call_def
  by (intro emits_query emits_if_truthy_and emits_database_alert)

lemma emits_check_cpu_usage:
  "emits (check_cpu_usage e)
     (threshold_calls (metric_value e q_cpu_usage) (\<lambda>v. float_gt v (Finite 80)) cpu_usage_call)"
  unfolding check_cpu_usage_def cpu_usage_call_def
  by (intro emits_query emits_if_truthy_and emits_system_alert)

lemma emits_check_memory_usage:
  "emits (check_memory_usage e)
     (threshold_calls (metric_value e q_memory_usage) (\<lambda>v. float_gt v (Finite 85))
        memory_usage_call)"
  unfolding check_memory_usage_def memory_usage_call_def
  by (intro emits_query emits_if_truthy_and emits_system_alert)

lemma emits_check_temperature:
  "emits (check_temperature e)
     (threshold_calls (metric_value e q_temperature) (\<lambda>v. float_gt v (Finite 30))
        temperature_call)"
  unfolding check_temperature_def temperature_call_def
  by (intro emits_query emits_if_truthy_and emits_api_alert)

lemma emits_check_btc_price:
  "emits (check_btc_price e)
     (threshold_calls (metric_value e q_btc_price) (\<lambda>v. float_lt v (Finite 40000))
        btc_price_call)"
  unfolding check_btc_price_def btc_price_call_def
  by (intro emits_query emits_if_truthy_and emits_api_alert)

lemma emits_check_postgres_up:
  "emits (check_postgres_up e) (liveness_calls (metric_value e q_postgres_up) postgres_down_call)"
  unfolding check_postgres_up_def postgres_down_call_def
  by (intro emits_query emits_if_equals_zero emits_database_alert)

lemma emits_check_node_up:
  "emits (check_node_up e) (liveness_calls (metric_value e q_node_up) node_down_call)"
  unfolding check_node_up_def node_down_call_def
  by (intro emits_query emits_if_equals_zero emits_system_alert)

lemma emits_check_alerts: "emits (check_alerts e) (tick_calls e)"
  unfolding check_alerts_def tick_calls_def
  by (intro emits_bind_silent [OF emits_logger] emits_bind emits_check_connections
      emits_check_db_size emits_check_cpu_usage emits_check_memory_usage
      emits_check_temperature emits_check_btc_price emits_check_postgres_up
      emits_check_node_up)

lemma emits_new_calls: "emits m cs \<Longrightarrow> new_calls m w = cs"
  unfolding emits_def new_calls_def
  by (metis append_eq_conv_conj snd_conv)

lemma emits_returns: "emits m cs \<Longrightarrow> \<exists>x. fst (m w) = Inr x"
  unfolding emits_def by (metis fst_conv)

lemma calls_for_append: "calls_for m (xs @ ys) = calls_for m xs @ calls_for m ys"
  by (simp add: calls_for_def)

lemma calls_for_threshold_other:
  assumes "\<And>v. map_of (facts_items (c_facts (c v))) ''Metric'' \<noteq> Some (Str [Lit m])"
  shows "calls_for m (threshold_calls x cmp c) = []"
  using assms by (cases x) (simp_all add: threshold_calls_def calls_for_def)

lemma calls_for_threshold_same:
  assumes "\<And>v. map_of (facts_items (c_facts (c v))) ''Metric'' = Some (Str [Lit m])"
  shows "calls_for m (threshold_calls x cmp c) = threshold_calls x cmp c"
  using assms by (cases x) (simp_all add: threshold_calls_def calls_for_def)

lemma calls_for_liveness_other:
  assumes "map_of (facts_items (c_facts c)) ''Metric'' \<noteq> Some (Str [Lit m])"
  shows "calls_for m (liveness_calls x c) = []"
  using assms by (cases x) (simp_all add: liveness_calls_def calls_for_def)

lemma calls_for_liveness_same:
  assumes "map_of (facts_items (c_facts c)) ''Metric'' = Some (Str [Lit m])"
  shows "calls_for m (liveness_calls x c) = liveness_calls x c"
  using assms by (cases x) (simp_all add: liveness_calls_def calls_for_def)

lemma metric_connections [simp]:
  "map_of (facts_items (c_facts (connections_call v))) ''Metric'' = Some (Str [Lit ''Active Connections''])"
  by (simp add: connections_call_def database_call_def facts_items_def)

lemma metric_db_size [simp]:
  "map_of (facts_items (c_facts (db_size_call v))) ''Metric'' = Some (Str [Lit ''Database Size''])"
  by (simp add: db_size_call_def database_call_def facts_items_def)

lemma metric_cpu_usage [simp]:
  "map_of (facts_items (c_facts (cpu_usage_call v))) ''Metric'' = Some (Str [Lit ''CPU Usage''])"
  by (simp add: cpu_usage_call_def system_call_def facts_items_def)

lemma metric_memory_usage [simp]:
  "map_of (facts_items (c_facts (memory_usage_call v))) ''Metric'' = Some (Str [Lit ''Memory Usage''])"
  by (simp add: memory_usage_call_def system_call_def facts_items_def)

lemma metric_temperature [simp]:
  "map_of (facts_items (c_facts (temperature_call v))) ''Metric'' = Some (Str [Lit ''Weather Temperature''])"
  by (simp add: temperature_call_def api_call_def facts_items_def)

lemma metric_btc_price [simp]:
  "map_of (facts_items (c_facts (btc_price_call v))) ''Metric'' = Some (Str [Lit ''Bitcoin Price''])"
  by (simp add: btc_price_call_def api_call_def facts_items_def)

lemma metric_postgres_down [simp]:
  "map_of (facts_items (c_facts postgres_down_call)) ''Metric'' = Some (Str [Lit ''PostgreSQL Status''])"
  by (simp add: postgres_down_call_def database_call_def facts_items_def)

lemma metric_node_down [simp]:
  "map_of (facts_items (c_facts node_down_call)) ''Metric'' = Some (Str [Lit ''Node Exporter''])"
  by (simp add: node_down_call_def system_call_def facts_items_def)

lemmas calls_for_tick = tick_calls_def calls_for_append calls_for_threshold_other
  calls_for_threshold_same calls_for_liveness_other calls_for_liveness_same

lemma tick_connections:
  "calls_for ''Active Connections'' (tick_calls e) =
     threshold_calls (metric_value e q_connections) (\<lambda>v. float_gt v (Finite 50)) connections_call"
  by (simp add: calls_for_tick)

lemma tick_db_size:
  "calls_for ''Database Size'' (tick_calls e) =
     threshold_calls (metric_value e q_db_size) (\<lambda>v. float_gt v (Finite 1)) db_size_call"
  by (simp add: calls_for_tick)

lemma tick_cpu_usage:
  "calls_for ''CPU Usage'' (tick_calls e) =
     threshold_calls (metric_value e q_cpu_usage) (\<lambda>v. float_gt v (Finite 80)) cpu_usage_call"
  by (simp add: calls_for_tick)

lemma tick_memory_usage:
  "calls_for ''Memory Usage'' (tick_calls e) =
     threshold_calls (metric_value e q_memory_usage) (\<lambda>v. float_gt v (Finite 85)) memory_usage_call"
  by (simp add: calls_for_tick)

lemma tick_temperature:
  "calls_for ''Weather Temperature'' (tick_calls e) =
     threshold_calls (metric_value e q_temperature) (\<lambda>v. float_gt v (Finite 30)) temperature_call"
  by (simp add: calls_for_tick)

lemma tick_btc_price:
  "calls_for ''Bitcoin Price'' (tick_calls e) =
     threshold_calls (metric_value e q_btc_price) (\<lambda>v. float_lt v (Finite 40000)) btc_price_call"
  by (simp add: calls_for_tick)

lemma tick_postgres_up:
  "calls_for ''PostgreSQL Status'' (tick_calls e) =
     liveness_calls (metric_value e q_postgres_up) postgres_down_call"
  by (simp add: calls_for_tick)

lemma tick_node_up:
  "calls_for ''Node Exporter'' (tick_calls e) =
     liveness_calls (metric_value e q_node_up) node_down_call"
  by (simp add: calls_for_tick)

lemma new_calls_check_alerts: "new_calls (check_alerts e) w = tick_calls e"
  by (rule emits_new_calls [OF emits_check_alerts])

lemma check_alerts_returns: "fst (check_alerts e w) = Inr ()"
  using emits_returns [OF emits_check_alerts, of e w] by simp

lemmas query_defs = metric_value_def query_body_def ebind_def raise_for_status_def
  response_json_def

lemma metric_value_sample:
  "str_to_float e v = Some x \<Longrightarrow> prometheus e q = Response 200 (Some (sample_body v)) \<Longrightarrow>
   metric_value e q = Some x"
  by (simp add: query_defs sample_body_def)

lemma metric_value_failed: "prometheus e q = ConnectionFailed \<Longrightarrow> metric_value e q = None"
  by (simp add: query_defs)

lemma env_of_simps [simp]:
  "str_to_float (env_of p h) = sample_float" "prometheus (env_of p h) = p"
  "webhook (env_of p h) = h" "clock (env_of p h) = (\<lambda>n. n)"
  by (simp_all add: env_of_def)

lemma sample_float_simps [simp]:
  "sample_float ''0'' = Some (Finite 0)" "sample_float ''51'' = Some (Finite 51)"
  "sample_float ''39000'' = Some (Finite 39000)"
  by (simp_all add: sample_float_def)

lemma metric_value_env_all: "sample_float v = Some x \<Longrightarrow> metric_value (env_all v) q = Some x"
  by (rule metric_value_sample) (simp_all add: env_all_def)

section \<open>A value of zero counts as no value for the guarded rules\<close>

text \<open>
  C9. In a pass of \<^verbatim>\<open>check_alerts\<close>, each of the six rules guarded by the truth value of the
  metric makes no call when the value returned is 0.0, as when it is \<^verbatim>\<open>None\<close>, although 0.0
  is below the bitcoin threshold of 40000; the two liveness rules make their call on 0.
\<close>

theorem zero_is_skipped:
  "(metric_value e q_connections \<in> {None, Some (Finite 0)} \<longrightarrow>
      calls_for ''Active Connections'' (new_calls (check_alerts e) w) = []) \<and>
   (metric_value e q_db_size \<in> {None, Some (Finite 0)} \<longrightarrow>
      calls_for ''Database Size'' (new_calls (check_alerts e) w) = []) \<and>
   (metric_value e q_cpu_usage \<in> {None, Some (Finite 0)} \<longrightarrow>
      calls_for ''CPU Usage'' (new_calls (check_alerts e) w) = []) \<and>
   (metric_value e q_memory_usage \<in> {None, Some (Finite 0)} \<longrightarrow>
      calls_for ''Memory Usage'' (new_calls (check_alerts e) w) = []) \<and>
   (metric_value e q_temperature \<in> {None, Some (Finite 0)} \<longrightarrow>
      calls_for ''Weather Temperature'' (new_calls (check_alerts e) w) = []) \<and>
   (metric_value e q_btc_price \<in> {None, Some (Finite 0)} \<longrightarrow>
      calls_for ''Bitcoin Price'' (new_calls (check_alerts e) w) = []) \<and>
   float_lt (Finite 0) (Finite 40000) \<and>
   (metric_value e q_postgres_up = Some (Finite 0) \<longrightarrow>
      calls_for ''PostgreSQL Status'' (new_calls (check_alerts e) w) = [postgres_down_call]) \<and>
   (metric_value e q_node_up = Some (Finite 0) \<longrightarrow>
      calls_for ''Node Exporter'' (new_calls (check_alerts e) w) = [node_down_call])"
  by (auto simp add: new_calls_check_alerts tick_connections tick_db_size tick_cpu_usage
      tick_memory_usage tick_temperature tick_btc_price tick_postgres_up tick_node_up
      threshold_calls_def liveness_calls_def float_truthy_def)

theorem zero_is_skipped_witness:
  "calls_for ''Active Connections'' (new_calls (check_alerts (env_all ''0'')) idle) = [] \<and>
   calls_for ''Database Size'' (new_calls (check_alerts (env_all ''0'')) idle) = [] \<and>
   calls_for ''CPU Usage'' (new_calls (check_alerts (env_all ''0'')) idle) = [] \<and>
   calls_for ''Memory Usage'' (new_calls (check_alerts (env_all ''0'')) idle) = [] \<and>
   calls_for ''Weather Temperature'' (new_calls (check_alerts (env_all ''0'')) idle) = [] \<and>
   calls_for ''Bitcoin Price'' (new_calls (check_alerts (env_all ''0'')) idle) = [] \<and>
   calls_for ''PostgreSQL Status'' (new_calls (check_alerts (env_all ''0'')) idle) =
     [postgres_down_call] \<and>
   calls_for ''Node Exporter'' (new_calls (check_alerts (env_all ''0'')) idle) = [node_down_call]"
  using zero_is_skipped [of "env_all ''0''" idle]
  by (simp add: metric_value_env_all)

section \<open>A value past its threshold\<close>

lemmas rule_call_defs = connections_call_def db_size_call_def cpu_usage_call_def
  memory_usage_call_def temperature_call_def btc_price_call_def postgres_down_call_def
  node_down_call_def database_call_def system_call_def api_call_def

lemma float_gt_truthy: "float_gt v (Finite c) \<Longrightarrow> 0 \<le> c \<Longrightarrow> float_truthy v"
  by (cases v) (auto simp add: float_gt_def float_truthy_def)

text \<open>
  What holds of the rules: a value past the threshold makes exactly one call, of the category
  of the rule's domain, provided the value is not 0.0, which only the bitcoin rule must ask.
\<close>

lemma rules_fire_on_nonzero:
  "(metric_value e q_connections = Some v \<and> float_gt v (Finite 50) \<longrightarrow>
      calls_for ''Active Connections'' (new_calls (check_alerts e) w) = [connections_call v] \<and>
      c_type (connections_call v) = ''error'') \<and>
   (metric_value e q_db_size = Some v \<and> float_gt v (Finite 1) \<longrightarrow>
      calls_for ''Database Size'' (new_calls (check_alerts e) w) = [db_size_call v] \<and>
      c_type (db_size_call v) = ''error'') \<and>
   (metric_value e q_cpu_usage = Some v \<and> float_gt v (Finite 80) \<longrightarrow>
      calls_for ''CPU Usage'' (new_calls (check_alerts e) w) = [cpu_usage_call v] \<and>
      c_type (cpu_usage_call v) = ''warning'') \<and>
   (metric_value e q_memory_usage = Some v \<and> float_gt v (Finite 85) \<longrightarrow>
      calls_for ''Memory Usage'' (new_calls (check_alerts e) w) = [memory_usage_call v] \<and>
      c_type (memory_usage_call v) = ''warning'') \<and>
   (metric_value e q_temperature = Some v \<and> float_gt v (Finite 30) \<longrightarrow>
      calls_for ''Weather Temperature'' (new_calls (check_alerts e) w) = [temperature_call v] \<and>
      c_type (temperature_call v) = ''info'') \<and>
   (metric_value e q_btc_price = Some v \<and> float_lt v (Finite 40000) \<and> v \<noteq> Finite 0 \<longrightarrow>
      calls_for ''Bitcoin Price'' (new_calls (check_alerts e) w) = [btc_price_call v] \<and>
      c_type (btc_price_call v) = ''info'') \<and>
   (metric_value e q_postgres_up = Some v \<and> float_eq v (Finite 0) \<longrightarrow>
      calls_for ''PostgreSQL Status'' (new_calls (check_alerts e) w) = [postgres_down_call] \<and>
      c_type postgres_down_call = ''error'') \<and>
   (metric_value e q_node_up = Some v \<and> float_eq v (Finite 0) \<longrightarrow>
      calls_for ''Node Exporter'' (new_calls (check_alerts e) w) = [node_down_call] \<and>
      c_type node_down_call = ''warning'')"
proof -
  have t: "v \<noteq> Finite 0 \<Longrightarrow> float_truthy v"
    by (cases v) (simp_all add: float_truthy_def)
  show ?thesis
    using float_gt_truthy [of v 50] float_gt_truthy [of v 1] float_gt_truthy [of v 80]
      float_gt_truthy [of v 85] float_gt_truthy [of v 30] t
    by (auto simp add: new_calls_check_alerts tick_connections tick_db_size tick_cpu_usage
      tick_memory_usage tick_temperature tick_btc_price tick_postgres_up tick_node_up
      threshold_calls_def liveness_calls_def rule_call_defs)
qed

text \<open>
  C1. The claim fails on the code for the bitcoin rule: the backend returns the price 0, which
  is strictly below the threshold 40000, and the pass of \<^verbatim>\<open>check_alerts\<close> makes no call at
  all, so none for the rule.
\<close>

theorem btc_price_zero_no_alert:
  "metric_value env_btc_zero q_btc_price = Some (Finite 0) \<and>
   float_lt (Finite 0) (Finite 40000) \<and>
   calls_for ''Bitcoin Price'' (new_calls (check_alerts env_btc_zero) idle) = [] \<and>
   fst (check_alerts env_btc_zero idle) = Inr () \<and>
   calls (snd (check_alerts env_btc_zero idle)) = []"
proof -
  have v: "metric_value env_btc_zero q_btc_price = Some (Finite 0)"
    by (rule metric_value_sample) (simp_all add: env_btc_zero_def only_query_def)
  have o: "\<And>q. q \<noteq> q_btc_price \<Longrightarrow> metric_value env_btc_zero q = None"
    by (rule metric_value_failed) (simp add: env_btc_zero_def only_query_def)
  have qs: "q_connections \<noteq> q_btc_price" "q_db_size \<noteq> q_btc_price"
    "q_cpu_usage \<noteq> q_btc_price" "q_memory_usage \<noteq> q_btc_price"
    "q_temperature \<noteq> q_btc_price" "q_postgres_up \<noteq> q_btc_price" "q_node_up \<noteq> q_btc_price"
    by (simp_all add: q_connections_def q_db_size_def q_cpu_usage_def q_memory_usage_def
        q_temperature_def q_postgres_up_def q_node_up_def q_btc_price_def)
  have n: "new_calls (check_alerts env_btc_zero) idle = []"
    by (simp add: new_calls_check_alerts tick_calls_def v o [OF qs(1)] o [OF qs(2)] o [OF qs(3)]
        o [OF qs(4)] o [OF qs(5)] o [OF qs(6)] o [OF qs(7)] threshold_calls_def
        liveness_calls_def float_truthy_def)
  have c: "calls (snd (check_alerts env_btc_zero idle)) = calls idle @ []"
    using emits_check_alerts [of env_btc_zero] n new_calls_check_alerts [of env_btc_zero idle]
    unfolding emits_def by (metis snd_conv)
  show ?thesis
    using v n c by (simp add: check_alerts_returns calls_for_def idle_def)
qed

lemma env_reply_simps [simp]:
  "str_to_float (env_reply r) = sample_float" "prometheus (env_reply r) = (\<lambda>q. r)"
  by (simp_all add: env_reply_def)

lemma metric_value_env_reply_failed [simp]: "metric_value (env_reply ConnectionFailed) q = None"
  by (simp add: query_defs)

lemma metric_value_sample_any:
  "str_to_float e v = Some x \<Longrightarrow> prometheus e q = Response code (Some (sample_body v)) \<Longrightarrow>
   \<not> (400 \<le> code \<and> code < 600) \<Longrightarrow> metric_value e q = Some x"
  by (simp add: query_defs sample_body_def)

text \<open>What a reply with a body of JSON gives, whatever its status outside 4xx and 5xx.\<close>

lemma metric_value_of_body:
  assumes "prometheus e q = Response code (Some data)" and "\<not> (400 \<le> code \<and> code < 600)"
  shows "metric_value e q =
     (case result_set data of
        Inl ex \<Rightarrow> None
      | Inr result \<Rightarrow>
          if truthy result then
            (case first_value data of
               Inl ex \<Rightarrow> None
             | Inr x \<Rightarrow> (case py_float e x of Inl ex \<Rightarrow> None | Inr y \<Rightarrow> Some y))
          else None)"
  using assms
  by (simp add: query_defs result_set_def first_value_def split: sum.splits)

lemma metric_value_error_status:
  "prometheus e q = Response code body \<Longrightarrow> 400 \<le> code \<Longrightarrow> code < 600 \<Longrightarrow>
   metric_value e q = None"
  by (simp add: query_defs)

section \<open>No value, no notification\<close>

text \<open>
  C3, as amended. For each of the eight rules, when \<^verbatim>\<open>query_prometheus\<close> returns \<^verbatim>\<open>None\<close>
  for the rule's query, the pass of \<^verbatim>\<open>check_alerts\<close> makes no call for that rule. The query
  returns \<^verbatim>\<open>None\<close> when the backend does not reply, when it replies with a 4xx or 5xx
  status, with a body that is not JSON, with a body that has no \<^verbatim>\<open>data.result\<close> or an empty
  one, or with a body in which \<^verbatim>\<open>data.result[0].value[1]\<close> cannot be read or is not accepted
  by \<^verbatim>\<open>float\<close>; in every other case it returns the value read there. Every exception of the
  \<^verbatim>\<open>try\<close> block is logged and gives \<^verbatim>\<open>None\<close>.
\<close>

theorem absent_is_skipped:
  "(metric_value e q_connections = None \<longrightarrow>
      calls_for ''Active Connections'' (new_calls (check_alerts e) w) = []) \<and>
   (metric_value e q_db_size = None \<longrightarrow>
      calls_for ''Database Size'' (new_calls (check_alerts e) w) = []) \<and>
   (metric_value e q_cpu_usage = None \<longrightarrow>
      calls_for ''CPU Usage'' (new_calls (check_alerts e) w) = []) \<and>
   (metric_value e q_memory_usage = None \<longrightarrow>
      calls_for ''Memory Usage'' (new_calls (check_alerts e) w) = []) \<and>
   (metric_value e q_temperature = None \<longrightarrow>
      calls_for ''Weather Temperature'' (new_calls (check_alerts e) w) = []) \<and>
   (metric_value e q_btc_price = None \<longrightarrow>
      calls_for ''Bitcoin Price'' (new_calls (check_alerts e) w) = []) \<and>
   (metric_value e q_postgres_up = None \<longrightarrow>
      calls_for ''PostgreSQL Status'' (new_calls (check_alerts e) w) = []) \<and>
   (metric_value e q_node_up = None \<longrightarrow>
      calls_for ''Node Exporter'' (new_calls (check_alerts e) w) = []) \<and>
   (prometheus e q = ConnectionFailed \<longrightarrow> metric_value e q = None) \<and>
   (prometheus e q = Response code body \<and> 400 \<le> code \<and> code < 600 \<longrightarrow>
      metric_value e q = None) \<and>
   (prometheus e q = Response code None \<longrightarrow> metric_value e q = None) \<and>
   (prometheus e q = Response code (Some data) \<and> result_set data = Inl ex \<longrightarrow>
      metric_value e q = None) \<and>
   (prometheus e q = Response code (Some data) \<and> result_set data = Inr result \<and>
    \<not> truthy result \<longrightarrow>
      metric_value e q = None) \<and>
   (prometheus e q = Response code (Some data) \<and> first_value data = Inl ex \<longrightarrow>
      metric_value e q = None) \<and>
   (prometheus e q = Response code (Some data) \<and> first_value data = Inr x \<and>
    py_float e x = Inl ex \<longrightarrow>
      metric_value e q = None) \<and>
   (prometheus e q = Response code (Some data) \<and> \<not> (400 \<le> code \<and> code < 600) \<and>
    result_set data = Inr result \<and> truthy result \<and> first_value data = Inr x \<and>
    py_float e x = Inr y \<longrightarrow>
      metric_value e q = Some y) \<and>
   (query_body e q = Inl ex \<longrightarrow>
      query_prometheus e q w =
        (Inr None,
         w\<lparr>logged := logged w @ [(ERROR, [Lit ''Error querying Prometheus: '', Exc ex])]\<rparr>))"
proof -
  have rules: "new_calls (check_alerts e) w = tick_calls e"
    by (rule new_calls_check_alerts)
  have a: "prometheus e q = ConnectionFailed \<longrightarrow> metric_value e q = None"
    by (simp add: query_defs)
  have b: "prometheus e q = Response code body \<and> 400 \<le> code \<and> code < 600 \<longrightarrow>
      metric_value e q = None"
    by (simp add: query_defs)
  have c: "prometheus e q = Response code None \<longrightarrow> metric_value e q = None"
    by (simp add: query_defs)
  have body: "prometheus e q = Response code (Some data) \<Longrightarrow>
      metric_value e q =
        (if 400 \<le> code \<and> code < 600 then None
         else case result_set data of
           Inl ex \<Rightarrow> None
         | Inr result \<Rightarrow>
             if truthy result then
               (case first_value data of
                  Inl ex \<Rightarrow> None
                | Inr x \<Rightarrow> (case py_float e x of Inl ex \<Rightarrow> None | Inr y \<Rightarrow> Some y))
             else None)"
    using metric_value_of_body [of e q code data] metric_value_error_status [of e q code "Some data"]
    by auto
  have d1: "prometheus e q = Response code (Some data) \<and> result_set data = Inl ex \<longrightarrow>
      metric_value e q = None"
    by (simp add: body)
  have d2: "prometheus e q = Response code (Some data) \<and> result_set data = Inr result \<and>
      \<not> truthy result \<longrightarrow> metric_value e q = None"
    by (simp add: body)
  have d3: "prometheus e q = Response code (Some data) \<and> first_value data = Inl ex \<longrightarrow>
      metric_value e q = None"
    by (auto simp add: body split: sum.splits)
  have d4: "prometheus e q = Response code (Some data) \<and> first_value data = Inr x \<and>
      py_float e x = Inl ex \<longrightarrow> metric_value e q = None"
    by (auto simp add: body split: sum.splits)
  have d5: "prometheus e q = Response code (Some data) \<and> \<not> (400 \<le> code \<and> code < 600) \<and>
      result_set data = Inr result \<and> truthy result \<and> first_value data = Inr x \<and>
      py_float e x = Inr y \<longrightarrow> metric_value e q = Some y"
    by (auto simp add: body)
  have l: "query_body e q = Inl ex \<longrightarrow>
      query_prometheus e q w =
        (Inr None,
         w\<lparr>logged := logged w @ [(ERROR, [Lit ''Error querying Prometheus: '', Exc ex])]\<rparr>)"
    by (simp add: query_prometheus_apply metric_value_def)
  have r: "(metric_value e q_connections = None \<longrightarrow>
      calls_for ''Active Connections'' (new_calls (check_alerts e) w) = []) \<and>
   (metric_value e q_db_size = None \<longrightarrow>
      calls_for ''Database Size'' (new_calls (check_alerts e) w) = []) \<and>
   (metric_value e q_cpu_usage = None \<longrightarrow>
      calls_for ''CPU Usage'' (new_calls (check_alerts e) w) = []) \<and>
   (metric_value e q_memory_usage = None \<longrightarrow>
      calls_for ''Memory Usage'' (new_calls (check_alerts e) w) = []) \<and>
   (metric_value e q_temperature = None \<longrightarrow>
      calls_for ''Weather Temperature'' (new_calls (check_alerts e) w) = []) \<and>
   (metric_value e q_btc_price = None \<longrightarrow>
      calls_for ''Bitcoin Price'' (new_calls (check_alerts e) w) = []) \<and>
   (metric_value e q_postgres_up = None \<longrightarrow>
      calls_for ''PostgreSQL Status'' (new_calls (check_alerts e) w) = []) \<and>
   (metric_value e q_node_up = None \<longrightarrow>
      calls_for ''Node Exporter'' (new_calls (check_alerts e) w) = [])"
    by (simp add: rules tick_connections tick_db_size tick_cpu_usage
      tick_memory_usage tick_temperature tick_btc_price tick_postgres_up tick_node_up
      threshold_calls_def liveness_calls_def)
  show ?thesis
    using r a b c d1 d2 d3 d4 d5 l by blast
qed


theorem absent_is_skipped_witness:
  "calls_for ''Active Connections'' (new_calls (check_alerts (env_reply ConnectionFailed)) idle) = [] \<and>
   calls_for ''Database Size'' (new_calls (check_alerts (env_reply ConnectionFailed)) idle) = [] \<and>
   calls_for ''CPU Usage'' (new_calls (check_alerts (env_reply ConnectionFailed)) idle) = [] \<and>
   calls_for ''Memory Usage'' (new_calls (check_alerts (env_reply ConnectionFailed)) idle) = [] \<and>
   calls_for ''Weather Temperature'' (new_calls (check_alerts (env_reply ConnectionFailed)) idle) = [] \<and>
   calls_for ''Bitcoin Price'' (new_calls (check_alerts (env_reply ConnectionFailed)) idle) = [] \<and>
   calls_for ''PostgreSQL Status'' (new_calls (check_alerts (env_reply ConnectionFailed)) idle) = [] \<and>
   calls_for ''Node Exporter'' (new_calls (check_alerts (env_reply ConnectionFailed)) idle) = [] \<and>
   metric_value (env_reply ConnectionFailed) q_postgres_up = None \<and>
   metric_value (env_reply (Response 503 (Some (sample_body ''51'')))) q_connections = None \<and>
   metric_value (env_reply (Response 200 None)) q_connections = None \<and>
   metric_value (env_reply (Response 200 (Some (JObj [(''status'', JStr ''error'')]))))
     q_connections = None \<and>
   metric_value (env_reply (Response 200 (Some (JObj [(''data'', JObj [(''result'', JArr [])])]))))
     q_connections = None \<and>
   metric_value (env_reply (Response 200 (Some (JObj [(''data'',
       JObj [(''result'', JArr [JObj [(''metric'', JObj [])]])])])))) q_connections = None \<and>
   metric_value (env_reply (Response 200 (Some (sample_body ''abc'')))) q_connections = None \<and>
   metric_value (env_reply (Response 200 (Some (sample_body ''51'')))) q_connections =
     Some (Finite 51) \<and>
   query_prometheus (env_reply ConnectionFailed) q_connections idle =
     (Inr None,
      idle\<lparr>logged := logged idle @
               [(ERROR, [Lit ''Error querying Prometheus: '', Exc RequestException])]\<rparr>)"
proof -
  note t = absent_is_skipped [where w = idle and q = q_connections]
  have 1: "calls_for ''Active Connections'' (new_calls (check_alerts (env_reply ConnectionFailed)) idle) = [] \<and>
   calls_for ''Database Size'' (new_calls (check_alerts (env_reply ConnectionFailed)) idle) = [] \<and>
   calls_for ''CPU Usage'' (new_calls (check_alerts (env_reply ConnectionFailed)) idle) = [] \<and>
   calls_for ''Memory Usage'' (new_calls (check_alerts (env_reply ConnectionFailed)) idle) = [] \<and>
   calls_for ''Weather Temperature'' (new_calls (check_alerts (env_reply ConnectionFailed)) idle) = [] \<and>
   calls_for ''Bitcoin Price'' (new_calls (check_alerts (env_reply ConnectionFailed)) idle) = [] \<and>
   calls_for ''PostgreSQL Status'' (new_calls (check_alerts (env_reply ConnectionFailed)) idle) = [] \<and>
   calls_for ''Node Exporter'' (new_calls (check_alerts (env_reply ConnectionFailed)) idle) = [] \<and>
   query_prometheus (env_reply ConnectionFailed) q_connections idle =
     (Inr None,
      idle\<lparr>logged := logged idle @
               [(ERROR, [Lit ''Error querying Prometheus: '', Exc RequestException])]\<rparr>)"
    using t [where e = "env_reply ConnectionFailed" and ex = RequestException]
    by (simp add: query_body_def ebind_def)
  have 2: "metric_value (env_reply ConnectionFailed) q_postgres_up = None"
    using absent_is_skipped [where e = "env_reply ConnectionFailed" and q = q_postgres_up]
    by simp
  have 3: "metric_value (env_reply (Response 503 (Some (sample_body ''51'')))) q_connections = None"
    using t [where e = "env_reply (Response 503 (Some (sample_body ''51'')))" and code = 503
        and body = "Some (sample_body ''51'')"]
    by simp
  have 4: "metric_value (env_reply (Response 200 None)) q_connections = None"
    using t [where e = "env_reply (Response 200 None)" and code = 200]
    by simp
  have 5: "metric_value (env_reply (Response 200 (Some (JObj [(''status'', JStr ''error'')]))))
     q_connections = None"
    using t [where e = "env_reply (Response 200 (Some (JObj [(''status'', JStr ''error'')])))"
        and code = 200 and data = "JObj [(''status'', JStr ''error'')]"
        and ex = "KeyError (JStr ''data'')"]
    by (simp add: result_set_def ebind_def)
  have 6: "metric_value (env_reply (Response 200 (Some (JObj [(''data'', JObj [(''result'', JArr [])])]))))
     q_connections = None"
    using t [where e = "env_reply (Response 200 (Some (JObj [(''data'', JObj [(''result'', JArr [])])])))"
        and code = 200 and data = "JObj [(''data'', JObj [(''result'', JArr [])])]"
        and result = "JArr []"]
    by (simp add: result_set_def ebind_def)
  have 7: "metric_value (env_reply (Response 200 (Some (JObj [(''data'',
       JObj [(''result'', JArr [JObj [(''metric'', JObj [])]])])])))) q_connections = None"
    using t [where e = "env_reply (Response 200 (Some (JObj [(''data'',
            JObj [(''result'', JArr [JObj [(''metric'', JObj [])]])])])))"
        and code = 200
        and data = "JObj [(''data'', JObj [(''result'', JArr [JObj [(''metric'', JObj [])]])])]"
        and ex = "KeyError (JStr ''value'')"]
    by (simp add: result_set_def first_value_def ebind_def)
  have 8: "metric_value (env_reply (Response 200 (Some (sample_body ''abc'')))) q_connections = None"
    using t [where e = "env_reply (Response 200 (Some (sample_body ''abc'')))" and code = 200
        and data = "sample_body ''abc''" and x = "JStr ''abc''" and ex = ValueError]
    by (simp add: result_set_def first_value_def ebind_def sample_body_def sample_float_def)
  have 9: "metric_value (env_reply (Response 200 (Some (sample_body ''51'')))) q_connections =
     Some (Finite 51)"
    using t [where e = "env_reply (Response 200 (Some (sample_body ''51'')))" and code = 200
        and data = "sample_body ''51''" and x = "JStr ''51''" and y = "Finite 51"
        and result = "JArr [JObj [(''metric'', JObj []),
                                  (''value'', JArr [JInt 1700000000, JStr ''51''])]]"]
    by (simp add: result_set_def first_value_def ebind_def sample_body_def sample_float_def)
  show ?thesis
    using 1 2 3 4 5 6 7 8 9 by blast
qed

text \<open>
  The claim as stated fails for a status that is neither 2xx nor 4xx/5xx: a reply with status
  300 and a well-formed body gives a value, and the rule fires on it. It fails as well for a
  reply that is not of the expected form but can be read: \<^verbatim>\<open>float(False)\<close> is 0.0, on which
  the liveness rule fires.
\<close>

theorem status_300_counterexample:
  "prometheus (env_reply (Response 300 (Some (sample_body ''51'')))) q_connections =
     Response 300 (Some (sample_body ''51'')) \<and>
   \<not> (200 \<le> (300::int) \<and> (300::int) < 300) \<and>
   metric_value (env_reply (Response 300 (Some (sample_body ''51'')))) q_connections =
     Some (Finite 51) \<and>
   calls_for ''Active Connections''
     (new_calls (check_alerts (env_reply (Response 300 (Some (sample_body ''51''))))) idle) =
     [connections_call (Finite 51)] \<and>
   first_value confused_body = Inr (JBool False) \<and>
   metric_value (env_reply (Response 200 (Some confused_body))) q_postgres_up =
     Some (Finite 0) \<and>
   calls_for ''PostgreSQL Status''
     (new_calls (check_alerts (env_reply (Response 200 (Some confused_body)))) idle) =
     [postgres_down_call]"
proof -
  have v: "metric_value (env_reply (Response 300 (Some (sample_body ''51'')))) q_connections =
      Some (Finite 51)"
    using metric_value_sample_any [of "env_reply (Response 300 (Some (sample_body ''51'')))"
        "''51''" "Finite 51" q_connections 300]
    by (simp add: env_reply_def)
  have f: "first_value confused_body = Inr (JBool False)"
    by (simp add: first_value_def result_set_def confused_body_def ebind_def)
  have c: "metric_value (env_reply (Response 200 (Some confused_body))) q = Some (Finite 0)" for q
    by (simp add: query_defs confused_body_def)
  show ?thesis
    by (simp add: v f c new_calls_check_alerts tick_connections tick_postgres_up
        threshold_calls_def liveness_calls_def float_truthy_def float_gt_def)
qed

section \<open>The monitoring loop\<close>

lemma sleepless_bind: "sleepless m \<Longrightarrow> (\<And>x. sleepless (f x)) \<Longrightarrow> sleepless (bind m f)"
  unfolding sleepless_def
proof
  fix w
  assume m: "\<forall>w. slept (snd (m w)) = slept w" and f: "\<And>x. \<forall>w. slept (snd (f x w)) = slept w"
  show "slept (snd (bind m f w)) = slept w"
  proof (cases "m w")
    case (Pair out w')
    with m have "slept w' = slept w" by (metis snd_conv)
    with Pair f show ?thesis by (cases out) (simp_all add: bind_apply)
  qed
qed

lemma sleepless_ret: "sleepless (ret x)"
  by (simp add: sleepless_def)

lemma sleepless_logger: "sleepless (logger lv msg)"
  by (simp add: sleepless_def)

lemma sleepless_send_alert: "sleepless (send_alert e title message alert_type facts)"
  unfolding sleepless_def
proof
  fix w
  show "slept (snd (send_alert e title message alert_type facts w)) = slept w"
    by (cases "webhook e (length (outbox w))") (auto simp add: send_alert_defs)
qed

lemma sleepless_query: "sleepless (query_prometheus e q)"
  by (simp add: sleepless_def query_prometheus_apply split: sum.splits)

lemma sleepless_if_truthy_and:
  "(\<And>v. sleepless (alert v)) \<Longrightarrow> sleepless (if_truthy_and x cmp alert)"
  by (cases x) (simp_all add: if_truthy_and_def sleepless_ret sleepless_bind)

lemma sleepless_if_equals_zero: "sleepless alert \<Longrightarrow> sleepless (if_equals_zero x alert)"
  by (cases x) (simp_all add: if_equals_zero_def sleepless_ret sleepless_bind)

lemma sleepless_check_alerts: "sleepless (check_alerts e)"
  unfolding check_alerts_def check_connections_def check_db_size_def check_cpu_usage_def
    check_memory_usage_def check_temperature_def check_btc_price_def check_postgres_up_def
    check_node_up_def database_alert_def system_alert_def api_alert_def
  by (intro sleepless_bind sleepless_logger sleepless_query sleepless_if_truthy_and
      sleepless_if_equals_zero sleepless_send_alert)

lemma check_alerts_slept: "slept (snd (check_alerts e w)) = slept w"
  using sleepless_check_alerts [of e] by (simp add: sleepless_def)

lemma monitoring_pass_normal:
  "fst (check w) = Inr () \<Longrightarrow>
   monitoring_pass check w =
     (Inr (), (snd (check w))\<lparr>slept := slept (snd (check w)) @ [30]\<rparr>)"
  by (cases "check w") (simp add: monitoring_pass_def try_except_apply bind_apply
      MONITORING_INTERVAL_def)

lemma monitoring_pass_raised:
  "fst (check w) = Inl ex \<Longrightarrow>
   monitoring_pass check w =
     (Inr (), (snd (check w))\<lparr>logged := logged (snd (check w)) @
                                  [(ERROR, [Lit ''Monitoring error: '', Exc ex])],
                               slept := slept (snd (check w)) @ [10]\<rparr>)"
  by (cases "check w") (simp add: monitoring_pass_def try_except_apply bind_apply)

lemma monitoring_pass_returns: "fst (monitoring_pass check w) = Inr ()"
proof (cases "fst (check w)")
  case (Inl ex)
  then show ?thesis by (simp add: monitoring_pass_raised)
next
  case (Inr u)
  then show ?thesis by (simp add: monitoring_pass_normal)
qed

text \<open>A pass on \<^verbatim>\<open>check_alerts\<close>: the check, then the sleep of 30 seconds.\<close>

lemma monitoring_pass_check_alerts:
  "monitoring_pass (check_alerts e) w =
     (Inr (), (snd (check_alerts e w))\<lparr>slept := slept w @ [30]\<rparr>)"
  by (simp add: monitoring_pass_normal check_alerts_returns check_alerts_slept)

text \<open>The loop after one more pass: the next body, run from the state the passes left.\<close>

lemma monitoring_loop_Suc:
  "monitoring_loop (Suc fuel) checks n w =
     (case monitoring_loop fuel checks n w of
        Inl r \<Rightarrow> Inl r
      | Inr w' \<Rightarrow>
          (case monitoring_pass (checks (n + fuel)) w' of
             (Inl ex, w'') \<Rightarrow> Inl (ex, w'')
           | (Inr u, w'') \<Rightarrow> Inr w''))"
proof (induction fuel arbitrary: n w)
  case 0
  then show ?case by (simp split: prod.splits sum.splits)
next
  case (Suc fuel)
  show ?case
  proof (cases "monitoring_pass (checks n) w")
    case (Pair out w')
    show ?thesis
    proof (cases out)
      case (Inl ex)
      with Pair show ?thesis by simp
    next
      case (Inr u)
      with Pair Suc.IH [of "Suc n" w'] show ?thesis
        unfolding add_Suc add_Suc_right by simp
    qed
  qed
qed

lemma monitoring_loop_running: "\<exists>w'. monitoring_loop fuel checks n w = Inr w'"
proof (induction fuel)
  case 0
  then show ?case by simp
next
  case (Suc fuel)
  then obtain w' where r: "monitoring_loop fuel checks n w = Inr w'" by blast
  obtain out w'' where p: "monitoring_pass (checks (n + fuel)) w' = (out, w'')"
    by (cases "monitoring_pass (checks (n + fuel)) w'")
  with monitoring_pass_returns [of "checks (n + fuel)" w'] have "out = Inr ()" by simp
  with r p show ?case by (simp add: monitoring_loop_Suc del: monitoring_loop.simps)
qed

lemma monitoring_loop_next:
  assumes "monitoring_loop fuel checks n w = Inr w'"
  shows "monitoring_loop (Suc fuel) checks n w = Inr (snd (monitoring_pass (checks (n + fuel)) w'))"
proof -
  obtain out w'' where p: "monitoring_pass (checks (n + fuel)) w' = (out, w'')"
    by (cases "monitoring_pass (checks (n + fuel)) w'")
  with monitoring_pass_returns [of "checks (n + fuel)" w'] have "out = Inr ()" by simp
  with assms p show ?thesis by (simp add: monitoring_loop_Suc del: monitoring_loop.simps)
qed

lemma start_monitoring_next:
  assumes "start_monitoring fuel ticks w = Inr w'"
  shows "start_monitoring (Suc fuel) ticks w =
     Inr ((snd (check_alerts (ticks fuel) w'))\<lparr>slept := slept w' @ [30]\<rparr>)"
  using monitoring_loop_next [of fuel "\<lambda>n. check_alerts (ticks n)" 0 _ w'] assms
  by (simp add: start_monitoring_def monitoring_pass_check_alerts del: monitoring_loop.simps)

lemma start_monitoring_sleeps:
  "\<exists>w'. start_monitoring fuel ticks w = Inr w' \<and> slept w' = slept w @ replicate fuel 30"
proof (induction fuel)
  case 0
  then show ?case by (simp add: start_monitoring_def)
next
  case (Suc fuel)
  then obtain w' where r: "start_monitoring fuel ticks w = Inr w'"
      "slept w' = slept w @ replicate fuel 30"
    by blast
  show ?case
    using start_monitoring_next [OF r(1)] r(2)
    by (simp add: replicate_append_same)
qed


text \<open>
  C7. A pass of the loop of \<^verbatim>\<open>start_monitoring\<close> whose check returns ends with a sleep of
  \<^verbatim>\<open>MONITORING_INTERVAL\<close> = 30 seconds; a pass whose check raises logs the exception and ends
  with a sleep of 10 seconds; in both cases the pass returns normally, so no exception leaves
  the loop. A pass on \<^verbatim>\<open>check_alerts\<close> is the check followed by the sleep of 30 seconds.
  However many passes are observed, the loop is still running after them, and the next pass
  runs the next check from the state they left: after \<open>fuel\<close> passes \<^verbatim>\<open>start_monitoring\<close>
  has logged its start, run \<^verbatim>\<open>check_alerts\<close> \<open>fuel\<close> times and slept 30 seconds after each.
\<close>

theorem monitoring_never_returns:
  "(fst (check w) = Inr () \<longrightarrow>
      monitoring_pass check w =
        (Inr (), (snd (check w))\<lparr>slept := slept (snd (check w)) @ [MONITORING_INTERVAL]\<rparr>)) \<and>
   MONITORING_INTERVAL = 30 \<and>
   (fst (check w) = Inl ex \<longrightarrow>
      monitoring_pass check w =
        (Inr (), (snd (check w))\<lparr>logged := logged (snd (check w)) @
                                     [(ERROR, [Lit ''Monitoring error: '', Exc ex])],
                                  slept := slept (snd (check w)) @ [10]\<rparr>)) \<and>
   fst (monitoring_pass check w) = Inr () \<and>
   monitoring_pass (check_alerts e) w =
     (Inr (), (snd (check_alerts e w))\<lparr>slept := slept w @ [30]\<rparr>) \<and>
   monitoring_loop 0 checks n w = Inr w \<and>
   (\<exists>w'. monitoring_loop fuel checks n w = Inr w') \<and>
   (monitoring_loop fuel checks n w = Inr w' \<longrightarrow>
      monitoring_loop (Suc fuel) checks n w =
        Inr (snd (monitoring_pass (checks (n + fuel)) w'))) \<and>
   start_monitoring 0 ticks w =
     Inr (w\<lparr>logged := logged w @
                [(INFO, [Lit (sym_rocket @ '' Starting continuous monitoring...'')])]\<rparr>) \<and>
   (start_monitoring fuel ticks w = Inr w' \<longrightarrow>
      start_monitoring (Suc fuel) ticks w =
        Inr ((snd (check_alerts (ticks fuel) w'))\<lparr>slept := slept w' @ [30]\<rparr>)) \<and>
   (\<exists>w'. start_monitoring fuel ticks w = Inr w' \<and> slept w' = slept w @ replicate fuel 30)"
  using monitoring_loop_running [of fuel checks n w] monitoring_loop_next [of fuel checks n w w']
    start_monitoring_next [of fuel ticks w w'] start_monitoring_sleeps [of fuel ticks w]
  by (simp add: monitoring_pass_normal monitoring_pass_raised monitoring_pass_returns
      monitoring_pass_check_alerts MONITORING_INTERVAL_def start_monitoring_def
      del: monitoring_loop.simps(2))

theorem monitoring_never_returns_witness:
  "monitoring_pass (check_alerts (env_reply ConnectionFailed)) idle =
     (Inr (), (snd (check_alerts (env_reply ConnectionFailed) idle))
                \<lparr>slept := slept (snd (check_alerts (env_reply ConnectionFailed) idle)) @ [30]\<rparr>) \<and>
   monitoring_pass (raise ValueError) idle =
     (Inr (), idle\<lparr>logged := [(ERROR, [Lit ''Monitoring error: '', Exc ValueError])],
                   slept := [10]\<rparr>) \<and>
   monitoring_loop (Suc 0) (\<lambda>n. raise ValueError) 0 idle =
     Inr (idle\<lparr>logged := [(ERROR, [Lit ''Monitoring error: '', Exc ValueError])],
              slept := [10]\<rparr>) \<and>
   start_monitoring (Suc 0) (\<lambda>n. env_reply ConnectionFailed) idle =
     Inr ((snd (check_alerts (env_reply ConnectionFailed)
                  (idle\<lparr>logged := [(INFO, [Lit (sym_rocket @
                                          '' Starting continuous monitoring...'')])]\<rparr>)))
          \<lparr>slept := [30]\<rparr>)"
proof -
  let ?e = "env_reply ConnectionFailed"
  let ?w0 = "idle\<lparr>logged := [(INFO, [Lit (sym_rocket @ '' Starting continuous monitoring...'')])]\<rparr>"
  have i: "logged idle = []" "slept idle = []" "slept ?w0 = []"
    by (simp_all add: idle_def)
  have s0: "start_monitoring 0 (\<lambda>n. ?e) idle = Inr ?w0"
    by (simp add: start_monitoring_def i)
  note a = monitoring_never_returns [where check = "check_alerts ?e" and w = idle
      and ex = ValueError and e = ?e and checks = "\<lambda>n. raise ValueError" and n = 0
      and fuel = 0 and w' = idle and ticks = "\<lambda>n. ?e"]
  note b = monitoring_never_returns [where check = "raise ValueError" and w = idle
      and ex = ValueError and e = ?e and checks = "\<lambda>n. raise ValueError" and n = 0
      and fuel = 0 and w' = ?w0 and ticks = "\<lambda>n. ?e"]
  have 1: "monitoring_pass (check_alerts ?e) idle =
     (Inr (), (snd (check_alerts ?e idle))\<lparr>slept := slept (snd (check_alerts ?e idle)) @ [30]\<rparr>)"
    using a by (simp add: check_alerts_returns)
  have 2: "monitoring_pass (raise ValueError) idle =
     (Inr (), idle\<lparr>logged := [(ERROR, [Lit ''Monitoring error: '', Exc ValueError])],
                   slept := [10]\<rparr>)"
    using b by (simp add: i)
  have 3: "monitoring_loop (Suc 0) (\<lambda>n. raise ValueError) 0 idle =
     Inr (snd (monitoring_pass (raise ValueError) idle))"
    using a by simp
  have 4: "start_monitoring (Suc 0) (\<lambda>n. ?e) idle =
     Inr ((snd (check_alerts ?e ?w0))\<lparr>slept := slept ?w0 @ [30]\<rparr>)"
    using b s0 by blast
  show ?thesis
    using 1 2 3 4 by (simp add: i)
qed

section \<open>The alert server\<close>

lemma bind_lift_Inr [simp]: "bind (lift (Inr x)) f = f x"
  by (intro ext) (simp add: bind_apply)

lemma bind_lift_Inl [simp]: "bind (lift (Inl ex)) f = raise ex"
  by (intro ext) (simp add: bind_apply)

lemma emits_atI: "emits m cs \<Longrightarrow> emits_at m w cs"
  by (simp add: emits_def emits_at_def)

lemma emits_at_new_calls: "emits_at m w cs \<Longrightarrow> new_calls m w = cs"
  by (auto simp add: emits_at_def new_calls_def)

lemma emits_at_unit:
  "emits_at m w cs \<Longrightarrow> emits_at (bind m (\<lambda>_. ret ())) w cs"
  by (auto simp add: emits_at_def bind_apply)

lemma emits_at_success_alert:
  "emits_at (success_alert e service message) w
     [success_call service message (clock e (clock_reads w))]"
proof -
  have "emits_at (send_alert e [Lit (sym_check @ '' Service Recovered'')] message ''success''
          (Some [(''Service'', service), (''Status'', Str [Lit ''Recovered'']),
                 (''Time'', Str [Strftime ''%H:%M:%S'' (clock e (clock_reads w))])]))
          (w\<lparr>clock_reads := Suc (clock_reads w)\<rparr>)
          [success_call service message (clock e (clock_reads w))]"
    unfolding success_call_def by (rule emits_atI [OF emits_send_alert])
  then show ?thesis
    by (simp add: emits_at_def success_alert_def bind_apply datetime_now_def)
qed

text \<open>An alert whose three fields can be read.\<close>

lemma process_alert_fields:
  assumes "subscript alert ''labels'' = Inr labels"
    and "dict_get labels ''alertname'' (JStr ''Unknown'') = Inr alertname"
    and "subscript alert ''status'' = Inr status"
    and "subscript alert ''annotations'' = Inr annotations"
    and "dict_get annotations ''description'' (JStr []) = Inr description"
  shows "process_prometheus_alert e alert =
     (if status = JStr ''resolved'' then
        bind (success_alert e (Json alertname)
                (Str (Lit ''Alert resolved: '' # py_str (Json description)))) (\<lambda>_. ret ())
      else
        bind (lift (py_lower alertname)) (\<lambda>lowered.
        if str_contains lowered ''database'' then
          bind (database_alert e (Json alertname) (Str [Lit ''Problem detected''])
                  (Str [Lit ''Normal'']) (Json description)) (\<lambda>_. ret ())
        else if str_contains lowered ''cpu'' \<or> str_contains lowered ''memory'' then
          bind (system_alert e (Json alertname) (Str [Lit ''Problem detected''])
                  (Str [Lit ''Normal'']) (Json description)) (\<lambda>_. ret ())
        else
          bind (api_alert e (Json alertname) (Str [Lit ''Problem detected''])
                  (Json description)) (\<lambda>_. ret ())))"
  unfolding process_prometheus_alert_def
  by (intro ext) (simp add: assms bind_apply ebind_def)

lemma process_alert_resolved:
  assumes "subscript alert ''labels'' = Inr labels"
    and "dict_get labels ''alertname'' (JStr ''Unknown'') = Inr alertname"
    and "subscript alert ''status'' = Inr (JStr ''resolved'')"
    and "subscript alert ''annotations'' = Inr annotations"
    and "dict_get annotations ''description'' (JStr []) = Inr description"
  shows "emits_at (process_prometheus_alert e alert) w
     [success_call (Json alertname) (Str (Lit ''Alert resolved: '' # py_str (Json description)))
        (clock e (clock_reads w))]"
  by (simp add: process_alert_fields [OF assms] emits_at_unit emits_at_success_alert)

lemma process_alert_firing:
  assumes "subscript alert ''labels'' = Inr labels"
    and "dict_get labels ''alertname'' (JStr ''Unknown'') = Inr (JStr name)"
    and "subscript alert ''status'' = Inr status"
    and "subscript alert ''annotations'' = Inr annotations"
    and "dict_get annotations ''description'' (JStr []) = Inr description"
    and "status \<noteq> JStr ''resolved''"
  shows "emits_at (process_prometheus_alert e alert) w
     [routed_call name description]"
  using assms(6)
  by (simp add: process_alert_fields [OF assms(1-5)] bind_apply classify_def routed_call_def
      emits_at_unit
      emits_atI [OF emits_database_alert] emits_atI [OF emits_system_alert]
      emits_atI [OF emits_api_alert] del: str_contains.simps)


lemma classify_not_recovery: "classify name \<noteq> Recovery"
  by (simp add: classify_def del: str_contains.simps)

lemma wrapper_of_routed: "wrapper_of (routed_call name description) = Some (classify name)"
  using classify_not_recovery [of name]
  by (cases "classify name")
    (simp_all add: routed_call_def wrapper_of_def database_call_def system_call_def api_call_def
      sym_check_def sym_siren_def sym_warning_def sym_globe_def)

lemma wrapper_of_success: "wrapper_of (success_call service message t) = Some Recovery"
  by (simp add: wrapper_of_def success_call_def)

lemma message_of_routed: "c_message (routed_call name description) = Json description"
  by (cases "classify name")
    (simp_all add: routed_call_def database_call_def system_call_def api_call_def)

lemma metric_of_routed:
  "map_of (facts_items (c_facts (routed_call name description))) ''Metric'' = Some (Json (JStr name))"
  by (cases "classify name")
    (simp_all add: routed_call_def database_call_def system_call_def api_call_def
      facts_items_def)

text \<open>The handler on a body that is an object with a list under \<^verbatim>\<open>alerts\<close>.\<close>

lemma handle_alert_batch:
  assumes "map_of kvs ''alerts'' = Some (JArr alerts)"
  shows "handle_alert e (Some (JObj kvs)) w =
     (case for_each (process_prometheus_alert e) alerts w of
        (Inr u, w') \<Rightarrow> (Inr ([(''status'', [Lit ''success''])], 200), w')
      | (Inl ex, w') \<Rightarrow>
          (Inr ([(''error'', [Exc ex])], 500),
           w'\<lparr>logged := logged w' @ [(ERROR, [Lit ''Error processing alert: '', Exc ex])]\<rparr>))"
proof -
  from assms have k: "(''alerts'', JArr alerts) \<in> set kvs"
    by (rule map_of_SomeD)
  then have "kvs \<noteq> []" "''alerts'' \<in> fst ` set kvs"
    by force+
  then show ?thesis
    using assms
    by (simp add: handle_alert_def request_json_def try_except_apply bind_apply ebind_def
        split: prod.splits sum.splits)
qed

lemma handle_alert_no_alerts_key:
  "''alerts'' \<notin> fst ` set kvs \<Longrightarrow>
   handle_alert e (Some (JObj kvs)) w = (Inr ([(''error'', [Lit ''Invalid alert data''])], 400), w)"
  by (simp add: handle_alert_def request_json_def try_except_apply bind_apply ebind_def)

section \<open>A body that does not parse\<close>

text \<open>
  C2. The claim fails on the code for a body that is not JSON: \<^verbatim>\<open>request.json\<close> raises inside
  the \<^verbatim>\<open>try\<close> of \<^verbatim>\<open>handle_alert\<close>, whose handler answers 500 with the text of the exception;
  the answer 400 is given to \<^verbatim>\<open>{}\<close> and to every object without the key \<^verbatim>\<open>alerts\<close>.
\<close>

theorem handle_alert_unparsable:
  "handle_alert e None w =
     (Inr ([(''error'', [Exc BadRequest])], 500),
      w\<lparr>logged := logged w @ [(ERROR, [Lit ''Error processing alert: '', Exc BadRequest])]\<rparr>) \<and>
   handle_alert e (Some (JObj [])) w = (Inr ([(''error'', [Lit ''Invalid alert data''])], 400), w)"
  by (simp add: handle_alert_def request_json_def try_except_apply bind_apply ebind_def)

section \<open>Routing of inbound alerts\<close>

lemma emits_at_returns:
  fixes m :: "(world, unit) prog"
  shows "emits_at m w cs \<Longrightarrow> fst (m w) = Inr ()"
  by (auto simp add: emits_at_def)

lemma classify_HighCPUUsage: "classify ''HighCPUUsage'' = System"
  by (simp add: classify_def lower_char_def)

lemma firing_cpu_emits:
  "emits_at (process_prometheus_alert e firing_cpu) w
     [routed_call ''HighCPUUsage'' (JStr ''cpu hot'')]"
  by (rule process_alert_firing [where labels = "JObj [(''alertname'', JStr ''HighCPUUsage'')]"
        and status = "JStr ''firing''"
        and annotations = "JObj [(''description'', JStr ''cpu hot'')]"])
     (simp_all add: firing_cpu_def)

lemma resolved_disk_emits:
  "emits_at (process_prometheus_alert e resolved_disk) w
     [success_call (Json (JStr ''Disk'')) (Str [Lit ''Alert resolved: '', Lit []])
        (clock e (clock_reads w))]"
  using process_alert_resolved [where alert = resolved_disk
        and labels = "JObj [(''alertname'', JStr ''Disk'')]" and alertname = "JStr ''Disk''"
        and annotations = "JObj []" and description = "JStr []" and e = e and w = w]
  by (simp add: resolved_disk_def)

lemma handle_alert_single:
  assumes "emits_at (process_prometheus_alert e alert) w cs"
  shows "fst (handle_alert e (Some (batch [alert])) w) = Inr ([(''status'', [Lit ''success''])], 200)
       \<and> new_calls (handle_alert e (Some (batch [alert]))) w = cs"
proof -
  from assms obtain x w' where p: "process_prometheus_alert e alert w = (Inr x, w')"
      "calls w' = calls w @ cs"
    unfolding emits_at_def by blast
  have "handle_alert e (Some (batch [alert])) w = (Inr ([(''status'', [Lit ''success''])], 200), w')"
    unfolding batch_def
    by (subst handle_alert_batch [where alerts = "[alert]"]) (simp_all add: bind_apply p)
  with p show ?thesis by (simp add: new_calls_def)
qed

text \<open>
  C5, as amended. For an alert whose labels, status and annotations can be read (the element
  is an object with a status, and its labels and annotations are objects): with the status
  \<^verbatim>\<open>resolved\<close> the one call made is that of the recovery wrapper, with the description after
  \<^verbatim>\<open>Alert resolved: \<close>; otherwise, for a name that is a string, the one call made is that of
  the wrapper chosen from the lowercased name (database, then cpu or memory, then API), with
  the name as the metric and the description as the message. The firing alert
  \<^verbatim>\<open>HighCPUUsage\<close> goes to the system wrapper and the request is answered 200; the resolved
  alert \<^verbatim>\<open>Disk\<close> goes to the recovery wrapper.
\<close>

theorem alert_routing:
  assumes "subscript alert ''labels'' = Inr labels"
    and "dict_get labels ''alertname'' (JStr ''Unknown'') = Inr alertname"
    and "subscript alert ''status'' = Inr status"
    and "subscript alert ''annotations'' = Inr annotations"
    and "dict_get annotations ''description'' (JStr []) = Inr description"
  shows "(status = JStr ''resolved'' \<longrightarrow>
            fst (process_prometheus_alert e alert w) = Inr () \<and>
            new_calls (process_prometheus_alert e alert) w =
              [success_call (Json alertname)
                 (Str (Lit ''Alert resolved: '' # py_str (Json description)))
                 (clock e (clock_reads w))] \<and>
            wrapper_of (success_call (Json alertname)
                 (Str (Lit ''Alert resolved: '' # py_str (Json description)))
                 (clock e (clock_reads w))) = Some Recovery) \<and>
         (status \<noteq> JStr ''resolved'' \<and> alertname = JStr name \<longrightarrow>
            fst (process_prometheus_alert e alert w) = Inr () \<and>
            new_calls (process_prometheus_alert e alert) w = [routed_call name description] \<and>
            wrapper_of (routed_call name description) = Some (classify name) \<and>
            c_message (routed_call name description) = Json description \<and>
            map_of (facts_items (c_facts (routed_call name description))) ''Metric'' =
              Some (Json (JStr name))) \<and>
         classify ''HighCPUUsage'' = System \<and>
         fst (handle_alert e (Some (batch [firing_cpu])) w) =
           Inr ([(''status'', [Lit ''success''])], 200) \<and>
         new_calls (handle_alert e (Some (batch [firing_cpu]))) w =
           [system_call (Json (JStr ''HighCPUUsage'')) (Str [Lit ''Problem detected''])
              (Str [Lit ''Normal'']) (Json (JStr ''cpu hot''))] \<and>
         fst (handle_alert e (Some (batch [resolved_disk])) w) =
           Inr ([(''status'', [Lit ''success''])], 200) \<and>
         new_calls (handle_alert e (Some (batch [resolved_disk]))) w =
           [success_call (Json (JStr ''Disk'')) (Str [Lit ''Alert resolved: '', Lit []])
              (clock e (clock_reads w))]"
proof -
  have r: "status = JStr ''resolved'' \<Longrightarrow>
      emits_at (process_prometheus_alert e alert) w
        [success_call (Json alertname)
           (Str (Lit ''Alert resolved: '' # py_str (Json description)))
           (clock e (clock_reads w))]"
    using process_alert_resolved [OF assms(1,2) _ assms(4,5)] assms(3) by simp
  have f: "status \<noteq> JStr ''resolved'' \<Longrightarrow> alertname = JStr name \<Longrightarrow>
      emits_at (process_prometheus_alert e alert) w [routed_call name description]"
    using process_alert_firing [OF assms(1) _ assms(3,4,5)] assms(2) by simp
  have c: "routed_call ''HighCPUUsage'' (JStr ''cpu hot'') =
      system_call (Json (JStr ''HighCPUUsage'')) (Str [Lit ''Problem detected''])
        (Str [Lit ''Normal'']) (Json (JStr ''cpu hot''))"
    by (simp add: routed_call_def classify_HighCPUUsage)
  show ?thesis
    using r f handle_alert_single [OF firing_cpu_emits, of e w]
      handle_alert_single [OF resolved_disk_emits, of e w]
    by (auto simp add: emits_at_returns emits_at_new_calls wrapper_of_success wrapper_of_routed
        message_of_routed metric_of_routed classify_HighCPUUsage c)
qed


theorem alert_routing_witness:
  "new_calls (process_prometheus_alert (env_reply ConnectionFailed) firing_cpu) idle =
     [routed_call ''HighCPUUsage'' (JStr ''cpu hot'')] \<and>
   wrapper_of (routed_call ''HighCPUUsage'' (JStr ''cpu hot'')) = Some System \<and>
   c_message (routed_call ''HighCPUUsage'' (JStr ''cpu hot'')) = Json (JStr ''cpu hot'') \<and>
   new_calls (process_prometheus_alert (env_reply ConnectionFailed) resolved_disk) idle =
     [success_call (Json (JStr ''Disk'')) (Str [Lit ''Alert resolved: '', Lit []]) 0] \<and>
   wrapper_of (success_call (Json (JStr ''Disk'')) (Str [Lit ''Alert resolved: '', Lit []]) 0) =
     Some Recovery \<and>
   fst (handle_alert (env_reply ConnectionFailed) (Some (batch [firing_cpu])) idle) =
     Inr ([(''status'', [Lit ''success''])], 200)"
  using alert_routing [where alert = firing_cpu
          and labels = "JObj [(''alertname'', JStr ''HighCPUUsage'')]"
          and alertname = "JStr ''HighCPUUsage''" and status = "JStr ''firing''"
          and annotations = "JObj [(''description'', JStr ''cpu hot'')]"
          and description = "JStr ''cpu hot''" and name = "''HighCPUUsage''"
          and e = "env_reply ConnectionFailed" and w = idle]
        alert_routing [where alert = resolved_disk
          and labels = "JObj [(''alertname'', JStr ''Disk'')]"
          and alertname = "JStr ''Disk''" and status = "JStr ''resolved''"
          and annotations = "JObj []"
          and description = "JStr []" and name = "''Disk''"
          and e = "env_reply ConnectionFailed" and w = idle]
  by (simp add: firing_cpu_def resolved_disk_def env_reply_def idle_def)

text \<open>
  The claim as stated fails for an element that the handler cannot read. A resolved alert
  without \<^verbatim>\<open>annotations\<close> raises \<^verbatim>\<open>KeyError\<close> before any wrapper is called, and the request
  is answered 500; a firing alert whose name is not a string raises \<^verbatim>\<open>AttributeError\<close> at
  \<^verbatim>\<open>alertname.lower()\<close>.
\<close>

theorem unreadable_alert_counterexample:
  "subscript resolved_bare ''status'' = Inr (JStr ''resolved'') \<and>
   process_prometheus_alert (env_reply ConnectionFailed) resolved_bare idle =
     (Inl (KeyError (JStr ''annotations'')), idle) \<and>
   new_calls (process_prometheus_alert (env_reply ConnectionFailed) resolved_bare) idle = [] \<and>
   handle_alert (env_reply ConnectionFailed) (Some (batch [resolved_bare])) idle =
     (Inr ([(''error'', [Exc (KeyError (JStr ''annotations''))])], 500),
      idle\<lparr>logged := logged idle @
               [(ERROR, [Lit ''Error processing alert: '', Exc (KeyError (JStr ''annotations''))])]\<rparr>) \<and>
   process_prometheus_alert (env_reply ConnectionFailed) firing_number idle =
     (Inl AttributeError, idle) \<and>
   new_calls (process_prometheus_alert (env_reply ConnectionFailed) firing_number) idle = []"
proof -
  have p: "process_prometheus_alert e resolved_bare w = (Inl (KeyError (JStr ''annotations'')), w)"
    for e w
    by (simp add: process_prometheus_alert_def resolved_bare_def ebind_def)
  have q: "process_prometheus_alert e firing_number w = (Inl AttributeError, w)" for e w
    by (simp add: process_prometheus_alert_def firing_number_def ebind_def)
  have h: "handle_alert e (Some (batch [resolved_bare])) w =
     (Inr ([(''error'', [Exc (KeyError (JStr ''annotations''))])], 500),
      w\<lparr>logged := logged w @
               [(ERROR, [Lit ''Error processing alert: '', Exc (KeyError (JStr ''annotations''))])]\<rparr>)"
    for e w
    unfolding batch_def
    by (subst handle_alert_batch [where alerts = "[resolved_bare]"]) (simp_all add: bind_apply p)
  show ?thesis
    by (simp add: p q h new_calls_def) (simp add: resolved_bare_def)
qed

section \<open>A batch is processed element by element\<close>

lemma for_each_Cons_apply:
  "for_each f (x # xs) w =
     (case f x w of (Inl ex, w') \<Rightarrow> (Inl ex, w') | (Inr u, w') \<Rightarrow> for_each f xs w')"
  by (simp add: bind_apply)

lemma for_each_stops:
  assumes "for_each f pre w = (Inr (), w1)" and "f bad w1 = (Inl ex, w2)"
  shows "for_each f (pre @ bad # rest) w = (Inl ex, w2)"
  using assms
proof (induction pre arbitrary: w)
  case Nil
  then show ?case by (simp add: bind_apply)
next
  case (Cons a pre)
  then show ?case
    by (cases "f a w") (auto simp add: bind_apply split: sum.splits)
qed

lemma database_alert_one:
  "\<exists>c. emits_at (bind (database_alert e metric val threshold message) (\<lambda>_. ret ())) w [c]"
  using emits_at_unit [OF emits_atI [OF emits_database_alert]] by blast

lemma system_alert_one:
  "\<exists>c. emits_at (bind (system_alert e metric val threshold message) (\<lambda>_. ret ())) w [c]"
  using emits_at_unit [OF emits_atI [OF emits_system_alert]] by blast

lemma api_alert_one:
  "\<exists>c. emits_at (bind (api_alert e metric val message) (\<lambda>_. ret ())) w [c]"
  using emits_at_unit [OF emits_atI [OF emits_api_alert]] by blast

text \<open>An alert either raises before anything is sent, or makes exactly one call.\<close>

lemma process_alert_outcome:
  "(\<exists>ex. process_prometheus_alert e alert w = (Inl ex, w)) \<or>
   (\<exists>c. emits_at (process_prometheus_alert e alert) w [c])"
proof (cases "ebind (subscript alert ''labels'')
                (\<lambda>labels. dict_get labels ''alertname'' (JStr ''Unknown''))")
  case (Inl ex)
  then show ?thesis by (simp add: process_prometheus_alert_def)
next
  case name: (Inr alertname)
  show ?thesis
  proof (cases "subscript alert ''status''")
    case (Inl ex)
    then show ?thesis by (simp add: process_prometheus_alert_def name)
  next
    case status: (Inr status)
    show ?thesis
    proof (cases "ebind (subscript alert ''annotations'')
                    (\<lambda>annotations. dict_get annotations ''description'' (JStr []))")
      case (Inl ex)
      then show ?thesis by (simp add: process_prometheus_alert_def name status)
    next
      case description: (Inr description)
      have p: "process_prometheus_alert e alert =
         (if status = JStr ''resolved'' then
            bind (success_alert e (Json alertname)
                    (Str (Lit ''Alert resolved: '' # py_str (Json description)))) (\<lambda>_. ret ())
          else
            bind (lift (py_lower alertname)) (\<lambda>lowered.
            if str_contains lowered ''database'' then
              bind (database_alert e (Json alertname) (Str [Lit ''Problem detected''])
                      (Str [Lit ''Normal'']) (Json description)) (\<lambda>_. ret ())
            else if str_contains lowered ''cpu'' \<or> str_contains lowered ''memory'' then
              bind (system_alert e (Json alertname) (Str [Lit ''Problem detected''])
                      (Str [Lit ''Normal'']) (Json description)) (\<lambda>_. ret ())
            else
              bind (api_alert e (Json alertname) (Str [Lit ''Problem detected''])
                      (Json description)) (\<lambda>_. ret ())))"
        by (simp add: process_prometheus_alert_def name status description)
      show ?thesis
      proof (cases "status = JStr ''resolved''")
        case True
        then have "emits_at (process_prometheus_alert e alert) w
            [success_call (Json alertname)
               (Str (Lit ''Alert resolved: '' # py_str (Json description)))
               (clock e (clock_reads w))]"
          by (simp add: p emits_at_unit emits_at_success_alert)
        then show ?thesis by blast
      next
        case False
        show ?thesis
        proof (cases "py_lower alertname")
          case (Inl ex)
          with False show ?thesis by (simp add: p)
        next
          case (Inr lowered)
          with False have "\<exists>c. emits_at (process_prometheus_alert e alert) w [c]"
            by (simp add: p database_alert_one system_alert_one api_alert_one
                del: str_contains.simps)
          then show ?thesis by blast
        qed
      qed
    qed
  qed
qed

lemma process_alert_raises:
  "process_prometheus_alert e alert w = (Inl ex, w') \<Longrightarrow> w' = w"
  using process_alert_outcome [of e alert w] by (auto simp add: emits_at_def)

lemma process_alert_returns:
  assumes "process_prometheus_alert e alert w = (Inr u, w')"
  shows "length (calls w') = length (calls w) + 1 \<and> length (outbox w') = length (outbox w) + 1"
  using process_alert_outcome [of e alert w] assms by (auto simp add: emits_at_def)

lemma for_each_alerts_count:
  assumes "for_each (process_prometheus_alert e) pre w = (Inr (), w1)"
  shows "length (calls w1) = length (calls w) + length pre \<and>
         length (outbox w1) = length (outbox w) + length pre"
  using assms
proof (induction pre arbitrary: w)
  case Nil
  then show ?case by simp
next
  case (Cons a pre)
  show ?case
  proof (cases "process_prometheus_alert e a w")
    case (Pair out w')
    with Cons.prems obtain u where out: "out = Inr u"
      by (cases out) (simp_all add: bind_apply)
    with Pair Cons.prems have "for_each (process_prometheus_alert e) pre w' = (Inr (), w1)"
      by (simp add: bind_apply)
    from Cons.IH [OF this] process_alert_returns [of e a w u w'] Pair out
    show ?thesis by simp
  qed
qed


text \<open>
  C10. When an element of the batch raises (as one without \<^verbatim>\<open>labels\<close> or without
  \<^verbatim>\<open>status\<close> does, with a \<^verbatim>\<open>KeyError\<close>) after elements that did not, the endpoint answers
  500 with the text of the exception, and the state is the one left by the earlier elements:
  each of them has made its call of \<^verbatim>\<open>send_alert\<close> and its POST to the webhook. The raising
  element and those after it have sent nothing.
\<close>

theorem handle_alert_not_atomic:
  assumes "map_of kvs ''alerts'' = Some (JArr (pre @ bad # rest))"
    and "for_each (process_prometheus_alert e) pre w = (Inr (), w1)"
    and "process_prometheus_alert e bad w1 = (Inl ex, w2)"
  shows "handle_alert e (Some (JObj kvs)) w =
           (Inr ([(''error'', [Exc ex])], 500),
            w1\<lparr>logged := logged w1 @ [(ERROR, [Lit ''Error processing alert: '', Exc ex])]\<rparr>) \<and>
         length (calls w1) = length (calls w) + length pre \<and>
         length (outbox w1) = length (outbox w) + length pre \<and>
         (map_of fs ''labels'' = None \<longrightarrow>
            process_prometheus_alert e (JObj fs) w1 = (Inl (KeyError (JStr ''labels'')), w1)) \<and>
         (map_of fs ''labels'' = Some (JObj labels) \<and> map_of fs ''status'' = None \<longrightarrow>
            process_prometheus_alert e (JObj fs) w1 = (Inl (KeyError (JStr ''status'')), w1))"
proof -
  from assms(3) have "w2 = w1"
    by (rule process_alert_raises)
  with assms(3) have "for_each (process_prometheus_alert e) (pre @ bad # rest) w = (Inl ex, w1)"
    using for_each_stops [OF assms(2), of bad ex w1 rest] by simp
  then have 1: "handle_alert e (Some (JObj kvs)) w =
           (Inr ([(''error'', [Exc ex])], 500),
            w1\<lparr>logged := logged w1 @ [(ERROR, [Lit ''Error processing alert: '', Exc ex])]\<rparr>)"
    by (simp add: handle_alert_batch [OF assms(1)])
  have 2: "map_of fs ''labels'' = None \<longrightarrow>
            process_prometheus_alert e (JObj fs) w1 = (Inl (KeyError (JStr ''labels'')), w1)"
    by (simp add: process_prometheus_alert_def ebind_def)
  have 3: "map_of fs ''labels'' = Some (JObj labels) \<and> map_of fs ''status'' = None \<longrightarrow>
            process_prometheus_alert e (JObj fs) w1 = (Inl (KeyError (JStr ''status'')), w1)"
    by (cases "map_of labels ''alertname''") (simp_all add: process_prometheus_alert_def ebind_def)
  show ?thesis
    using 1 2 3 for_each_alerts_count [OF assms(2)] by simp
qed

theorem handle_alert_not_atomic_witness:
  "fst (handle_alert (env_reply ConnectionFailed)
          (Some (batch [firing_cpu, JObj [], resolved_disk])) idle) =
     Inr ([(''error'', [Exc (KeyError (JStr ''labels''))])], 500) \<and>
   length (calls (snd (handle_alert (env_reply ConnectionFailed)
          (Some (batch [firing_cpu, JObj [], resolved_disk])) idle))) = 1 \<and>
   length (outbox (snd (handle_alert (env_reply ConnectionFailed)
          (Some (batch [firing_cpu, JObj [], resolved_disk])) idle))) = 1 \<and>
   process_prometheus_alert (env_reply ConnectionFailed)
     (JObj [(''labels'', JObj []), (''annotations'', JObj [])]) idle =
     (Inl (KeyError (JStr ''status'')), idle)"
proof -
  let ?e = "env_reply ConnectionFailed"
  let ?w1 = "snd (for_each (process_prometheus_alert ?e) [firing_cpu] idle)"
  obtain x w' where p: "process_prometheus_alert ?e firing_cpu idle = (Inr x, w')"
    using firing_cpu_emits [of ?e idle] unfolding emits_at_def by blast
  then have a: "for_each (process_prometheus_alert ?e) [firing_cpu] idle = (Inr (), ?w1)"
    by (simp add: bind_apply)
  have b: "process_prometheus_alert ?e (JObj []) ?w1 = (Inl (KeyError (JStr ''labels'')), ?w1)"
    by (simp add: process_prometheus_alert_def ebind_def)
  have k: "map_of [(''alerts'', JArr ([firing_cpu] @ JObj [] # [resolved_disk]))] ''alerts'' =
      Some (JArr ([firing_cpu] @ JObj [] # [resolved_disk]))"
    by simp
  have i: "length (calls idle) = 0" "length (outbox idle) = 0"
    by (simp_all add: idle_def)
  show ?thesis
    using handle_alert_not_atomic [OF k a b,
        of "[(''labels'', JObj []), (''annotations'', JObj [])]" "[]"]
      handle_alert_not_atomic [where kvs = "[(''alerts'', JArr ([] @ JObj [] # []))]"
        and e = ?e and w = idle and ?w1.0 = idle and ?w2.0 = idle and pre = "[]"
        and bad = "JObj []" and rest = "[]" and ex = "KeyError (JStr ''labels'')"
        and fs = "[(''labels'', JObj []), (''annotations'', JObj [])]" and labels = "[]"]
    by (simp add: batch_def i process_prometheus_alert_def ebind_def)
qed

section \<open>The exporter\<close>

lemma gauge_set_apply:
  "gauge_set e g v s =
     (case py_float e v of
        Inl ex \<Rightarrow> (Inl ex, s)
      | Inr x \<Rightarrow> (Inr (), s\<lparr>gauges := (gauges s)(g \<mapsto> x)\<rparr>))"
  by (simp add: gauge_set_def bind_apply split: sum.splits)

lemma counter_inc_apply [simp]:
  "counter_inc api s =
     (Inr (), s\<lparr>error_counter := (error_counter s)(api := Suc (error_counter s api))\<rparr>)"
  by (simp add: counter_inc_def)

lemma observe_apply [simp]:
  "observe api x s =
     (Inr (), s\<lparr>api_response_time := (api_response_time s)(api := api_response_time s api @ [x])\<rparr>)"
  by (simp add: observe_def)

lemma time_now_apply [simp]:
  "time_now e s = (Inr (time_time e (clock_reads s)), s\<lparr>clock_reads := Suc (clock_reads s)\<rparr>)"
  by (simp add: time_now_def)

lemma gauge_labels_apply:
  "gauge_labels g s =
     (Inr (), s\<lparr>gauges := (gauges s)(g \<mapsto>
                  (case gauges s g of None \<Rightarrow> Finite 0 | Some x \<Rightarrow> x))\<rparr>)"
  by (simp add: gauge_labels_def)

lemmas exporter_defs = bind_apply try_except_apply gauge_set_apply gauge_labels_apply

text \<open>The weather fetch, by what it reads.\<close>

lemma fetch_weather_data_success:
  assumes "weather_reading e = Inr (temperature, windspeed, humidity, visibility)"
  shows "fetch_weather_data e s =
     (Inr True,
      s\<lparr>logged := logged s @ [(INFO, [Lit (sym_check @ '' Weather data fetched successfully'')])],
        clock_reads := Suc (Suc (clock_reads s)),
        gauges := (gauges s)(weather_temperature \<mapsto> temperature, weather_windspeed \<mapsto> windspeed,
                    weather_humidity \<mapsto> humidity, weather_visibility \<mapsto> visibility,
                    weather_api_status \<mapsto> Finite 1),
        api_response_time := (api_response_time s)(''weather'' :=
           api_response_time s ''weather'' @
             [float_minus e (Finite (time_time e (Suc (clock_reads s))))
                (Finite (time_time e (clock_reads s)))])\<rparr>)"
  using assms
  by (auto simp add: fetch_weather_data_def exporter_defs weather_reading_def weather_values_def
      ebind_def split: sum.splits)

lemma fetch_weather_data_failure:
  assumes "weather_reading e = Inl ex"
  shows "fst (fetch_weather_data e s) = Inr False \<and>
         gauges (snd (fetch_weather_data e s)) weather_api_status = Some (Finite 0) \<and>
         error_counter (snd (fetch_weather_data e s)) =
           (error_counter s)(''weather'' := Suc (error_counter s ''weather''))"
  using assms
  by (auto simp add: fetch_weather_data_def exporter_defs weather_reading_def weather_values_def
      ebind_def split: sum.splits)


lemma weather_fails_iff: "(fst (fetch_weather_data e s) = Inr False) = weather_fails e"
proof (cases "weather_reading e")
  case (Inl ex)
  then show ?thesis
    using fetch_weather_data_failure [of e ex s] by (simp add: weather_fails_def)
next
  case (Inr v)
  then show ?thesis
    using fetch_weather_data_success [of e "fst v" "fst (snd v)" "fst (snd (snd v))"
        "snd (snd (snd v))" s]
    by (simp add: weather_fails_def)
qed

text \<open>The crypto fetch, by what it reads.\<close>

lemma fetch_crypto_data_success:
  assumes "crypto_reading e = Inr (btc, eth, cap)"
  shows "fetch_crypto_data e s =
     (Inr True,
      s\<lparr>logged := logged s @ [(INFO, [Lit (sym_check @ '' Crypto data fetched successfully'')])],
        clock_reads := Suc (Suc (clock_reads s)),
        gauges := (gauges s)(crypto_bitcoin_price \<mapsto> btc, crypto_ethereum_price \<mapsto> eth,
                    crypto_market_cap \<mapsto> cap, crypto_api_status \<mapsto> Finite 1),
        api_response_time := (api_response_time s)(''crypto'' :=
           api_response_time s ''crypto'' @
             [float_minus e (Finite (time_time e (Suc (clock_reads s))))
                (Finite (time_time e (clock_reads s)))])\<rparr>)"
  using assms
  by (auto simp add: fetch_crypto_data_def exporter_defs crypto_reading_def ebind_def
      split: sum.splits)

lemma fetch_crypto_data_failure:
  assumes "crypto_reading e = Inl ex"
  shows "fst (fetch_crypto_data e s) = Inr False \<and>
         gauges (snd (fetch_crypto_data e s)) crypto_api_status = Some (Finite 0) \<and>
         error_counter (snd (fetch_crypto_data e s)) =
           (error_counter s)(''crypto'' := Suc (error_counter s ''crypto''))"
  using assms
  by (auto simp add: fetch_crypto_data_def exporter_defs crypto_reading_def ebind_def
      split: sum.splits)


text \<open>The exchange fetch, by the two rates read.\<close>

lemma fetch_exchange_rates_success:
  assumes "rate_of e (usd_api e) = Inr usd" and "rate_of e (eur_api e) = Inr eur"
  shows "fetch_exchange_rates e s =
     (Inr True,
      s\<lparr>logged := logged s @ [(INFO, [Lit (sym_check @ '' Exchange rates fetched successfully'')])],
        clock_reads := Suc (Suc (clock_reads s)),
        gauges := (gauges s)(exchange_rate_usd \<mapsto> usd, exchange_rate_eur \<mapsto> eur),
        api_response_time := (api_response_time s)(''exchange'' :=
           api_response_time s ''exchange'' @
             [float_minus e (Finite (time_time e (Suc (clock_reads s))))
                (Finite (time_time e (clock_reads s)))])\<rparr>)"
  using assms
  by (auto simp add: fetch_exchange_rates_def exporter_defs rate_of_def ebind_def
      split: sum.splits)

lemma fetch_exchange_rates_failure:
  assumes "rate_of e (usd_api e) = Inl ex \<or> rate_of e (eur_api e) = Inl ex"
  shows "fst (fetch_exchange_rates e s) = Inr False \<and>
         error_counter (snd (fetch_exchange_rates e s)) =
           (error_counter s)(''exchange'' := Suc (error_counter s ''exchange''))"
  using assms
  by (auto simp add: fetch_exchange_rates_def exporter_defs rate_of_def ebind_def
      split: sum.splits)

text \<open>The static fetch.\<close>

lemma fetch_static_data_apply:
  "fetch_static_data e s =
     (Inr True,
      s\<lparr>logged := logged s @ [(INFO, [Lit (sym_check @ '' Static data updated'')])],
        clock_reads := Suc (Suc (clock_reads s)),
        gauges := (gauges s)(astana_population \<mapsto> Finite 1300000,
                    current_timestamp \<mapsto> Finite (time_time e (clock_reads s)),
                    random_metric \<mapsto>
                      float_rem e (Finite (time_time e (Suc (clock_reads s)))) (Finite 100))\<rparr>)"
  by (simp add: fetch_static_data_def exporter_defs)

text \<open>No fetch raises, and the later fetches leave the weather status and counter alone.\<close>

lemma fetch_weather_data_returns: "\<exists>b. fst (fetch_weather_data e s) = Inr b"
  by (cases "weather_reading e")
    (auto simp add: fetch_weather_data_failure fetch_weather_data_success)

lemma fetch_crypto_data_frame:
  "(\<exists>b. fst (fetch_crypto_data e s) = Inr b) \<and>
   gauges (snd (fetch_crypto_data e s)) weather_api_status = gauges s weather_api_status \<and>
   error_counter (snd (fetch_crypto_data e s)) ''weather'' = error_counter s ''weather''"
  by (auto simp add: fetch_crypto_data_def exporter_defs weather_api_status_def
      crypto_bitcoin_price_def crypto_ethereum_price_def crypto_market_cap_def
      crypto_api_status_def split: sum.splits prod.splits)

lemma fetch_exchange_rates_frame:
  "(\<exists>b. fst (fetch_exchange_rates e s) = Inr b) \<and>
   gauges (snd (fetch_exchange_rates e s)) weather_api_status = gauges s weather_api_status \<and>
   error_counter (snd (fetch_exchange_rates e s)) ''weather'' = error_counter s ''weather''"
  by (auto simp add: fetch_exchange_rates_def exporter_defs weather_api_status_def
      exchange_rate_usd_def exchange_rate_eur_def split: sum.splits prod.splits)

lemma fetch_static_data_frame:
  "gauges (snd (fetch_static_data e s)) weather_api_status = gauges s weather_api_status \<and>
   error_counter (snd (fetch_static_data e s)) ''weather'' = error_counter s ''weather''"
  by (simp add: fetch_static_data_apply weather_api_status_def
      astana_population_def current_timestamp_def random_metric_def)

lemma main_loop_pass_apply:
  "main_loop_pass e s =
     (Inr (),
      (snd (fetch_static_data e (snd (fetch_exchange_rates e (snd (fetch_crypto_data e
         (snd (fetch_weather_data e (after_uptime e s)))))))))
      \<lparr>logged := logged (snd (fetch_static_data e (snd (fetch_exchange_rates e
                     (snd (fetch_crypto_data e (snd (fetch_weather_data e (after_uptime e s))))))))) @
                 [(INFO, [Lit (sym_check @ '' All metrics updated successfully'')])],
        slept := slept (snd (fetch_static_data e (snd (fetch_exchange_rates e
                     (snd (fetch_crypto_data e (snd (fetch_weather_data e (after_uptime e s))))))))) @
                 [20]\<rparr>)"
proof -
  let ?s1 = "after_uptime e s"
  obtain b2 s2 where 2: "fetch_weather_data e ?s1 = (Inr b2, s2)"
    using fetch_weather_data_returns [of e ?s1] by (cases "fetch_weather_data e ?s1") auto
  obtain b3 s3 where 3: "fetch_crypto_data e s2 = (Inr b3, s3)"
    using fetch_crypto_data_frame [of e s2] by (cases "fetch_crypto_data e s2") auto
  obtain b4 s4 where 4: "fetch_exchange_rates e s3 = (Inr b4, s4)"
    using fetch_exchange_rates_frame [of e s3] by (cases "fetch_exchange_rates e s3") auto
  obtain s5 where 5: "fetch_static_data e s4 = (Inr True, s5)"
    by (simp add: fetch_static_data_apply)
  have u: "bind (time_now e) (\<lambda>t. bind get_start_time (\<lambda>t0.
             bind (gauge_set e exporter_uptime (JFloat (float_minus e (Finite t) (Finite t0)))) f))
             s = f () ?s1" for f
    by (simp add: bind_apply gauge_set_apply get_start_time_def after_uptime_def)
  show ?thesis
    unfolding main_loop_pass_def
    by (simp add: bind_apply [of "try_except _ _"] try_except_apply u)
       (simp add: bind_apply 2 3 4 5)
qed

text \<open>The causes of a failed weather fetch.\<close>

lemma weather_fails_no_reply: "weather_api e = ConnectionFailed \<Longrightarrow> weather_fails e"
  by (simp add: weather_fails_def weather_reading_def get_json_def ebind_def)

lemma weather_fails_error_status:
  "weather_api e = Response code body \<Longrightarrow> 400 \<le> code \<Longrightarrow> code < 600 \<Longrightarrow> weather_fails e"
  by (simp add: weather_fails_def weather_reading_def get_json_def ebind_def
      raise_for_status_def)

lemma weather_fails_not_json: "weather_api e = Response code None \<Longrightarrow> weather_fails e"
  by (simp add: weather_fails_def weather_reading_def get_json_def ebind_def
      raise_for_status_def response_json_def)

lemma weather_fails_of_body:
  "weather_api e = Response code (Some data) \<Longrightarrow> \<not> (400 \<le> code \<and> code < 600) \<Longrightarrow>
   weather_fails e = (case weather_values e data of Inl ex \<Rightarrow> True | Inr v \<Rightarrow> False)"
  by (auto simp add: weather_fails_def weather_reading_def get_json_def ebind_def
      raise_for_status_def response_json_def)

lemma weather_reading_visibility:
  "weather_reading e = Inr (temperature, windspeed, humidity, visibility) \<Longrightarrow>
   \<exists>v. raw_visibility (weather_api e) = Inr v \<and> py_truediv e v 1000 = Inr visibility"
  by (auto simp add: weather_reading_def weather_values_def raw_visibility_def ebind_def
      split: sum.splits)

lemma xenv_of_simps [simp]:
  "str_to_float (xenv_of r) = sample_float"
  "int_to_float (xenv_of r) = (\<lambda>i. Some (Finite (of_int i)))"
  "int_truediv (xenv_of r) = (\<lambda>i c. Some (Finite (of_int i / of_int c)))"
  "float_truediv (xenv_of r) = exact (\<lambda>a b. a / b)"
  "float_plus (xenv_of r) = exact (\<lambda>a b. a + b)"
  "float_minus (xenv_of r) = exact (\<lambda>a b. a - b)"
  "float_rem (xenv_of r) = exact (\<lambda>a b. a - b * of_int \<lfloor>a / b\<rfloor>)"
  "weather_api (xenv_of r) = r"
  "crypto_api (xenv_of r) = Response 200 (Some crypto_body)"
  "usd_api (xenv_of r) = Response 200 (Some (rates_body (Finite 450.5)))"
  "eur_api (xenv_of r) = Response 200 (Some (rates_body (Finite 490.25)))"
  "time_time (xenv_of r) = (\<lambda>n. 1700000000 + of_nat n)"
  by (simp_all add: xenv_of_def)

lemmas reply_defs = get_json_def ebind_def raise_for_status_def response_json_def

lemma crypto_reading_sample:
  "crypto_reading (xenv_of r) = Inr (Finite 65000, Finite 3000, Finite 1700)"
  by (simp add: crypto_reading_def reply_defs crypto_body_def py_add_def)

lemma rate_of_sample: "rate_of (xenv_of r) (Response 200 (Some (rates_body x))) = Inr x"
  by (simp add: rate_of_def reply_defs rates_body_def)

lemma weather_reading_sample:
  "weather_reading (xenv_of (Response code (Some weather_body))) =
     (if 400 \<le> code \<and> code < 600 then Inl (HTTPError code)
      else Inr (Finite 21.5, Finite 12, Finite 40, Finite 24))"
  by (simp add: weather_reading_def weather_values_def reply_defs weather_body_def int_div_def)

lemma weather_reading_confused:
  "weather_reading (xenv_of (Response 200 (Some confused_weather))) =
     Inr (Finite 0, Finite 1, Finite 0, Finite 24)"
  by (simp add: weather_reading_def weather_values_def reply_defs confused_weather_def
      int_div_def sample_float_def)


section \<open>A failed weather fetch stays in its own fetch\<close>

text \<open>
  C6, as amended. The weather fetch fails (returns \<^verbatim>\<open>False\<close>) exactly when its four values
  cannot be read: there is no reply, the status is 4xx or 5xx, the body is not JSON, or the
  temperature, the windspeed, the first hourly humidity or the first hourly visibility is
  missing from the body or not accepted by \<^verbatim>\<open>float\<close> or by the division. In a pass of
  \<^verbatim>\<open>main_loop\<close> in which it fails, the gauge \<^verbatim>\<open>weather_api_status\<close> is 0 and the error
  counter of \<^verbatim>\<open>weather\<close> is one more than before, after the fetch and still at the end of the
  pass. The crypto, exchange and static fetches run after it in the same pass, each from the
  state the one before left: the crypto fetch sets its four gauges from its reply, observes its
  response time and returns \<^verbatim>\<open>True\<close>, or counts its own error; the exchange fetch sets the two
  rate gauges likewise; the static fetch sets the population, the timestamp and the remainder
  of the time by 100; and the pass ends normally with its log line and its sleep of 20 seconds.
\<close>

theorem weather_failure_is_contained:
  assumes "weather_fails e"
    and "s1 = after_uptime e s"
    and "s2 = snd (fetch_weather_data e s1)"
    and "s3 = snd (fetch_crypto_data e s2)"
    and "s4 = snd (fetch_exchange_rates e s3)"
    and "s5 = snd (fetch_static_data e s4)"
  shows "fst (fetch_weather_data e s1) = Inr False \<and>
         gauges s2 weather_api_status = Some (Finite 0) \<and>
         error_counter s2 ''weather'' = error_counter s ''weather'' + 1 \<and>
         (crypto_reading e = Inr (btc, eth, cap) \<longrightarrow>
            fetch_crypto_data e s2 =
              (Inr True,
               s2\<lparr>logged := logged s2 @
                     [(INFO, [Lit (sym_check @ '' Crypto data fetched successfully'')])],
                  clock_reads := Suc (Suc (clock_reads s2)),
                  gauges := (gauges s2)(crypto_bitcoin_price \<mapsto> btc,
                              crypto_ethereum_price \<mapsto> eth, crypto_market_cap \<mapsto> cap,
                              crypto_api_status \<mapsto> Finite 1),
                  api_response_time := (api_response_time s2)(''crypto'' :=
                     api_response_time s2 ''crypto'' @
                       [float_minus e (Finite (time_time e (Suc (clock_reads s2))))
                          (Finite (time_time e (clock_reads s2)))])\<rparr>)) \<and>
         (crypto_reading e = Inl ex \<longrightarrow>
            fst (fetch_crypto_data e s2) = Inr False \<and>
            gauges s3 crypto_api_status = Some (Finite 0) \<and>
            error_counter s3 = (error_counter s2)(''crypto'' := Suc (error_counter s2 ''crypto''))) \<and>
         (rate_of e (usd_api e) = Inr usd \<and> rate_of e (eur_api e) = Inr eur \<longrightarrow>
            fetch_exchange_rates e s3 =
              (Inr True,
               s3\<lparr>logged := logged s3 @
                     [(INFO, [Lit (sym_check @ '' Exchange rates fetched successfully'')])],
                  clock_reads := Suc (Suc (clock_reads s3)),
                  gauges := (gauges s3)(exchange_rate_usd \<mapsto> usd, exchange_rate_eur \<mapsto> eur),
                  api_response_time := (api_response_time s3)(''exchange'' :=
                     api_response_time s3 ''exchange'' @
                       [float_minus e (Finite (time_time e (Suc (clock_reads s3))))
                          (Finite (time_time e (clock_reads s3)))])\<rparr>)) \<and>
         (rate_of e (usd_api e) = Inl ex' \<or> rate_of e (eur_api e) = Inl ex' \<longrightarrow>
            fst (fetch_exchange_rates e s3) = Inr False \<and>
            error_counter s4 =
              (error_counter s3)(''exchange'' := Suc (error_counter s3 ''exchange''))) \<and>
         fetch_static_data e s4 =
           (Inr True,
            s4\<lparr>logged := logged s4 @ [(INFO, [Lit (sym_check @ '' Static data updated'')])],
               clock_reads := Suc (Suc (clock_reads s4)),
               gauges := (gauges s4)(astana_population \<mapsto> Finite 1300000,
                           current_timestamp \<mapsto> Finite (time_time e (clock_reads s4)),
                           random_metric \<mapsto>
                             float_rem e (Finite (time_time e (Suc (clock_reads s4))))
                               (Finite 100))\<rparr>) \<and>
         main_loop_pass e s =
           (Inr (),
            s5\<lparr>logged := logged s5 @
                           [(INFO, [Lit (sym_check @ '' All metrics updated successfully'')])],
               slept := slept s5 @ [20]\<rparr>) \<and>
         gauges (snd (main_loop_pass e s)) weather_api_status = Some (Finite 0) \<and>
         error_counter (snd (main_loop_pass e s)) ''weather'' = error_counter s ''weather'' + 1 \<and>
         (fst (fetch_weather_data e0 s0) = Inr False) = weather_fails e0 \<and>
         (weather_api e0 = ConnectionFailed \<longrightarrow> weather_fails e0) \<and>
         (weather_api e0 = Response code body \<and> 400 \<le> code \<and> code < 600 \<longrightarrow>
            weather_fails e0) \<and>
         (weather_api e0 = Response code None \<longrightarrow> weather_fails e0) \<and>
         (weather_api e0 = Response code (Some data) \<and> \<not> (400 \<le> code \<and> code < 600) \<longrightarrow>
            weather_fails e0 =
              (case weather_values e0 data of Inl ex \<Rightarrow> True | Inr v \<Rightarrow> False))"
proof -
  obtain ex0 where r: "weather_reading e = Inl ex0"
    using assms(1) by (cases "weather_reading e") (simp_all add: weather_fails_def)
  have w: "fst (fetch_weather_data e s1) = Inr False"
      "gauges s2 weather_api_status = Some (Finite 0)"
      "error_counter s2 ''weather'' = error_counter s ''weather'' + 1"
    using fetch_weather_data_failure [OF r, of s1] assms(2,3)
    by (simp_all add: after_uptime_def)
  have c: "gauges s3 weather_api_status = gauges s2 weather_api_status"
      "error_counter s3 ''weather'' = error_counter s2 ''weather''"
    using fetch_crypto_data_frame [of e s2] assms(4) by simp_all
  have x: "gauges s4 weather_api_status = gauges s3 weather_api_status"
      "error_counter s4 ''weather'' = error_counter s3 ''weather''"
    using fetch_exchange_rates_frame [of e s3] assms(5) by simp_all
  have t: "gauges s5 weather_api_status = gauges s4 weather_api_status"
      "error_counter s5 ''weather'' = error_counter s4 ''weather''"
    using fetch_static_data_frame [of e s4] assms(6) by simp_all
  have p: "main_loop_pass e s =
           (Inr (),
            s5\<lparr>logged := logged s5 @
                           [(INFO, [Lit (sym_check @ '' All metrics updated successfully'')])],
               slept := slept s5 @ [20]\<rparr>)"
    unfolding assms(2-6) by (rule main_loop_pass_apply)
  have e1: "gauges (snd (main_loop_pass e s)) weather_api_status = Some (Finite 0)"
    using w c x t by (simp add: p)
  have e2: "error_counter (snd (main_loop_pass e s)) ''weather'' = error_counter s ''weather'' + 1"
    using w c x t by (simp add: p)
  have k1: "crypto_reading e = Inr (btc, eth, cap) \<longrightarrow>
            fetch_crypto_data e s2 =
              (Inr True,
               s2\<lparr>logged := logged s2 @
                     [(INFO, [Lit (sym_check @ '' Crypto data fetched successfully'')])],
                  clock_reads := Suc (Suc (clock_reads s2)),
                  gauges := (gauges s2)(crypto_bitcoin_price \<mapsto> btc,
                              crypto_ethereum_price \<mapsto> eth, crypto_market_cap \<mapsto> cap,
                              crypto_api_status \<mapsto> Finite 1),
                  api_response_time := (api_response_time s2)(''crypto'' :=
                     api_response_time s2 ''crypto'' @
                       [float_minus e (Finite (time_time e (Suc (clock_reads s2))))
                          (Finite (time_time e (clock_reads s2)))])\<rparr>)"
    using fetch_crypto_data_success [of e btc eth cap s2] by blast
  have k2: "crypto_reading e = Inl ex \<longrightarrow>
            fst (fetch_crypto_data e s2) = Inr False \<and>
            gauges s3 crypto_api_status = Some (Finite 0) \<and>
            error_counter s3 = (error_counter s2)(''crypto'' := Suc (error_counter s2 ''crypto''))"
    using fetch_crypto_data_failure [of e ex s2] assms(4) by blast
  have x1: "rate_of e (usd_api e) = Inr usd \<and> rate_of e (eur_api e) = Inr eur \<longrightarrow>
            fetch_exchange_rates e s3 =
              (Inr True,
               s3\<lparr>logged := logged s3 @
                     [(INFO, [Lit (sym_check @ '' Exchange rates fetched successfully'')])],
                  clock_reads := Suc (Suc (clock_reads s3)),
                  gauges := (gauges s3)(exchange_rate_usd \<mapsto> usd, exchange_rate_eur \<mapsto> eur),
                  api_response_time := (api_response_time s3)(''exchange'' :=
                     api_response_time s3 ''exchange'' @
                       [float_minus e (Finite (time_time e (Suc (clock_reads s3))))
                          (Finite (time_time e (clock_reads s3)))])\<rparr>)"
    using fetch_exchange_rates_success [of e usd eur s3] by blast
  have x2: "rate_of e (usd_api e) = Inl ex' \<or> rate_of e (eur_api e) = Inl ex' \<longrightarrow>
            fst (fetch_exchange_rates e s3) = Inr False \<and>
            error_counter s4 =
              (error_counter s3)(''exchange'' := Suc (error_counter s3 ''exchange''))"
    using fetch_exchange_rates_failure [of e ex' s3] assms(5) by blast
  have f: "(fst (fetch_weather_data e0 s0) = Inr False) = weather_fails e0"
      "weather_api e0 = ConnectionFailed \<longrightarrow> weather_fails e0"
      "weather_api e0 = Response code body \<and> 400 \<le> code \<and> code < 600 \<longrightarrow> weather_fails e0"
      "weather_api e0 = Response code None \<longrightarrow> weather_fails e0"
      "weather_api e0 = Response code (Some data) \<and> \<not> (400 \<le> code \<and> code < 600) \<longrightarrow>
         weather_fails e0 =
           (case weather_values e0 data of Inl ex \<Rightarrow> True | Inr v \<Rightarrow> False)"
    using weather_fails_iff [of e0 s0] weather_fails_no_reply [of e0]
      weather_fails_error_status [of e0 code body] weather_fails_not_json [of e0 code]
      weather_fails_of_body [of e0 code data]
    by blast+
  show ?thesis
    by (intro conjI w k1 k2 x1 x2 fetch_static_data_apply p e1 e2 f)
qed


lemmas metric_defs = weather_temperature_def weather_windspeed_def weather_humidity_def
  weather_visibility_def crypto_bitcoin_price_def crypto_ethereum_price_def crypto_market_cap_def
  exchange_rate_usd_def exchange_rate_eur_def weather_api_status_def crypto_api_status_def
  exporter_uptime_def astana_population_def current_timestamp_def random_metric_def

theorem weather_failure_is_contained_witness:
  "weather_fails (xenv_of ConnectionFailed) \<and>
   fst (main_loop_pass (xenv_of ConnectionFailed) started) = Inr () \<and>
   gauges (snd (main_loop_pass (xenv_of ConnectionFailed) started)) weather_api_status =
     Some (Finite 0) \<and>
   error_counter (snd (main_loop_pass (xenv_of ConnectionFailed) started)) ''weather'' = 1 \<and>
   gauges (snd (main_loop_pass (xenv_of ConnectionFailed) started)) crypto_bitcoin_price =
     Some (Finite 65000) \<and>
   gauges (snd (main_loop_pass (xenv_of ConnectionFailed) started)) crypto_market_cap =
     Some (Finite 1700) \<and>
   gauges (snd (main_loop_pass (xenv_of ConnectionFailed) started)) crypto_api_status =
     Some (Finite 1) \<and>
   gauges (snd (main_loop_pass (xenv_of ConnectionFailed) started)) exchange_rate_usd =
     Some (Finite 450.5) \<and>
   gauges (snd (main_loop_pass (xenv_of ConnectionFailed) started)) exchange_rate_eur =
     Some (Finite 490.25) \<and>
   gauges (snd (main_loop_pass (xenv_of ConnectionFailed) started)) astana_population =
     Some (Finite 1300000) \<and>
   weather_fails (xenv_of (Response 503 (Some weather_body))) \<and>
   weather_fails (xenv_of (Response 200 None)) \<and>
   weather_fails (xenv_of (Response 200 (Some (JObj [(''hourly'', JObj [])]))))"
proof -
  define e where "e = xenv_of ConnectionFailed"
  define s1 where "s1 = after_uptime e started"
  define s2 where "s2 = snd (fetch_weather_data e s1)"
  define s3 where "s3 = snd (fetch_crypto_data e s2)"
  define s4 where "s4 = snd (fetch_exchange_rates e s3)"
  define s5 where "s5 = snd (fetch_static_data e s4)"
  have h: "weather_fails e"
    by (simp add: e_def weather_fails_no_reply)
  have cr: "crypto_reading e = Inr (Finite 65000, Finite 3000, Finite 1700)"
    by (simp add: e_def crypto_reading_sample)
  have ru: "rate_of e (usd_api e) = Inr (Finite 450.5)"
    and re: "rate_of e (eur_api e) = Inr (Finite 490.25)"
    by (simp_all add: e_def rate_of_sample)
  have b1: "weather_api (xenv_of (Response 503 (Some weather_body))) =
              Response 503 (Some weather_body) \<and> (400::int) \<le> 503 \<and> (503::int) < 600"
    by simp
  have b2: "weather_api (xenv_of (Response 200 None)) = Response 200 None"
    by simp
  have b3: "weather_api (xenv_of (Response 200 (Some (JObj [(''hourly'', JObj [])])))) =
              Response 200 (Some (JObj [(''hourly'', JObj [])])) \<and>
            \<not> ((400::int) \<le> 200 \<and> (200::int) < 600)"
    by simp
  note a = weather_failure_is_contained [OF h s1_def s2_def s3_def s4_def s5_def,
      where btc = "Finite 65000" and eth = "Finite 3000" and cap = "Finite 1700"
        and usd = "Finite 450.5" and eur = "Finite 490.25"]
  note b = weather_failure_is_contained [OF h s1_def s2_def s3_def s4_def s5_def,
      where ?e0.0 = "xenv_of (Response 503 (Some weather_body))" and code = 503
        and body = "Some weather_body"]
  note c = weather_failure_is_contained [OF h s1_def s2_def s3_def s4_def s5_def,
      where ?e0.0 = "xenv_of (Response 200 None)" and code = 200]
  note d = weather_failure_is_contained [OF h s1_def s2_def s3_def s4_def s5_def,
      where ?e0.0 = "xenv_of (Response 200 (Some (JObj [(''hourly'', JObj [])])))"
        and code = 200 and data = "JObj [(''hourly'', JObj [])]"]
  have p: "main_loop_pass e started =
           (Inr (),
            s5\<lparr>logged := logged s5 @
                           [(INFO, [Lit (sym_check @ '' All metrics updated successfully'')])],
               slept := slept s5 @ [20]\<rparr>)"
    using a by blast
  have g3: "gauges s3 = (gauges s2)(crypto_bitcoin_price \<mapsto> Finite 65000,
               crypto_ethereum_price \<mapsto> Finite 3000, crypto_market_cap \<mapsto> Finite 1700,
               crypto_api_status \<mapsto> Finite 1)"
  proof -
    have "fetch_crypto_data e s2 =
              (Inr True,
               s2\<lparr>logged := logged s2 @
                     [(INFO, [Lit (sym_check @ '' Crypto data fetched successfully'')])],
                  clock_reads := Suc (Suc (clock_reads s2)),
                  gauges := (gauges s2)(crypto_bitcoin_price \<mapsto> Finite 65000,
                              crypto_ethereum_price \<mapsto> Finite 3000,
                              crypto_market_cap \<mapsto> Finite 1700,
                              crypto_api_status \<mapsto> Finite 1),
                  api_response_time := (api_response_time s2)(''crypto'' :=
                     api_response_time s2 ''crypto'' @
                       [float_minus e (Finite (time_time e (Suc (clock_reads s2))))
                          (Finite (time_time e (clock_reads s2)))])\<rparr>)"
      using a cr by blast
    then show ?thesis
      by (simp add: s3_def)
  qed
  have g4: "gauges s4 = (gauges s3)(exchange_rate_usd \<mapsto> Finite 450.5,
               exchange_rate_eur \<mapsto> Finite 490.25)"
  proof -
    have "fetch_exchange_rates e s3 =
              (Inr True,
               s3\<lparr>logged := logged s3 @
                     [(INFO, [Lit (sym_check @ '' Exchange rates fetched successfully'')])],
                  clock_reads := Suc (Suc (clock_reads s3)),
                  gauges := (gauges s3)(exchange_rate_usd \<mapsto> Finite 450.5,
                              exchange_rate_eur \<mapsto> Finite 490.25),
                  api_response_time := (api_response_time s3)(''exchange'' :=
                     api_response_time s3 ''exchange'' @
                       [float_minus e (Finite (time_time e (Suc (clock_reads s3))))
                          (Finite (time_time e (clock_reads s3)))])\<rparr>)"
      using a ru re by blast
    then show ?thesis
      by (simp add: s4_def)
  qed
  have g5: "gauges s5 = (gauges s4)(astana_population \<mapsto> Finite 1300000,
               current_timestamp \<mapsto> Finite (time_time e (clock_reads s4)),
               random_metric \<mapsto>
                 float_rem e (Finite (time_time e (Suc (clock_reads s4)))) (Finite 100))"
  proof -
    have "fetch_static_data e s4 =
           (Inr True,
            s4\<lparr>logged := logged s4 @ [(INFO, [Lit (sym_check @ '' Static data updated'')])],
               clock_reads := Suc (Suc (clock_reads s4)),
               gauges := (gauges s4)(astana_population \<mapsto> Finite 1300000,
                           current_timestamp \<mapsto> Finite (time_time e (clock_reads s4)),
                           random_metric \<mapsto>
                             float_rem e (Finite (time_time e (Suc (clock_reads s4))))
                               (Finite 100))\<rparr>)"
      using a by blast
    then show ?thesis
      by (simp add: s5_def)
  qed
  have 1: "gauges (snd (main_loop_pass e started)) weather_api_status = Some (Finite 0)"
    using a by blast
  have "error_counter (snd (main_loop_pass e started)) ''weather'' =
          error_counter started ''weather'' + 1"
    using a by blast
  then have 2: "error_counter (snd (main_loop_pass e started)) ''weather'' = 1"
    by (simp add: started_def)
  have 3: "fst (main_loop_pass e started) = Inr ()"
    by (simp add: p)
  have 4: "gauges (snd (main_loop_pass e started)) crypto_bitcoin_price = Some (Finite 65000)"
      "gauges (snd (main_loop_pass e started)) crypto_market_cap = Some (Finite 1700)"
      "gauges (snd (main_loop_pass e started)) crypto_api_status = Some (Finite 1)"
      "gauges (snd (main_loop_pass e started)) exchange_rate_usd = Some (Finite 450.5)"
      "gauges (snd (main_loop_pass e started)) exchange_rate_eur = Some (Finite 490.25)"
      "gauges (snd (main_loop_pass e started)) astana_population = Some (Finite 1300000)"
    by (simp_all add: p g5 g4 g3 metric_defs)
  have 5: "weather_fails (xenv_of (Response 503 (Some weather_body)))"
    using b b1 by blast
  have 6: "weather_fails (xenv_of (Response 200 None))"
    using c b2 by blast
  have "weather_fails (xenv_of (Response 200 (Some (JObj [(''hourly'', JObj [])])))) =
          (case weather_values (xenv_of (Response 200 (Some (JObj [(''hourly'', JObj [])]))))
                  (JObj [(''hourly'', JObj [])]) of
             Inl ex \<Rightarrow> True | Inr v \<Rightarrow> False)"
    using d b3 by blast
  then have 7: "weather_fails (xenv_of (Response 200 (Some (JObj [(''hourly'', JObj [])]))))"
    by (simp add: weather_values_def ebind_def)
  show ?thesis
    using h 1 2 3 4 5 6 7 unfolding e_def by (intro conjI)
qed

text \<open>
  The claim as stated fails for a status that is neither 2xx nor 4xx/5xx, and for a body that
  is not of the expected form but can be read. With the status 300 and a well-formed body the
  fetch succeeds, the status gauge is 1 and no error is counted; so it is with the status 200
  and a body that gives the temperature as a string, the windspeed as \<^verbatim>\<open>true\<close> and the
  humidities as one string.
\<close>

theorem weather_status_300_counterexample:
  "weather_api (xenv_of (Response 300 (Some weather_body))) = Response 300 (Some weather_body) \<and>
   \<not> (200 \<le> (300::int) \<and> (300::int) < 300) \<and>
   fst (fetch_weather_data (xenv_of (Response 300 (Some weather_body))) started) = Inr True \<and>
   gauges (snd (fetch_weather_data (xenv_of (Response 300 (Some weather_body))) started))
     weather_api_status = Some (Finite 1) \<and>
   error_counter (snd (fetch_weather_data (xenv_of (Response 300 (Some weather_body))) started))
     ''weather'' = 0 \<and>
   fst (fetch_weather_data (xenv_of (Response 200 (Some confused_weather))) started) = Inr True \<and>
   gauges (snd (fetch_weather_data (xenv_of (Response 200 (Some confused_weather))) started))
     weather_api_status = Some (Finite 1) \<and>
   gauges (snd (fetch_weather_data (xenv_of (Response 200 (Some confused_weather))) started))
     weather_humidity = Some (Finite 0) \<and>
   error_counter (snd (fetch_weather_data (xenv_of (Response 200 (Some confused_weather))) started))
     ''weather'' = 0"
proof -
  have a: "weather_reading (xenv_of (Response 300 (Some weather_body))) =
             Inr (Finite 21.5, Finite 12, Finite 40, Finite 24)"
    by (simp add: weather_reading_sample)
  show ?thesis
    by (simp add: fetch_weather_data_success [OF a]
        fetch_weather_data_success [OF weather_reading_confused] started_def metric_defs)
qed


section \<open>The gauges hold the values of the replies\<close>

text \<open>
  C8. When \<^verbatim>\<open>fetch_exchange_rates\<close> succeeds, each of the two rate gauges holds the value
  under \<^verbatim>\<open>rates.KZT\<close> of its own reply, as \<^verbatim>\<open>float\<close> reads it and otherwise unchanged: a
  float is held as it is, an int up to \<open>2\<^sup>5\<^sup>3\<close> by its own value. When \<^verbatim>\<open>fetch_weather_data\<close>
  succeeds, the visibility gauge holds the first element of \<^verbatim>\<open>hourly.visibility\<close> divided by
  1000: for an int that 1000 divides the quotient itself, for a float the quotient of the
  floats. Either fetch succeeds whenever its values can be read.
\<close>

theorem gauges_hold_reply_values:
  "(fst (fetch_exchange_rates e s) = Inr True \<longrightarrow>
      (case rate_of e (usd_api e) of
         Inl ex \<Rightarrow> False
       | Inr u \<Rightarrow> gauges (snd (fetch_exchange_rates e s)) exchange_rate_usd = Some u) \<and>
      (case rate_of e (eur_api e) of
         Inl ex \<Rightarrow> False
       | Inr r \<Rightarrow> gauges (snd (fetch_exchange_rates e s)) exchange_rate_eur = Some r)) \<and>
   (rate_of e (usd_api e) = Inr usd \<and> rate_of e (eur_api e) = Inr eur \<longrightarrow>
      fst (fetch_exchange_rates e s) = Inr True) \<and>
   (fst (fetch_weather_data e s) = Inr True \<longrightarrow>
      (case raw_visibility (weather_api e) of
         Inl ex \<Rightarrow> False
       | Inr v \<Rightarrow>
           (case py_truediv e v 1000 of
              Inl ex \<Rightarrow> False
            | Inr x \<Rightarrow> gauges (snd (fetch_weather_data e s)) weather_visibility = Some x))) \<and>
   (weather_reading e = Inr (temperature, windspeed, humidity, visibility) \<longrightarrow>
      fst (fetch_weather_data e s) = Inr True) \<and>
   py_float e (JFloat x) = Inr x \<and>
   (\<bar>i\<bar> \<le> 2 ^ 53 \<longrightarrow> py_float e (JInt i) = Inr (Finite (of_int i))) \<and>
   (1000 dvd i \<and> \<bar>i div 1000\<bar> \<le> 2 ^ 53 \<longrightarrow>
      py_truediv e (JInt i) 1000 = Inr (Finite (of_int i / 1000))) \<and>
   py_truediv e (JFloat x) 1000 = Inr (float_truediv e x (Finite 1000))"
proof -
  have rates: "fst (fetch_exchange_rates e s) = Inr True \<longrightarrow>
      (case rate_of e (usd_api e) of
         Inl ex \<Rightarrow> False
       | Inr u \<Rightarrow> gauges (snd (fetch_exchange_rates e s)) exchange_rate_usd = Some u) \<and>
      (case rate_of e (eur_api e) of
         Inl ex \<Rightarrow> False
       | Inr r \<Rightarrow> gauges (snd (fetch_exchange_rates e s)) exchange_rate_eur = Some r)"
  proof (cases "rate_of e (usd_api e)")
    case (Inl ex)
    then show ?thesis
      using fetch_exchange_rates_failure [of e ex s] by simp
  next
    case u: (Inr u)
    show ?thesis
    proof (cases "rate_of e (eur_api e)")
      case (Inl ex)
      then show ?thesis
        using fetch_exchange_rates_failure [of e ex s] by simp
    next
      case (Inr r)
      then show ?thesis
        using u fetch_exchange_rates_success [of e u r s]
        by (simp add: exchange_rate_usd_def exchange_rate_eur_def)
    qed
  qed
  have rates_run: "rate_of e (usd_api e) = Inr usd \<and> rate_of e (eur_api e) = Inr eur \<longrightarrow>
      fst (fetch_exchange_rates e s) = Inr True"
    using fetch_exchange_rates_success [of e usd eur s] by simp
  have weather: "fst (fetch_weather_data e s) = Inr True \<longrightarrow>
      (case raw_visibility (weather_api e) of
         Inl ex \<Rightarrow> False
       | Inr v \<Rightarrow>
           (case py_truediv e v 1000 of
              Inl ex \<Rightarrow> False
            | Inr x \<Rightarrow> gauges (snd (fetch_weather_data e s)) weather_visibility = Some x))"
  proof (cases "weather_reading e")
    case (Inl ex)
    then show ?thesis
      using fetch_weather_data_failure [of e ex s] by simp
  next
    case (Inr v)
    obtain t w h x where v: "v = (t, w, h, x)"
      by (cases v) auto
    obtain raw where raw: "raw_visibility (weather_api e) = Inr raw" "py_truediv e raw 1000 = Inr x"
      using weather_reading_visibility [of e t w h x] Inr v by auto
    show ?thesis
      using fetch_weather_data_success [of e t w h x s] Inr v raw
      by (simp add: weather_visibility_def weather_api_status_def)
  qed
  have weather_run: "weather_reading e = Inr (temperature, windspeed, humidity, visibility) \<longrightarrow>
      fst (fetch_weather_data e s) = Inr True"
    using fetch_weather_data_success [of e temperature windspeed humidity visibility s] by simp
  have division: "1000 dvd i \<and> \<bar>i div 1000\<bar> \<le> 2 ^ 53 \<longrightarrow>
      py_truediv e (JInt i) 1000 = Inr (Finite (of_int i / 1000))"
  proof
    assume a: "1000 dvd i \<and> \<bar>i div 1000\<bar> \<le> 2 ^ 53"
    then obtain k where k: "i = 1000 * k"
      by (auto simp add: dvd_def)
    show "py_truediv e (JInt i) 1000 = Inr (Finite (of_int i / 1000))"
      using a by (simp add: int_div_def k)
  qed
  show ?thesis
    using rates rates_run weather weather_run division by simp
qed

theorem gauges_hold_reply_values_witness:
  "fst (fetch_exchange_rates (xenv_of (Response 200 (Some weather_body))) started) = Inr True \<and>
   gauges (snd (fetch_exchange_rates (xenv_of (Response 200 (Some weather_body))) started))
     exchange_rate_usd = Some (Finite 450.5) \<and>
   gauges (snd (fetch_exchange_rates (xenv_of (Response 200 (Some weather_body))) started))
     exchange_rate_eur = Some (Finite 490.25) \<and>
   fst (fetch_weather_data (xenv_of (Response 200 (Some weather_body))) started) = Inr True \<and>
   raw_visibility (Response 200 (Some weather_body)) = Inr (JInt 24000) \<and>
   gauges (snd (fetch_weather_data (xenv_of (Response 200 (Some weather_body))) started))
     weather_visibility = Some (Finite 24) \<and>
   py_float (xenv_of ConnectionFailed) (JInt 450) = Inr (Finite 450) \<and>
   py_truediv (xenv_of ConnectionFailed) (JInt 24000) 1000 = Inr (Finite 24)"
proof -
  let ?e = "xenv_of (Response 200 (Some weather_body))"
  have u: "rate_of ?e (usd_api ?e) = Inr (Finite 450.5)"
    and r: "rate_of ?e (eur_api ?e) = Inr (Finite 490.25)"
    by (simp_all add: rate_of_sample)
  have v: "raw_visibility (Response 200 (Some weather_body)) = Inr (JInt 24000)"
    by (simp add: raw_visibility_def reply_defs weather_body_def)
  have w: "weather_reading ?e = Inr (Finite 21.5, Finite 12, Finite 40, Finite 24)"
    by (simp add: weather_reading_sample)
  have d: "py_truediv ?e (JInt 24000) 1000 = Inr (Finite 24)"
    by (simp add: int_div_def)
  note a = gauges_hold_reply_values [where e = ?e and s = started and usd = "Finite 450.5"
      and eur = "Finite 490.25" and temperature = "Finite 21.5" and windspeed = "Finite 12"
      and humidity = "Finite 40" and visibility = "Finite 24" and x = "Finite 0" and i = 0]
  note b = gauges_hold_reply_values [where e = "xenv_of ConnectionFailed" and s = started
      and usd = "Finite 0" and eur = "Finite 0" and temperature = "Finite 0"
      and windspeed = "Finite 0" and humidity = "Finite 0" and visibility = "Finite 0"
      and x = "Finite 0" and i = 450]
  note c = gauges_hold_reply_values [where e = "xenv_of ConnectionFailed" and s = started
      and usd = "Finite 0" and eur = "Finite 0" and temperature = "Finite 0"
      and windspeed = "Finite 0" and humidity = "Finite 0" and visibility = "Finite 0"
      and x = "Finite 0" and i = 24000]
  have 1: "fst (fetch_exchange_rates ?e started) = Inr True"
    using a u r by blast
  have 2: "gauges (snd (fetch_exchange_rates ?e started)) exchange_rate_usd = Some (Finite 450.5)"
    using a 1 u by (elim conjE) simp
  have 7: "gauges (snd (fetch_exchange_rates ?e started)) exchange_rate_eur = Some (Finite 490.25)"
    using a 1 r by (elim conjE) simp
  have 3: "fst (fetch_weather_data ?e started) = Inr True"
    using a w by blast
  have 4: "gauges (snd (fetch_weather_data ?e started)) weather_visibility = Some (Finite 24)"
    using a 3 v d by (elim conjE) simp
  have 5: "py_float (xenv_of ConnectionFailed) (JInt 450) = Inr (Finite 450)"
    using b by (elim conjE) simp
  have 6: "py_truediv (xenv_of ConnectionFailed) (JInt 24000) 1000 = Inr (Finite 24)"
    using c by (elim conjE) simp
  show ?thesis
    using 1 2 7 3 4 5 6 v by simp
qed

end
